(* ===== verification/Prelude.thy ===== *)
theory Prelude
  imports Complex_Main "HOL-Library.Word" "HOL-Library.Stream"
begin

text \<open>
  Shared vocabulary of the development: the module-wide constants of \<open>src/tri.js\<close>
  (lines 1--5), the parts of JavaScript's semantics the program leans on (IEEE doubles are
  modelled as \<open>real\<close>; \<open>Math.random\<close> as a stream of draws; \<open>Math.atan2\<close>;
  \<open>Array.prototype.reduce\<close> without an initial value, which throws a \<open>TypeError\<close> on an
  empty array; the \<open>ToInt32\<close> conversion behind the bitwise operators; the clamping
  conversion of a \<open>Uint8ClampedArray\<close> store), the result type that combines a thrown
  exception with a loop that never returns, and the generic lemmas on these that the
  component theories share.
\<close>

unbundle bit_operations_syntax

named_theorems vec_defs "componentwise definitions of the vector and colour operations"
named_theorems js_simps "evaluation rules of the JavaScript built-ins modelled here"

section \<open>Module constants (tri.js lines 1--5)\<close>

definition DEG_TO_RAD :: real where
  "DEG_TO_RAD = pi / 180"

definition EPSILON :: real where
  "EPSILON = 1 / 10000"

definition MAX_BOUNCES :: nat where
  "MAX_BOUNCES = 3"

definition SPP :: nat where
  "SPP = 16"

definition AA :: nat where
  "AA = 4"

section \<open>JavaScript built-ins\<close>

text \<open>
  A thrown exception. The only one the program can raise is the \<open>TypeError\<close> of
  \<open>[].reduce(f)\<close> (``Reduce of empty array with no initial value'').
\<close>

datatype js_error = TypeError

text \<open>
  \<open>Math.random()\<close>: the program draws from one ambient generator; the model threads the
  infinite sequence of its outputs explicitly. A draw returns the head and the rest of the
  stream.
\<close>

type_synonym rng = "real stream"

definition js_random :: "rng \<Rightarrow> real \<times> rng" where
  "js_random s = (shd s, stl s)"

text \<open>
  A computation that may throw, may run forever (\<open>None\<close>), and otherwise returns a value
  and the rest of the random stream.
\<close>

type_synonym 'a js_result = "(js_error + 'a \<times> rng) option"

definition js_return :: "'a \<Rightarrow> rng \<Rightarrow> 'a js_result" where
  "js_return a s = Some (Inr (a, s))"

definition js_throw :: "js_error \<Rightarrow> 'a js_result" where
  "js_throw e = Some (Inl e)"

definition js_bind :: "'a js_result \<Rightarrow> ('a \<Rightarrow> rng \<Rightarrow> 'b js_result) \<Rightarrow> 'b js_result" where
  "js_bind m f = (case m of None \<Rightarrow> None | Some (Inl e) \<Rightarrow> Some (Inl e)
                  | Some (Inr (a, s)) \<Rightarrow> f a s)"

text \<open>A computation that cannot throw, lifted into \<open>js_result\<close>.\<close>

definition js_lift :: "('a \<times> rng) option \<Rightarrow> 'a js_result" where
  "js_lift m = map_option Inr m"

text \<open>
  \<open>Math.atan2(y, x)\<close> on reals (signed zeros are not modelled: \<open>atan2(0, x)\<close> for
  \<open>x < 0\<close> is \<open>\<pi>\<close>, the value for \<open>+0\<close>).
\<close>

definition js_atan2 :: "real \<Rightarrow> real \<Rightarrow> real" where
  "js_atan2 y x =
     (if 0 < x then arctan (y / x)
      else if x < 0 then (if 0 \<le> y then arctan (y / x) + pi else arctan (y / x) - pi)
      else if 0 < y then pi / 2 else if y < 0 then - (pi / 2) else 0)"

text \<open>\<open>Array.prototype.reduce(f)\<close> with no initial value.\<close>

definition js_reduce :: "('a \<Rightarrow> 'a \<Rightarrow> 'a) \<Rightarrow> 'a list \<Rightarrow> js_error + 'a" where
  "js_reduce f xs = (case xs of [] \<Rightarrow> Inl TypeError | x # xs' \<Rightarrow> Inr (foldl f x xs'))"

text \<open>
  \<open>ToInt32\<close>, the conversion applied to both operands of \<open>&\<close>, \<open>|\<close> and \<open>^\<close>:
  truncation towards zero, then reduction modulo \<open>2\<^sup>3\<^sup>2\<close>, which \<open>word_of_int\<close> does.
  (\<open>NaN\<close> and the infinities, which go to 0, do not occur among reals.)
\<close>

definition js_trunc :: "real \<Rightarrow> int" where
  "js_trunc x = (if 0 \<le> x then \<lfloor>x\<rfloor> else \<lceil>x\<rceil>)"

definition to_int32 :: "real \<Rightarrow> 32 word" where
  "to_int32 x = word_of_int (js_trunc x)"

text \<open>
  \<open>Math.pow(x, y)\<close> for the non-integer exponents the program uses (\<open>2.2\<close> and
  \<open>1/2.2\<close>): \<open>None\<close> stands for \<open>NaN\<close>, the result for a negative base.
\<close>

definition js_pow :: "real \<Rightarrow> real \<Rightarrow> real option" where
  "js_pow x y = (if x < 0 then None else Some (x powr y))"

text \<open>
  \<open>ToUint8Clamp\<close>, the conversion of a store into a \<open>Uint8ClampedArray\<close>
  (\<open>ImageData.data\<close>): \<open>NaN\<close> (here \<open>None\<close>) and values below 0 give 0, values above
  255 give 255, and the rest round to the nearest integer, ties to even.
\<close>

definition to_uint8_clamp :: "real option \<Rightarrow> 8 word" where
  "to_uint8_clamp v =
     (case v of None \<Rightarrow> 0
      | Some x \<Rightarrow>
          if x \<le> 0 then 0 else if 255 \<le> x then 255
          else (let f = \<lfloor>x\<rfloor> in
                if of_int f + 1 / 2 < x then word_of_int (f + 1)
                else if x < of_int f + 1 / 2 then word_of_int f
                else if even f then word_of_int f else word_of_int (f + 1)))"

text \<open>
  A counted \<open>for\<close> loop whose body may throw, may not return and draws from the random
  stream: the body runs on each element of the index list in order, threading an
  accumulator (the loop's mutable locals) and the stream. \<open>for (let i = 0; i < n; i++)\<close>
  is \<open>js_fold f [0..<n]\<close>.
\<close>

fun js_fold :: "('a \<Rightarrow> 'b \<Rightarrow> rng \<Rightarrow> 'b js_result) \<Rightarrow> 'a list \<Rightarrow> 'b \<Rightarrow> rng \<Rightarrow> 'b js_result" where
  "js_fold f [] b s = js_return b s"
| "js_fold f (x # xs) b s = js_bind (f x b s) (\<lambda>b' s'. js_fold f xs b' s')"

section \<open>Generic lemmas\<close>

lemma js_bind_simps [simp]:
  "js_bind None f = None"
  "js_bind (Some (Inl e)) f = Some (Inl e)"
  "js_bind (Some (Inr (a, s))) f = f a s"
  "js_bind (js_return a s) f = f a s"
  "js_bind (js_throw e) f = js_throw e"
  by (simp_all add: js_bind_def js_return_def js_throw_def)

lemma js_lift_simps [simp]:
  "js_lift None = None"
  "js_lift (Some (a, s)) = Some (Inr (a, s))"
  by (simp_all add: js_lift_def)

lemma js_bind_eq_Inr:
  "js_bind m f = Some (Inr r) \<longleftrightarrow> (\<exists>a s. m = Some (Inr (a, s)) \<and> f a s = Some (Inr r))"
  by (auto simp: js_bind_def split: option.splits sum.splits)

lemma js_random_simps [simp, js_simps]:
  "js_random s = (shd s, stl s)"
  by (simp add: js_random_def)

lemma sdrop_sconst [simp]: "sdrop n (sconst x) = sconst x"
  by (induction n) auto

lemma js_reduce_simps [simp, js_simps]:
  "js_reduce f [] = Inl TypeError"
  "js_reduce f (x # xs) = Inr (foldl f x xs)"
  by (simp_all add: js_reduce_def)

lemma find_append:
  "find P (xs @ ys) = (case find P xs of None \<Rightarrow> find P ys | Some x \<Rightarrow> Some x)"
  by (induction xs) auto

lemma map_filter_snoc:
  "List.map_filter f (xs @ [y]) = List.map_filter f xs @ (case f y of None \<Rightarrow> [] | Some v \<Rightarrow> [v])"
  by (induction xs) (auto split: option.splits)

lemma in_set_map_filter: "y \<in> set (List.map_filter f xs) \<longleftrightarrow> (\<exists>x \<in> set xs. f x = Some y)"
  by (induction xs) (auto split: option.splits)

lemma map_filter_map: "List.map_filter (\<lambda>y. y) (map f xs) = List.map_filter f xs"
  by (induction xs) (auto split: option.splits)

lemma js_trunc_nonneg [simp]: "0 \<le> x \<Longrightarrow> js_trunc x = \<lfloor>x\<rfloor>"
  by (simp add: js_trunc_def)

text \<open>The low bit of \<open>ToInt32(x)\<close> is the parity of the truncated value.\<close>

lemma to_int32_and_1: "to_int32 x AND 1 = (if odd (js_trunc x) then 1 else 0)"
proof -
  have "to_int32 x AND 1 = word_of_int (js_trunc x AND 1)"
    by (metis to_int32_def word_of_int_1 word_wi_log_defs(2))
  also have "\<dots> = word_of_int (js_trunc x mod 2)"
    by (simp add: and_one_eq)
  finally show ?thesis
    by (simp add: odd_iff_mod_2_eq_one even_iff_mod_2_eq_zero)
qed

lemma js_atan2_bounds: "- pi \<le> js_atan2 y x \<and> js_atan2 y x \<le> pi"
proof -
  have a: "- (pi / 2) < arctan t \<and> arctan t < pi / 2" for t
    by (rule arctan_bounded)
  have q: "arctan (y / x) \<le> 0" if "0 \<le> y" "x < 0"
    using that by (simp add: divide_nonneg_neg)
  have r: "0 < arctan (y / x)" if "y < 0" "x < 0"
    using that by (simp add: divide_neg_neg)
  show ?thesis
    unfolding js_atan2_def using a [of "y / x"] q r pi_gt_zero by auto
qed

lemma js_atan2_nonneg_x:
  "0 \<le> x \<Longrightarrow> - (pi / 2) \<le> js_atan2 y x \<and> js_atan2 y x \<le> pi / 2"
  unfolding js_atan2_def using arctan_bounded [of "y / x"] by auto

text \<open>
  The loop rule of \<open>js_fold\<close>: an invariant \<open>Q ys b s\<close> on the indices \<open>ys\<close> done so far,
  the accumulator and the stream, that every iteration re-establishes while returning and
  consuming a prefix of the stream, holds at the end, and the loop returns.
\<close>

lemma js_fold_rule:
  assumes "Q [] b s"
    and step: "\<And>ys x zs b s. xs = ys @ x # zs \<Longrightarrow> Q ys b s \<Longrightarrow>
                 \<exists>b' n. f x b s = js_return b' (sdrop n s) \<and> Q (ys @ [x]) b' (sdrop n s)"
  shows "\<exists>b' n. js_fold f xs b s = js_return b' (sdrop n s) \<and> Q xs b' (sdrop n s)"
proof -
  have "\<And>ys b s. xs = ys @ zs \<Longrightarrow> Q ys b s \<Longrightarrow>
          \<exists>b' n. js_fold f zs b s = js_return b' (sdrop n s) \<and> Q xs b' (sdrop n s)" for zs
  proof (induction zs)
    case Nil
    then show ?case by (metis append.right_neutral js_fold.simps(1) sdrop.simps(1))
  next
    case (Cons x zs)
    obtain b1 n1 where 1: "f x b s = js_return b1 (sdrop n1 s)" "Q (ys @ [x]) b1 (sdrop n1 s)"
      using step [OF Cons.prems(1)] Cons.prems(2) by blast
    obtain b2 n2 where 2: "js_fold f zs b1 (sdrop n1 s) = js_return b2 (sdrop n2 (sdrop n1 s))"
        "Q xs b2 (sdrop n2 (sdrop n1 s))"
      using Cons.IH [of "ys @ [x]" b1 "sdrop n1 s"] Cons.prems(1) 1(2) by auto
    show ?case
      using 1 2 by (auto simp: sdrop_add)
  qed
  from this [of "[]" xs] assms(1) show ?thesis by simp
qed

text \<open>
  Partial correctness of \<open>js_fold\<close>: an invariant on the indices done and the accumulator
  that every returning iteration re-establishes holds of the value a returning loop gives.
\<close>

lemma js_fold_inv:
  assumes "js_fold f xs b s = Some (Inr (b', s'))" "Q [] b"
    and step: "\<And>ys x zs b s b1 s1. xs = ys @ x # zs \<Longrightarrow> Q ys b \<Longrightarrow> f x b s = Some (Inr (b1, s1)) \<Longrightarrow>
                 Q (ys @ [x]) b1"
  shows "Q xs b'"
proof -
  have "\<And>ys b s. xs = ys @ zs \<Longrightarrow> Q ys b \<Longrightarrow> js_fold f zs b s = Some (Inr (b', s')) \<Longrightarrow> Q xs b'" for zs
  proof (induction zs)
    case Nil
    then show ?case by (simp add: js_return_def)
  next
    case (Cons x zs)
    obtain b1 s1 where 1: "f x b s = Some (Inr (b1, s1))" "js_fold f zs b1 s1 = Some (Inr (b', s'))"
      using Cons.prems(3) by (auto simp: js_bind_eq_Inr)
    show ?case
      using Cons.IH [of "ys @ [x]" b1 s1] Cons.prems(1) step [OF Cons.prems(1,2) 1(1)] 1(2) by simp
  qed
  from this [of "[]" xs b s] assms(1,2) show ?thesis by simp
qed

lemma js_fold_append:
  "js_fold f (xs @ ys) b s = js_bind (js_fold f xs b s) (\<lambda>b' s'. js_fold f ys b' s')"
  by (induction xs arbitrary: b s) (auto simp: js_bind_def js_return_def split: option.splits sum.splits)

text \<open>Four consecutive stores into a list are a splice of the four values.\<close>

lemma update4_splice:
  assumes "i + 4 \<le> length d"
  shows "d[i := a, i + 1 := b, i + 2 := c, i + 3 := e] = take i d @ [a, b, c, e] @ drop (i + 4) d"
proof (rule nth_equalityI)
  fix j assume "j < length (d[i := a, i + 1 := b, i + 2 := c, i + 3 := e])"
  then have j: "j < length d" by simp
  consider "j < i" | "j = i" | "j = i + 1" | "j = i + 2" | "j = i + 3" | "i + 4 \<le> j" by linarith
  then show "d[i := a, i + 1 := b, i + 2 := c, i + 3 := e] ! j = (take i d @ [a, b, c, e] @ drop (i + 4) d) ! j"
    by cases (use assms j in \<open>simp_all add: nth_list_update nth_append\<close>)
qed (use assms in simp)

lemma nth_splice:
  assumes "i + length B \<le> length d" "j < length d"
  shows "(take i d @ B @ drop (i + length B) d) ! j = (if i \<le> j \<and> j < i + length B then B ! (j - i) else d ! j)"
  using assms by (auto simp: nth_append min_def)

end
