(* ===== verification/Vec.thy ===== *)
theory Vec
  imports Prelude
begin

text \<open>
  The two value classes of \<open>tri.js\<close>: \<open>Color\<close> (lines 7--36) and \<open>Vec3\<close> (lines 38--82;
  the static \<open>randomUnit\<close> is in theory \<open>RandomUnit\<close>). Each is a datatype with one
  constructor named as the JavaScript constructor and the fields as selectors; every method
  returns a fresh value, as the source's methods do. The lemmas are the vector algebra the
  geometry needs: the dot product as a sum of squares, cross-product orthogonality, the
  Lagrange identity and the Cauchy--Schwarz bound it gives, unit length of \<open>normalize\<close>,
  and the involution and isometry properties of \<open>reflect\<close>.
\<close>

section \<open>Color\<close>

datatype color = Color (cr: real) (cg: real) (cb: real)

definition color_corrected :: "real \<Rightarrow> real \<Rightarrow> real \<Rightarrow> color" where
  "color_corrected r g b = Color (r powr 2.2) (g powr 2.2) (b powr 2.2)"

definition color_add :: "color \<Rightarrow> color \<Rightarrow> color" where
  "color_add a c = Color (cr a + cr c) (cg a + cg c) (cb a + cb c)"

definition color_sub :: "color \<Rightarrow> color \<Rightarrow> color" where
  "color_sub a c = Color (cr a - cr c) (cg a - cg c) (cb a - cb c)"

definition color_mulScalar :: "color \<Rightarrow> real \<Rightarrow> color" where
  "color_mulScalar a k = Color (cr a * k) (cg a * k) (cb a * k)"

definition color_divScalar :: "color \<Rightarrow> real \<Rightarrow> color" where
  "color_divScalar a k = (let reciprocal = 1 / k in color_mulScalar a reciprocal)"

definition color_mul :: "color \<Rightarrow> color \<Rightarrow> color" where
  "color_mul a c = Color (cr a * cr c) (cg a * cg c) (cb a * cb c)"

declare color_add_def [vec_defs] color_sub_def [vec_defs] color_mulScalar_def [vec_defs]
  color_divScalar_def [vec_defs] color_mul_def [vec_defs]

section \<open>Vec3\<close>

datatype vec3 = Vec3 (vx: real) (vy: real) (vz: real)

abbreviation vzero :: vec3 where
  "vzero \<equiv> Vec3 0 0 0"

definition vec3_add :: "vec3 \<Rightarrow> vec3 \<Rightarrow> vec3" where
  "vec3_add a c = Vec3 (vx a + vx c) (vy a + vy c) (vz a + vz c)"

definition vec3_sub :: "vec3 \<Rightarrow> vec3 \<Rightarrow> vec3" where
  "vec3_sub a c = Vec3 (vx a - vx c) (vy a - vy c) (vz a - vz c)"

definition vec3_mulScalar :: "vec3 \<Rightarrow> real \<Rightarrow> vec3" where
  "vec3_mulScalar a k = Vec3 (vx a * k) (vy a * k) (vz a * k)"

definition vec3_divScalar :: "vec3 \<Rightarrow> real \<Rightarrow> vec3" where
  "vec3_divScalar a k = (let reciprocal = 1 / k in vec3_mulScalar a reciprocal)"

definition vec3_dot :: "vec3 \<Rightarrow> vec3 \<Rightarrow> real" where
  "vec3_dot a c = vx a * vx c + vy a * vy c + vz a * vz c"

definition vec3_cross :: "vec3 \<Rightarrow> vec3 \<Rightarrow> vec3" where
  "vec3_cross a c =
     Vec3 (vy a * vz c - vz a * vy c) (vz a * vx c - vx a * vz c) (vx a * vy c - vy a * vx c)"

definition vec3_length :: "vec3 \<Rightarrow> real" where
  "vec3_length a = sqrt (vec3_dot a a)"

definition vec3_normalize :: "vec3 \<Rightarrow> vec3" where
  "vec3_normalize a = vec3_divScalar a (vec3_length a)"

text \<open>\<open>n.reflect(v)\<close>: the receiver is the normal, the argument the incident vector.\<close>

definition vec3_reflect :: "vec3 \<Rightarrow> vec3 \<Rightarrow> vec3" where
  "vec3_reflect n v = vec3_sub v (vec3_mulScalar n (2 * vec3_dot n v))"

declare vec3_add_def [vec_defs] vec3_sub_def [vec_defs] vec3_mulScalar_def [vec_defs]
  vec3_divScalar_def [vec_defs] vec3_dot_def [vec_defs] vec3_cross_def [vec_defs]

text \<open>
  Division by a zero length: JavaScript computes \<open>1/0 = Infinity\<close> and then \<open>0 * Infinity =
  NaN\<close>, so \<open>normalize\<close> of the zero vector is a vector of \<open>NaN\<close>s, while HOL's
  \<open>1/0 = 0\<close> makes it the zero vector. Every lemma below about \<open>vec3_normalize\<close> therefore
  assumes a non-zero argument; the components that call it discharge that assumption.
\<close>

section \<open>Lemmas\<close>

lemma vec3_eq_iff: "a = c \<longleftrightarrow> vx a = vx c \<and> vy a = vy c \<and> vz a = vz c"
  by (cases a; cases c) simp

lemma vec3_ops_sel [simp]:
  "vx (vec3_add a c) = vx a + vx c" "vy (vec3_add a c) = vy a + vy c"
  "vz (vec3_add a c) = vz a + vz c"
  "vx (vec3_sub a c) = vx a - vx c" "vy (vec3_sub a c) = vy a - vy c"
  "vz (vec3_sub a c) = vz a - vz c"
  "vx (vec3_mulScalar a k) = vx a * k" "vy (vec3_mulScalar a k) = vy a * k"
  "vz (vec3_mulScalar a k) = vz a * k"
  by (simp_all add: vec_defs)

lemma color_ops_sel [simp]:
  "cr (color_add a c) = cr a + cr c" "cg (color_add a c) = cg a + cg c"
  "cb (color_add a c) = cb a + cb c"
  "cr (color_mul a c) = cr a * cr c" "cg (color_mul a c) = cg a * cg c"
  "cb (color_mul a c) = cb a * cb c"
  "cr (color_mulScalar a k) = cr a * k" "cg (color_mulScalar a k) = cg a * k"
  "cb (color_mulScalar a k) = cb a * k"
  by (simp_all add: vec_defs)

lemma vec3_zero_simps [simp]:
  "vec3_mulScalar a 0 = vzero" "vec3_mulScalar vzero k = vzero"
  "vec3_add a vzero = a" "vec3_add vzero a = a" "vec3_sub a vzero = a"
  "vec3_dot a vzero = 0" "vec3_dot vzero a = 0"
  by (simp_all add: vec_defs vec3_eq_iff)

lemma vec3_dot_self_nonneg [simp]: "0 \<le> vec3_dot a a"
  by (simp add: vec3_dot_def)

lemma vec3_dot_self_eq_0 [simp]: "vec3_dot a a = 0 \<longleftrightarrow> a = vzero"
proof -
  have "vec3_dot a a = vx a ^ 2 + vy a ^ 2 + vz a ^ 2"
    by (simp add: vec3_dot_def power2_eq_square)
  then have "vec3_dot a a = 0 \<longleftrightarrow> vx a = 0 \<and> vy a = 0 \<and> vz a = 0"
    by (simp add: sum_power2_eq_zero_iff add_nonneg_eq_0_iff)
  then show ?thesis by (simp add: vec3_eq_iff)
qed

lemma vec3_dot_self_pos: "a \<noteq> vzero \<Longrightarrow> 0 < vec3_dot a a"
  using vec3_dot_self_nonneg [of a] vec3_dot_self_eq_0 [of a] by linarith

lemma vec3_dot_commute: "vec3_dot a c = vec3_dot c a"
  by (simp add: vec3_dot_def mult.commute)

lemma vec3_dot_add_sub [simp]:
  "vec3_dot (vec3_add a b) c = vec3_dot a c + vec3_dot b c"
  "vec3_dot (vec3_sub a b) c = vec3_dot a c - vec3_dot b c"
  "vec3_dot c (vec3_add a b) = vec3_dot c a + vec3_dot c b"
  "vec3_dot c (vec3_sub a b) = vec3_dot c a - vec3_dot c b"
  by (simp_all add: vec3_dot_def algebra_simps)

lemma vec3_dot_scale [simp]:
  "vec3_dot (vec3_mulScalar a k) c = k * vec3_dot a c"
  "vec3_dot c (vec3_mulScalar a k) = k * vec3_dot c a"
  by (simp_all add: vec3_dot_def algebra_simps)

lemmas vec3_dot_linear = vec3_dot_add_sub vec3_dot_scale

lemma vec3_length_nonneg [simp]: "0 \<le> vec3_length a"
  by (simp add: vec3_length_def)

lemma vec3_length_pos: "a \<noteq> vzero \<Longrightarrow> 0 < vec3_length a"
  by (simp add: vec3_length_def vec3_dot_self_pos)

lemma vec3_length_sq: "vec3_length a ^ 2 = vec3_dot a a"
  by (simp add: vec3_length_def)

lemma vec3_length_eq_0 [simp]: "vec3_length a = 0 \<longleftrightarrow> a = vzero"
  by (simp add: vec3_length_def)

text \<open>\<open>normalize\<close> is scaling by the reciprocal of the length.\<close>

lemma vec3_normalize_scale: "vec3_normalize a = vec3_mulScalar a (1 / vec3_length a)"
  by (simp add: vec3_normalize_def vec3_divScalar_def)

lemma vec3_normalize_dot_self:
  "a \<noteq> vzero \<Longrightarrow> vec3_dot (vec3_normalize a) (vec3_normalize a) = 1"
proof -
  assume a: "a \<noteq> vzero"
  have "vec3_dot (vec3_normalize a) (vec3_normalize a) = vec3_dot a a / vec3_length a ^ 2"
    by (simp add: vec3_normalize_scale power2_eq_square)
  also have "\<dots> = 1"
    using a by (simp add: vec3_length_sq vec3_dot_self_pos)
  finally show ?thesis .
qed

lemma vec3_length_normalize: "a \<noteq> vzero \<Longrightarrow> vec3_length (vec3_normalize a) = 1"
  by (simp add: vec3_length_def vec3_normalize_dot_self)

lemma vec3_normalize_nonzero: "a \<noteq> vzero \<Longrightarrow> vec3_normalize a \<noteq> vzero"
  using vec3_normalize_dot_self [of a] by (auto simp: vec3_dot_def)

text \<open>Scaling by a positive factor does not change the direction.\<close>

lemma vec3_normalize_mulScalar:
  assumes "0 < k"
  shows "vec3_normalize (vec3_mulScalar a k) = vec3_normalize a"
proof -
  have "vec3_dot (vec3_mulScalar a k) (vec3_mulScalar a k) = k ^ 2 * vec3_dot a a"
    by (simp add: power2_eq_square)
  then have "vec3_length (vec3_mulScalar a k) = k * vec3_length a"
    using assms by (simp add: vec3_length_def real_sqrt_mult)
  then show ?thesis
    using assms by (simp add: vec3_normalize_scale vec3_eq_iff)
qed

lemma vec3_normalize_unit: "vec3_length a = 1 \<Longrightarrow> vec3_normalize a = a"
  by (simp add: vec3_normalize_scale vec3_eq_iff)

lemma vec3_normalize_idem:
  "a \<noteq> vzero \<Longrightarrow> vec3_normalize (vec3_normalize a) = vec3_normalize a"
  by (simp add: vec3_normalize_unit vec3_length_normalize)

lemma vec3_dot_cross_left: "vec3_dot a (vec3_cross a b) = 0"
  by (simp add: vec3_dot_def vec3_cross_def algebra_simps)

lemma vec3_dot_cross_right: "vec3_dot b (vec3_cross a b) = 0"
  by (simp add: vec3_dot_def vec3_cross_def algebra_simps)

text \<open>The Lagrange identity, and the Cauchy--Schwarz inequality that follows from it.\<close>

lemma vec3_lagrange:
  "vec3_dot a a * vec3_dot b b - (vec3_dot a b) ^ 2 = vec3_dot (vec3_cross a b) (vec3_cross a b)"
  by (simp add: vec3_dot_def vec3_cross_def power2_eq_square algebra_simps)

lemma vec3_cauchy_schwarz_sq: "(vec3_dot a b) ^ 2 \<le> vec3_dot a a * vec3_dot b b"
  using vec3_lagrange [of a b] vec3_dot_self_nonneg [of "vec3_cross a b"] by linarith

lemma vec3_cauchy_schwarz: "\<bar>vec3_dot a b\<bar> \<le> vec3_length a * vec3_length b"
proof -
  have "sqrt ((vec3_dot a b) ^ 2) \<le> sqrt (vec3_dot a a * vec3_dot b b)"
    by (rule real_sqrt_le_mono [OF vec3_cauchy_schwarz_sq])
  then show ?thesis
    by (simp add: vec3_length_def real_sqrt_mult)
qed

text \<open>For a unit normal, \<open>reflect\<close> flips the normal component and keeps the length.\<close>

lemma vec3_reflect_dot_normal:
  "vec3_dot n n = 1 \<Longrightarrow> vec3_dot n (vec3_reflect n v) = - vec3_dot n v"
  by (simp add: vec3_reflect_def)

lemma vec3_reflect_involutive:
  "vec3_dot n n = 1 \<Longrightarrow> vec3_reflect n (vec3_reflect n v) = v"
  by (simp add: vec3_reflect_def vec3_eq_iff algebra_simps)

lemma vec3_reflect_length:
  assumes "vec3_dot n n = 1"
  shows "vec3_length (vec3_reflect n v) = vec3_length v"
proof -
  have "vec3_dot (vec3_reflect n v) (vec3_reflect n v) = vec3_dot v v"
    using assms by (simp add: vec3_reflect_def vec3_dot_commute [of v n] algebra_simps)
  then show ?thesis by (simp add: vec3_length_def)
qed

lemma vec3_normalize_sub_swap:
  "vec3_normalize (vec3_sub b a) = vec3_mulScalar (vec3_normalize (vec3_sub a b)) (-1)"
proof -
  have "vec3_length (vec3_sub b a) = vec3_length (vec3_sub a b)"
    by (simp add: vec3_length_def vec3_dot_def algebra_simps)
  then show ?thesis by (simp add: vec3_normalize_scale vec3_eq_iff minus_divide_left)
qed

lemma vec3_dot_normalize:
  "vec3_dot (vec3_normalize a) (vec3_normalize b) = vec3_dot a b / (vec3_length a * vec3_length b)"
  by (simp add: vec3_normalize_scale)

end
