(* ===== verification/ImageData.thy ===== *)
theory ImageData
  imports Vec
begin

text \<open>
  The canvas buffer of \<open>tri.js\<close> and the writes into it: \<open>ImageData\<close> as a record of its
  width, height and \<open>Uint8ClampedArray\<close> of bytes (\<open>context.createImageData\<close>, line 321),
  a typed-array store (converted with \<open>ToUint8Clamp\<close>, ignored out of range), \<open>setPixel\<close>
  (lines 249--256) and \<open>clamp\<close> (lines 258--266, defined but never called). The spec's
  layout is \<open>pixel_offset\<close>: four bytes per pixel, row-major, the vertical axis flipped.
  Proved: \<open>setPixel\<close> inside the image writes exactly its pixel's four bytes; two writes to
  different pixels commute; a column past the edge aliases the next row; every buffer reached
  from \<open>createImageData\<close> by \<open>setPixel\<close> calls, whatever their arguments, keeps its size and
  never holds a torn pixel.
\<close>

record image_data =
  width :: nat
  height :: nat
  data :: "8 word list"

text \<open>\<open>context.createImageData(w, h)\<close>: a transparent black buffer of \<open>4 w h\<close> bytes.\<close>

definition createImageData :: "nat \<Rightarrow> nat \<Rightarrow> image_data" where
  "createImageData w h = \<lparr>width = w, height = h, data = replicate (w * h * 4) 0\<rparr>"

text \<open>\<open>a[i] = v\<close> on a typed array: stored when \<open>i\<close> is a valid index, ignored otherwise.\<close>

definition ta_set :: "int \<Rightarrow> 8 word \<Rightarrow> 8 word list \<Rightarrow> 8 word list" where
  "ta_set i v xs = (if 0 \<le> i \<and> i < int (length xs) then xs[nat i := v] else xs)"

text \<open>\<open>Math.pow(c, 1/2.2) * 255\<close> stored into the clamped byte array.\<close>

definition gamma_byte :: "real \<Rightarrow> 8 word" where
  "gamma_byte c = to_uint8_clamp (map_option (\<lambda>p. p * 255) (js_pow c (1 / (22 / 10))))"

definition setPixel :: "image_data \<Rightarrow> nat \<Rightarrow> nat \<Rightarrow> color \<Rightarrow> image_data" where
  "setPixel imageData x y color =
     (let y_inverted = int (height imageData) - int y - 1;
          index = (int x + y_inverted * int (width imageData)) * 4;
          d0 = ta_set (index + 0) (gamma_byte (cr color)) (data imageData);
          d1 = ta_set (index + 1) (gamma_byte (cg color)) d0;
          d2 = ta_set (index + 2) (gamma_byte (cb color)) d1;
          d3 = ta_set (index + 3) 255 d2
      in imageData\<lparr>data := d3\<rparr>)"

definition clamp :: "real \<Rightarrow> real \<Rightarrow> real \<Rightarrow> real" where
  "clamp t lo hi = (if t < lo then lo else if t > hi then hi else t)"


section \<open>The pixel layout\<close>

text \<open>
  Where the spec puts pixel \<open>(x, y)\<close> (row 0 at the bottom): at byte
  \<open>4 (x + (h - 1 - y) w)\<close> of a row-major buffer, and the four bytes it holds.
\<close>

definition pixel_offset :: "nat \<Rightarrow> nat \<Rightarrow> nat \<Rightarrow> nat \<Rightarrow> nat" where
  "pixel_offset w h x y = (x + (h - 1 - y) * w) * 4"

definition pixel_block :: "image_data \<Rightarrow> nat \<Rightarrow> nat \<Rightarrow> 8 word list" where
  "pixel_block img x y = take 4 (drop (pixel_offset (width img) (height img) x y) (data img))"

definition pixel_bytes :: "color \<Rightarrow> 8 word list" where
  "pixel_bytes c = [gamma_byte (cr c), gamma_byte (cg c), gamma_byte (cb c), 255]"


text \<open>A buffer of the size \<open>createImageData\<close> allocates.\<close>

definition well_sized :: "image_data \<Rightarrow> bool" where
  "well_sized img \<longleftrightarrow> length (data img) = width img * height img * 4"


text \<open>
  Block \<open>k\<close> of a buffer is its \<open>k\<close>-th group of four bytes. A buffer is untorn when it has
  the size \<open>createImageData\<close> gave it and every block is either still transparent black
  or the complete encoding of one colour.
\<close>

definition block_at :: "8 word list \<Rightarrow> nat \<Rightarrow> 8 word list" where
  "block_at d k = take 4 (drop (4 * k) d)"

definition untorn :: "image_data \<Rightarrow> bool" where
  "untorn img \<longleftrightarrow> well_sized img \<and>
     (\<forall>k < width img * height img. block_at (data img) k = [0, 0, 0, 0] \<or> (\<exists>c. block_at (data img) k = pixel_bytes c))"

text \<open>
  The buffers a program can reach from \<open>createImageData(w, h)\<close> by \<open>setPixel\<close> calls
  with any arguments, in any order: the state machine of the canvas buffer.
\<close>

inductive buffer_reach :: "nat \<Rightarrow> nat \<Rightarrow> image_data \<Rightarrow> bool" where
  buffer_create: "buffer_reach w h (createImageData w h)"
| buffer_write: "buffer_reach w h img \<Longrightarrow> buffer_reach w h (setPixel img x y c)"

lemma pixel_offset_bound:
  "x < w \<Longrightarrow> y < h \<Longrightarrow> pixel_offset w h x y + 4 \<le> w * h * 4"
proof -
  assume "x < w" "y < h"
  then have "x + (h - 1 - y) * w + 1 \<le> w + (h - 1) * w"
    using mult_le_mono1 [of "h - 1 - y" "h - 1" w] by linarith
  also have "\<dots> = w * h"
    using \<open>y < h\<close> by (cases h) (simp_all add: algebra_simps)
  finally have "(x + (h - 1 - y) * w + 1) * 4 \<le> w * h * 4" by simp
  then show ?thesis unfolding pixel_offset_def by simp
qed

lemma pixel_offset_inj:
  assumes "x < w" "y < h" "x' < w" "y' < h" "pixel_offset w h x y = pixel_offset w h x' y'"
  shows "x = x' \<and> y = y'"
proof -
  have e: "x + (h - 1 - y) * w = x' + (h - 1 - y') * w"
    using assms(5) by (simp add: pixel_offset_def)
  then have "(x + (h - 1 - y) * w) mod w = (x' + (h - 1 - y') * w) mod w" by simp
  then have "x = x'" using assms(1,3) by simp
  with e have "(h - 1 - y) * w = (h - 1 - y') * w" by simp
  then have "h - 1 - y = h - 1 - y'" using assms(1) by simp
  with \<open>x = x'\<close> show ?thesis using assms(2,4) by simp
qed

text \<open>Two distinct pixels' blocks do not overlap.\<close>

lemma pixel_offset_disjoint:
  assumes "x < w" "y < h" "x' < w" "y' < h" "(x, y) \<noteq> (x', y')"
  shows "pixel_offset w h x y + 4 \<le> pixel_offset w h x' y' \<or> pixel_offset w h x' y' + 4 \<le> pixel_offset w h x y"
proof -
  have "pixel_offset w h x y \<noteq> pixel_offset w h x' y'"
    using pixel_offset_inj [OF assms(1-4)] assms(5) by auto
  moreover have "4 dvd pixel_offset w h x y" "4 dvd pixel_offset w h x' y'"
    by (simp_all add: pixel_offset_def)
  ultimately show ?thesis by (auto elim!: dvdE)
qed

lemma ta_set_nat: "i < length xs \<Longrightarrow> ta_set (int i) v xs = xs[i := v]"
  by (simp add: ta_set_def)

lemma setPixel_index:
  "y < h \<Longrightarrow> (int x + (int h - int y - 1) * int w) * 4 = int (pixel_offset w h x y)"
  by (simp add: pixel_offset_def of_nat_diff)

lemma setPixel_data:
  assumes "well_sized img" "x < width img" "y < height img"
  shows "data (setPixel img x y c) =
           take (pixel_offset (width img) (height img) x y) (data img) @ pixel_bytes c @
           drop (pixel_offset (width img) (height img) x y + 4) (data img)"
proof -
  let ?i = "pixel_offset (width img) (height img) x y"
  have b: "?i + 4 \<le> length (data img)"
    using pixel_offset_bound [OF assms(2,3)] assms(1) by (simp add: well_sized_def)
  have "data (setPixel img x y c) =
          ta_set (int ?i + 3) 255 (ta_set (int ?i + 2) (gamma_byte (cb c))
            (ta_set (int ?i + 1) (gamma_byte (cg c)) (ta_set (int ?i + 0) (gamma_byte (cr c)) (data img))))"
    unfolding setPixel_def Let_def setPixel_index [OF assms(3)] by simp
  also have "\<dots> = (data img)[?i := gamma_byte (cr c), ?i + 1 := gamma_byte (cg c),
                               ?i + 2 := gamma_byte (cb c), ?i + 3 := 255]"
    using b by (simp add: ta_set_def nat_add_distrib)
  also have "\<dots> = take ?i (data img) @ pixel_bytes c @ drop (?i + 4) (data img)"
    using update4_splice [OF b] by (simp add: pixel_bytes_def)
  finally show ?thesis .
qed

lemma setPixel_sel [simp]:
  "width (setPixel img x y c) = width img" "height (setPixel img x y c) = height img"
  by (simp_all add: setPixel_def Let_def)

lemma length_setPixel [simp]: "length (data (setPixel img x y c)) = length (data img)"
  by (simp add: setPixel_def Let_def ta_set_def)

lemma well_sized_setPixel [simp]: "well_sized (setPixel img x y c) = well_sized img"
  by (simp add: well_sized_def)

lemma nth_setPixel:
  assumes "well_sized img" "x < width img" "y < height img" "j < length (data img)"
  shows "data (setPixel img x y c) ! j =
           (let i = pixel_offset (width img) (height img) x y in
            if i \<le> j \<and> j < i + 4 then pixel_bytes c ! (j - i) else data img ! j)"
proof -
  have b: "pixel_offset (width img) (height img) x y + length (pixel_bytes c) \<le> length (data img)"
    using pixel_offset_bound [OF assms(2,3)] assms(1) by (simp add: well_sized_def pixel_bytes_def)
  have l: "length (pixel_bytes c) = 4" by (simp add: pixel_bytes_def)
  show ?thesis
    using nth_splice [OF b assms(4)] unfolding setPixel_data [OF assms(1-3)] l Let_def .
qed

lemma pixel_block_setPixel:
  assumes "well_sized img" "x < width img" "y < height img" "x' < width img" "y' < height img"
  shows "pixel_block (setPixel img x y c) x' y' = (if (x', y') = (x, y) then pixel_bytes c else pixel_block img x' y')"
proof -
  let ?i = "pixel_offset (width img) (height img) x y"
  let ?j = "pixel_offset (width img) (height img) x' y'"
  have bj: "?j + 4 \<le> length (data img)"
    using pixel_offset_bound [OF assms(4,5)] assms(1) by (simp add: well_sized_def)
  have d: "(x', y') \<noteq> (x, y) \<Longrightarrow> ?i + 4 \<le> ?j \<or> ?j + 4 \<le> ?i"
    using pixel_offset_disjoint [OF assms(2,3,4,5)] by auto
  have "take 4 (drop ?j (data (setPixel img x y c))) =
        (if (x', y') = (x, y) then pixel_bytes c else take 4 (drop ?j (data img)))"
  proof (rule nth_equalityI)
    show "length (take 4 (drop ?j (data (setPixel img x y c)))) =
          length (if (x', y') = (x, y) then pixel_bytes c else take 4 (drop ?j (data img)))"
      using bj by (simp add: pixel_bytes_def)
  next
    fix k assume "k < length (take 4 (drop ?j (data (setPixel img x y c))))"
    then have k: "k < 4" "?j + k < length (data img)" by auto
    show "take 4 (drop ?j (data (setPixel img x y c))) ! k =
          (if (x', y') = (x, y) then pixel_bytes c else take 4 (drop ?j (data img))) ! k"
      using nth_setPixel [OF assms(1-3) k(2)] d k by (auto simp: Let_def)
  qed
  then show ?thesis by (simp add: pixel_block_def)
qed


lemma setPixel_aligned:
  assumes "well_sized img"
  shows "data (setPixel img x y c) = data img \<or>
         (\<exists>k < width img * height img.
            data (setPixel img x y c) = take (4 * k) (data img) @ pixel_bytes c @ drop (4 * k + 4) (data img))"
proof -
  let ?j = "int x + (int (height img) - int y - 1) * int (width img)"
  let ?d = "data img"
  have len: "length ?d = width img * height img * 4" using assms by (simp add: well_sized_def)
  have d: "data (setPixel img x y c) =
          ta_set (?j * 4 + 3) 255 (ta_set (?j * 4 + 2) (gamma_byte (cb c))
            (ta_set (?j * 4 + 1) (gamma_byte (cg c)) (ta_set (?j * 4 + 0) (gamma_byte (cr c)) ?d)))"
    unfolding setPixel_def Let_def by simp
  consider "?j < 0" | "int (width img * height img) \<le> ?j" | k where "?j = int k" "k < width img * height img"
    by (metis not_le nonneg_int_cases of_nat_less_iff)
  then show ?thesis
  proof cases
    case 1
    then show ?thesis using d by (simp add: ta_set_def)
  next
    case 2
    then have "int (length ?d) \<le> ?j * 4" using len by simp
    then show ?thesis using d by (simp add: ta_set_def)
  next
    case 3
    then have b: "4 * k + 4 \<le> length ?d" using len by simp
    define i where "i = 4 * k"
    have bi: "i + 4 \<le> length ?d" using b by (simp add: i_def)
    have j4: "?j * 4 = int i" using 3(1) by (simp add: i_def)
    have "data (setPixel img x y c) =
          ta_set (int i + 3) 255 (ta_set (int i + 2) (gamma_byte (cb c))
            (ta_set (int i + 1) (gamma_byte (cg c)) (ta_set (int i + 0) (gamma_byte (cr c)) ?d)))"
      unfolding setPixel_def Let_def j4 by simp
    also have "\<dots> = ?d[i := gamma_byte (cr c), i + 1 := gamma_byte (cg c), i + 2 := gamma_byte (cb c), i + 3 := 255]"
      using bi by (simp add: ta_set_def nat_add_distrib)
    also have "\<dots> = take (4 * k) ?d @ pixel_bytes c @ drop (4 * k + 4) ?d"
      using update4_splice [OF bi] by (simp add: pixel_bytes_def i_def)
    finally show ?thesis using 3(2) by blast
  qed
qed

lemma length_block_at: "4 * k + 4 \<le> length d \<Longrightarrow> length (block_at d k) = 4"
  by (simp add: block_at_def)

lemma nth_block_at: "i < length (block_at d k) \<Longrightarrow> block_at d k ! i = d ! (4 * k + i)"
  by (simp add: block_at_def nth_drop less_diff_conv)

lemma block_at_splice:
  assumes "length d = 4 * n" "k < n" "k' < n" "length B = 4"
  shows "block_at (take (4 * k) d @ B @ drop (4 * k + 4) d) k' = (if k' = k then B else block_at d k')"
proof -
  let ?X = "take (4 * k) d @ B @ drop (4 * k + 4) d"
  have L: "length ?X = length d" using assms by simp
  have X: "?X = take (4 * k) d @ B @ drop (4 * k + length B) d" using assms(4) by simp
  have f: "4 * k' + 4 \<le> length d" using assms by simp
  have a: "length (block_at ?X k') = 4"
    by (rule length_block_at) (simp only: L f)
  have b: "length (if k' = k then B else block_at d k') = 4"
    using assms(4) length_block_at [OF f] by simp
  show ?thesis
  proof (rule nth_equalityI)
    show "length (block_at ?X k') = length (if k' = k then B else block_at d k')"
      using a b by simp
  next
    fix i assume "i < length (block_at ?X k')"
    then have i: "i < 4" "4 * k' + i < length d" using a f by simp_all
    have "block_at ?X k' ! i = ?X ! (4 * k' + i)"
      by (rule nth_block_at) (use a i in simp)
    also have "\<dots> = (if 4 * k \<le> 4 * k' + i \<and> 4 * k' + i < 4 * k + length B
                      then B ! (4 * k' + i - 4 * k) else d ! (4 * k' + i))"
      unfolding X by (rule nth_splice) (use assms i in simp_all)
    also have "\<dots> = (if k' = k then B ! i else d ! (4 * k' + i))"
      using i(1) assms(4) by auto
    also have "\<dots> = (if k' = k then B else block_at d k') ! i"
      using nth_block_at [of i d k'] length_block_at [OF f] i(1) by simp
    finally show "block_at ?X k' ! i = (if k' = k then B else block_at d k') ! i" .
  qed
qed

lemma untorn_setPixel:
  assumes "untorn img"
  shows "untorn (setPixel img x y c)"
proof -
  have ws: "well_sized img" using assms by (simp add: untorn_def)
  have lp: "length (pixel_bytes c) = 4" by (simp add: pixel_bytes_def)
  have len: "length (data img) = 4 * (width img * height img)" using ws by (simp add: well_sized_def)
  from setPixel_aligned [OF ws, of x y c] show ?thesis
  proof
    assume "data (setPixel img x y c) = data img"
    then show ?thesis using assms by (simp add: untorn_def well_sized_def)
  next
    assume "\<exists>k < width img * height img.
            data (setPixel img x y c) = take (4 * k) (data img) @ pixel_bytes c @ drop (4 * k + 4) (data img)"
    then obtain k where k: "k < width img * height img"
        "data (setPixel img x y c) = take (4 * k) (data img) @ pixel_bytes c @ drop (4 * k + 4) (data img)" by blast
    show ?thesis
      unfolding untorn_def
    proof (intro conjI allI impI)
      show "well_sized (setPixel img x y c)" using ws by simp
    next
      fix k' assume "k' < width (setPixel img x y c) * height (setPixel img x y c)"
      then have k': "k' < width img * height img" by simp
      show "block_at (data (setPixel img x y c)) k' = [0, 0, 0, 0] \<or>
            (\<exists>c'. block_at (data (setPixel img x y c)) k' = pixel_bytes c')"
        using block_at_splice [OF len k(1) k' lp] k(2) assms k' by (auto simp: untorn_def)
    qed
  qed
qed

lemma block_at_zero: "k < m \<Longrightarrow> block_at (replicate (m * 4) 0) k = [0, 0, 0, 0]"
  by (simp add: block_at_def numeral_eq_Suc)

text \<open>
  The largest byte a channel in \<open>[0, 0.9]\<close> can produce is the encoding of \<open>0.9\<close>:
  \<open>0.9\<^sup>5\<^sup>/\<^sup>1\<^sup>1 \<cdot> 255\<close> lies in \<open>(242.7, 243.3)\<close>, which the rounding of \<open>ToUint8Clamp\<close>
  takes to 243.
\<close>

lemma to_uint8_clamp_le_243:
  assumes "x < 487 / 2"
  shows "unat (to_uint8_clamp (Some x)) \<le> 243"
proof (cases "x \<le> 0")
  case True
  then show ?thesis by (simp add: to_uint8_clamp_def)
next
  case False
  have f0: "0 \<le> \<lfloor>x\<rfloor>" using False by simp
  have f1: "\<lfloor>x\<rfloor> \<le> 243" using assms by linarith
  have n1: "nat \<lfloor>x\<rfloor> \<le> 243" using f1 by linarith
  have u: "unat (word_of_int k :: 8 word) = nat k" if "0 \<le> k" "k \<le> 255" for k :: int
    using that by (simp add: unat_eq_nat_uint uint_word_of_int)
  consider "of_int \<lfloor>x\<rfloor> + 1 / 2 < x" | "x < of_int \<lfloor>x\<rfloor> + 1 / 2" | "x = of_int \<lfloor>x\<rfloor> + 1 / 2" by linarith
  then show ?thesis
  proof cases
    case 1
    then have "nat (\<lfloor>x\<rfloor> + 1) \<le> 243" using assms f1 by linarith
    then show ?thesis using False 1 f0 assms u [of "\<lfloor>x\<rfloor> + 1"] by (simp add: to_uint8_clamp_def Let_def)
  next
    case 2
    then show ?thesis using False f0 f1 n1 assms u [of "\<lfloor>x\<rfloor>"] by (simp add: to_uint8_clamp_def Let_def)
  next
    case 3
    then have "nat (\<lfloor>x\<rfloor> + 1) \<le> 243" using assms by linarith
    then show ?thesis using False 3 f0 n1 u [of "\<lfloor>x\<rfloor>"] u [of "\<lfloor>x\<rfloor> + 1"] assms
      by (simp add: to_uint8_clamp_def Let_def)
  qed
qed

lemma to_uint8_clamp_243:
  assumes "485 / 2 < x" "x < 487 / 2"
  shows "to_uint8_clamp (Some x) = 243"
proof -
  have "\<lfloor>x\<rfloor> = 242 \<or> \<lfloor>x\<rfloor> = 243" using assms by linarith
  then show ?thesis
  proof
    assume f: "\<lfloor>x\<rfloor> = 242"
    then have "of_int \<lfloor>x\<rfloor> + 1 / 2 < x" using assms by simp
    then show ?thesis using assms f by (simp add: to_uint8_clamp_def Let_def)
  next
    assume f: "\<lfloor>x\<rfloor> = 243"
    then have "x < of_int \<lfloor>x\<rfloor> + 1 / 2" using assms by simp
    then show ?thesis using assms f by (simp add: to_uint8_clamp_def Let_def)
  qed
qed

lemma gamma_powr_pow: "((9 / 10 :: real) powr (5 / 11)) ^ 11 = (9 / 10) ^ 5"
proof -
  have "((9 / 10 :: real) powr (5 / 11)) ^ 11 = (9 / 10) powr (5 / 11 * real 11)"
    by (subst powr_realpow [symmetric]) (simp_all add: powr_powr)
  also have "\<dots> = (9 / 10) powr (real 5)" by simp
  also have "\<dots> = (9 / 10) ^ 5" by (rule powr_realpow) simp
  finally show ?thesis .
qed

lemma gamma_powr_upper: "(9 / 10 :: real) powr (5 / 11) < 477 / 500"
proof (rule power_less_imp_less_base)
  show "((9 / 10 :: real) powr (5 / 11)) ^ 11 < (477 / 500) ^ 11"
    unfolding gamma_powr_pow by (simp add: power_divide)
qed simp

lemma gamma_powr_lower: "119 / 125 < (9 / 10 :: real) powr (5 / 11)"
proof (rule power_less_imp_less_base)
  show "(119 / 125 :: real) ^ 11 < ((9 / 10) powr (5 / 11)) ^ 11"
    unfolding gamma_powr_pow by (simp add: power_divide)
qed simp

lemma gamma_byte_sky: "gamma_byte (9 / 10) = 243"
proof -
  have "485 / 2 < (9 / 10 :: real) powr (5 / 11) * 255" "(9 / 10 :: real) powr (5 / 11) * 255 < 487 / 2"
    using gamma_powr_lower gamma_powr_upper by linarith+
  then show ?thesis by (simp add: gamma_byte_def js_pow_def to_uint8_clamp_243)
qed

lemma gamma_byte_le_243:
  assumes "0 \<le> c" "c \<le> 9 / 10"
  shows "unat (gamma_byte c) \<le> 243"
proof -
  have "c powr (5 / 11) \<le> (9 / 10) powr (5 / 11)" using assms by (simp add: powr_mono2)
  then have "c powr (5 / 11) * 255 < 487 / 2" using gamma_powr_upper by linarith
  then show ?thesis
    using to_uint8_clamp_le_243 assms by (simp add: gamma_byte_def js_pow_def)
qed
lemma pixel_bytes_bound:
  assumes "0 \<le> cr c" "cr c \<le> 9/10" "0 \<le> cg c" "cg c \<le> 9/10" "0 \<le> cb c" "cb c \<le> 9/10"
  shows "length (pixel_bytes c) = 4 \<and> (\<forall>k < 3. unat (pixel_bytes c ! k) \<le> 243) \<and> pixel_bytes c ! 3 = 255"
proof -
  have "unat (gamma_byte (cr c)) \<le> 243" "unat (gamma_byte (cg c)) \<le> 243" "unat (gamma_byte (cb c)) \<le> 243"
    using assms gamma_byte_le_243 by simp_all
  then show ?thesis by (auto simp: pixel_bytes_def less_Suc_eq numeral_eq_Suc)
qed

section \<open>Properties of setPixel and clamp\<close>

text \<open>
  C10: \<open>setPixel\<close> on a pixel inside the image writes the three gamma-encoded channels and
  an opaque alpha into the four bytes at \<open>4 (x + (h - 1 - y) w)\<close>, the spec's row-major
  layout with the vertical axis flipped, and leaves every other byte and the size alone.
\<close>

theorem setPixel_layout:
  assumes "well_sized img" "x < width img" "y < height img"
  shows "width (setPixel img x y c) = width img \<and> height (setPixel img x y c) = height img \<and>
         data (setPixel img x y c) =
           take (pixel_offset (width img) (height img) x y) (data img) @
           [gamma_byte (cr c), gamma_byte (cg c), gamma_byte (cb c), 255] @
           drop (pixel_offset (width img) (height img) x y + 4) (data img)"
  using setPixel_data [OF assms] by (simp add: pixel_bytes_def)

theorem setPixel_layout_witness:
  "well_sized (createImageData 2 2) \<and> 1 < width (createImageData 2 2) \<and> 0 < height (createImageData 2 2) \<and>
   width (setPixel (createImageData 2 2) 1 0 (Color 1 1 1)) = width (createImageData 2 2) \<and>
   height (setPixel (createImageData 2 2) 1 0 (Color 1 1 1)) = height (createImageData 2 2) \<and>
   data (setPixel (createImageData 2 2) 1 0 (Color 1 1 1)) =
     take (pixel_offset (width (createImageData 2 2)) (height (createImageData 2 2)) 1 0) (data (createImageData 2 2)) @
     [gamma_byte (cr (Color 1 1 1)), gamma_byte (cg (Color 1 1 1)), gamma_byte (cb (Color 1 1 1)), 255] @
     drop (pixel_offset (width (createImageData 2 2)) (height (createImageData 2 2)) 1 0 + 4) (data (createImageData 2 2))"
proof -
  have h: "well_sized (createImageData 2 2)" "1 < width (createImageData 2 2)" "0 < height (createImageData 2 2)"
    by (simp_all add: createImageData_def well_sized_def)
  show ?thesis using h setPixel_layout [OF h, of "Color 1 1 1"] by blast
qed

text \<open>
  C32: \<open>setPixel\<close> does not check its column: a column \<open>x\<close> past the right edge lands in the
  row below, so pixel \<open>(w + x, y + 1)\<close> is written where pixel \<open>(x, y)\<close> is. The
  program only calls it inside the image, where no two pixels share bytes.
\<close>

theorem setPixel_column_overflow:
  "setPixel img (width img + x) (Suc y) c = setPixel img x y c"
proof -
  have "(int (width img + x) + (int (height img) - int (Suc y) - 1) * int (width img)) * 4 =
        (int x + (int (height img) - int y - 1) * int (width img)) * 4"
    by (simp add: algebra_simps)
  then show ?thesis by (simp only: setPixel_def Let_def)
qed

text \<open>
  C19: writes to two different pixels of the image commute: each pixel owns its four bytes,
  so the pixel loop's iterations write disjoint parts of the buffer (the independence the
  spec relies on to shard rows across workers).
\<close>

theorem setPixel_commute:
  assumes "well_sized img" "x < width img" "y < height img" "x' < width img" "y' < height img"
    "(x, y) \<noteq> (x', y')"
  shows "setPixel (setPixel img x y c) x' y' c' = setPixel (setPixel img x' y' c') x y c"
proof -
  let ?i = "pixel_offset (width img) (height img) x y"
  let ?j = "pixel_offset (width img) (height img) x' y'"
  have d: "?i + 4 \<le> ?j \<or> ?j + 4 \<le> ?i"
    using pixel_offset_disjoint [OF assms(2-6)] .
  have "data (setPixel (setPixel img x y c) x' y' c') = data (setPixel (setPixel img x' y' c') x y c)"
  proof (rule nth_equalityI)
    fix k assume "k < length (data (setPixel (setPixel img x y c) x' y' c'))"
    then have k: "k < length (data img)" by simp
    show "data (setPixel (setPixel img x y c) x' y' c') ! k = data (setPixel (setPixel img x' y' c') x y c) ! k"
      using nth_setPixel [of "setPixel img x y c" x' y' k c'] nth_setPixel [of "setPixel img x' y' c'" x y k c]
        nth_setPixel [of img x y k c] nth_setPixel [of img x' y' k c'] assms k d
      by (auto simp: Let_def)
  qed simp
  then show ?thesis by (simp add: setPixel_def Let_def)
qed

theorem setPixel_commute_witness:
  "well_sized (createImageData 2 1) \<and> 0 < width (createImageData 2 1) \<and> 0 < height (createImageData 2 1) \<and>
   1 < width (createImageData 2 1) \<and> 0 < height (createImageData 2 1) \<and> (0::nat, 0::nat) \<noteq> (1, 0) \<and>
   setPixel (setPixel (createImageData 2 1) 0 0 (Color 1 0 0)) 1 0 (Color 0 0 1) =
   setPixel (setPixel (createImageData 2 1) 1 0 (Color 0 0 1)) 0 0 (Color 1 0 0)"
proof -
  have h: "well_sized (createImageData 2 1)" "0 < width (createImageData 2 1)" "0 < height (createImageData 2 1)"
      "1 < width (createImageData 2 1)" "0 < height (createImageData 2 1)" "(0::nat, 0::nat) \<noteq> (1, 0)"
    by (simp_all add: createImageData_def well_sized_def)
  show ?thesis using h setPixel_commute [OF h, of "Color 1 0 0" "Color 0 0 1"] by blast
qed

text \<open>
  C33: \<open>clamp(t, min, max)\<close> (never called by the program) is \<open>min(max(t, lo), hi)\<close>
  on a non-empty interval, hence lies in it.
\<close>

theorem clamp_spec:
  assumes "lo \<le> hi"
  shows "clamp t lo hi = min hi (max lo t) \<and> lo \<le> clamp t lo hi \<and> clamp t lo hi \<le> hi"
  using assms by (auto simp: clamp_def)

theorem clamp_spec_witness:
  "(0::real) \<le> 1 \<and> clamp 2 0 1 = min 1 (max 0 2) \<and> 0 \<le> clamp 2 0 1 \<and> clamp 2 0 1 \<le> 1"
  using clamp_spec [of 0 1 2] by simp


text \<open>
  C30: the buffer invariant: every buffer reached from \<open>createImageData(w, h)\<close> by any
  sequence of \<open>setPixel\<close> calls, whatever their coordinates (inside the image, past its
  edge or negative), keeps its width, height and size, and no pixel is ever torn: each
  four-byte block is untouched or one colour's complete encoding. Indices are multiples of
  four, so a store lands on a whole block or, out of range, not at all.
\<close>

theorem buffer_reach_untorn:
  "buffer_reach w h img \<Longrightarrow> width img = w \<and> height img = h \<and> untorn img"
proof (induction rule: buffer_reach.induct)
  case buffer_create
  then show ?case by (simp add: createImageData_def untorn_def well_sized_def block_at_zero)
next
  case (buffer_write img x y c)
  then show ?case using untorn_setPixel by simp
qed

theorem buffer_reach_untorn_witness:
  "buffer_reach 2 1 (setPixel (setPixel (createImageData 2 1) 0 0 (Color 1 0 0)) 5 3 (Color 0 0 1)) \<and>
   width (setPixel (setPixel (createImageData 2 1) 0 0 (Color 1 0 0)) 5 3 (Color 0 0 1)) = 2 \<and>
   height (setPixel (setPixel (createImageData 2 1) 0 0 (Color 1 0 0)) 5 3 (Color 0 0 1)) = 1 \<and>
   untorn (setPixel (setPixel (createImageData 2 1) 0 0 (Color 1 0 0)) 5 3 (Color 0 0 1))"
proof -
  have h: "buffer_reach 2 1 (setPixel (setPixel (createImageData 2 1) 0 0 (Color 1 0 0)) 5 3 (Color 0 0 1))"
    by (intro buffer_reach.buffer_write buffer_reach.buffer_create)
  show ?thesis using h buffer_reach_untorn [OF h] by blast
qed

text \<open>
  C31: the round trip of the two gamma conversions: a channel authored in display units as
  \<open>Color.corrected(n / 255, ...)\<close> (exponent \<open>2.2\<close>) and written by \<open>setPixel\<close>
  (exponent \<open>1/2.2\<close>, times 255, clamped to a byte) comes back as the byte \<open>n\<close>.
\<close>

theorem gamma_roundtrip:
  assumes "n \<le> 255"
  shows "gamma_byte (cr (color_corrected (real n / 255) g b)) = word_of_nat n"
proof -
  have p: "((real n / 255) powr (22 / 10)) powr (1 / (22 / 10)) = real n / 255"
    by (simp add: powr_powr)
  have "gamma_byte (cr (color_corrected (real n / 255) g b)) = to_uint8_clamp (Some (real n))"
    using p by (simp add: gamma_byte_def color_corrected_def js_pow_def)
  also have "\<dots> = word_of_nat n"
    using assms by (auto simp: to_uint8_clamp_def Let_def word_of_nat_eq_iff take_bit_nat_eq_self)
  finally show ?thesis .
qed

theorem gamma_roundtrip_witness:
  "(128::nat) \<le> 255 \<and> gamma_byte (cr (color_corrected (real (128::nat) / 255) 0 0)) = word_of_nat 128"
  using gamma_roundtrip [of 128 0 0] by simp

end
