(* ===== verification/Texture.thy ===== *)
theory Texture
  imports Vec
begin

text \<open>
  The two texture classes of \<open>tri.js\<close>, \<open>SolidColor\<close> (lines 128--136) and
  \<open>Checkerboard\<close> (lines 138--152), as one datatype with a constructor each, and their
  common method \<open>sample(u, v)\<close> as one function by cases. The checkerboard computes
  \<open>(scale * u) & 1\<close>: JavaScript's \<open>&\<close> first converts its operands with \<open>ToInt32\<close>,
  which truncates towards zero and wraps modulo \<open>2\<^sup>3\<^sup>2\<close>, modelled on \<open>32 word\<close>.
  The spec describes the pattern with \<open>floor\<close> instead (\<open>checker_spec\<close>). Proved: the
  colour chosen is given by the parities of the truncated products; on non-negative inputs
  this is the spec's floor formula, and moving one cell in \<open>u\<close> swaps the two colours; on
  negative inputs the two differ (the cell astride zero is two cells wide).
\<close>

unbundle bit_operations_syntax

datatype texture =
    SolidColor color
  | Checkerboard color color real

fun texture_sample :: "texture \<Rightarrow> real \<Rightarrow> real \<Rightarrow> color" where
  "texture_sample (SolidColor c) u v = c"
| "texture_sample (Checkerboard color1 color2 scale) u v =
     (let t1 = to_int32 (scale * u) AND 1;
          t2 = to_int32 (scale * v) AND 1
      in if t1 XOR t2 \<noteq> 0 then color1 else color2)"

text \<open>The spec's description (section 4.4): \<open>floor(scale u) mod 2 XOR floor(scale v) mod 2\<close>.\<close>

definition checker_spec :: "color \<Rightarrow> color \<Rightarrow> real \<Rightarrow> real \<Rightarrow> real \<Rightarrow> color" where
  "checker_spec color1 color2 scale u v =
     (if \<lfloor>scale * u\<rfloor> mod 2 \<noteq> \<lfloor>scale * v\<rfloor> mod 2 then color1 else color2)"

text \<open>The colours a texture can return.\<close>

fun texture_colors :: "texture \<Rightarrow> color list" where
  "texture_colors (SolidColor c) = [c]"
| "texture_colors (Checkerboard color1 color2 scale) = [color1, color2]"

lemma texture_sample_in_colors: "texture_sample t u v \<in> set (texture_colors t)"
  by (cases t) (simp_all add: Let_def)

text \<open>
  The checkerboard's colour is decided by the parities of \<open>scale u\<close> and \<open>scale v\<close>
  truncated towards zero: \<open>color1\<close> when they differ, \<open>color2\<close> when they agree.
\<close>

lemma checkerboard_parity:
  "texture_sample (Checkerboard color1 color2 scale) u v =
     (if odd (js_trunc (scale * u)) \<noteq> odd (js_trunc (scale * v)) then color1 else color2)"
  by (simp add: Let_def to_int32_and_1 del: odd_iff_mod_2_eq_one)

lemma odd_ne_iff_mod_2: "(odd (a::int) \<noteq> odd b) \<longleftrightarrow> a mod 2 \<noteq> b mod 2"
  by presburger

text \<open>
  C20: where \<open>scale u\<close> and \<open>scale v\<close> are non-negative (on a sphere they are, see theory
  \<open>Sphere\<close>), the checkerboard is exactly the spec's floor-parity pattern.
\<close>

theorem checkerboard_floor_spec:
  assumes "0 \<le> scale * u" "0 \<le> scale * v"
  shows "texture_sample (Checkerboard color1 color2 scale) u v = checker_spec color1 color2 scale u v"
  by (simp only: checkerboard_parity checker_spec_def js_trunc_nonneg [OF assms(1)]
      js_trunc_nonneg [OF assms(2)] odd_ne_iff_mod_2)

theorem checkerboard_floor_spec_witness:
  "0 \<le> (20::real) * (1/40) \<and> 0 \<le> (20::real) * (3/40) \<and>
   texture_sample (Checkerboard (Color 1 0 0) (Color 0 0 1) 20) (1/40) (3/40) = checker_spec (Color 1 0 0) (Color 0 0 1) 20 (1/40) (3/40)"
  using checkerboard_floor_spec [of 20 "1/40" "3/40" "Color 1 0 0" "Color 0 0 1"] by simp

text \<open>
  C21: on negative inputs the code departs from the spec's floor formula. In the strip
  \<open>-1 < scale u < 0\<close> the code truncates \<open>scale u\<close> to \<open>0\<close> and paints exactly the
  colours of the column \<open>u = 0\<close>, so the cell astride zero is two cells wide; the
  spec's floor gives \<open>-1\<close> there and paints the colours of \<open>u = 0\<close> swapped.
\<close>

theorem checkerboard_zero_cell:
  assumes "-1 < scale * u" "scale * u < 0"
  shows "texture_sample (Checkerboard color1 color2 scale) u v =
           texture_sample (Checkerboard color1 color2 scale) 0 v \<and>
         checker_spec color1 color2 scale u v = checker_spec color2 color1 scale 0 v"
proof -
  have t: "js_trunc (scale * u) = 0" using assms by (simp add: js_trunc_def ceiling_eq_iff)
  have f: "\<lfloor>scale * u\<rfloor> = -1" using assms by (simp add: floor_eq_iff)
  have "\<lfloor>scale * v\<rfloor> mod 2 = 0 \<or> \<lfloor>scale * v\<rfloor> mod 2 = 1" by presburger
  then show ?thesis
    unfolding checkerboard_parity checker_spec_def by (auto simp: t f)
qed

theorem checkerboard_zero_cell_witness:
  "-1 < (20::real) * (-1/40) \<and> (20::real) * (-1/40) < 0 \<and>
   texture_sample (Checkerboard (Color 1 0 0) (Color 0 0 1) 20) (-1/40) 0 =
     texture_sample (Checkerboard (Color 1 0 0) (Color 0 0 1) 20) 0 0 \<and>
   checker_spec (Color 1 0 0) (Color 0 0 1) 20 (-1/40) 0 = checker_spec (Color 0 0 1) (Color 1 0 0) 20 0 0"
  using checkerboard_zero_cell [of 20 "-1/40" "Color 1 0 0" "Color 0 0 1" 0] by simp

text \<open>
  C22: moving one cell along \<open>u\<close> (by \<open>1/scale\<close>, for a positive scale and a
  non-negative \<open>u\<close>) swaps the two colours, whatever \<open>v\<close> is: the pattern alternates
  at every cell boundary.
\<close>

theorem checkerboard_shift_u:
  assumes "0 < scale" "0 \<le> u"
  shows "texture_sample (Checkerboard color1 color2 scale) (u + 1 / scale) v =
         texture_sample (Checkerboard color2 color1 scale) u v"
proof -
  have "scale * (u + 1 / scale) = scale * u + 1"
    using assms(1) by (simp add: algebra_simps)
  moreover have "0 \<le> scale * u"
    using assms by simp
  ultimately have "js_trunc (scale * (u + 1 / scale)) = js_trunc (scale * u) + 1"
    by simp
  then show ?thesis
    by (simp add: checkerboard_parity del: texture_sample.simps)
qed

theorem checkerboard_shift_u_witness:
  "0 < (20::real) \<and> 0 \<le> (1/40::real) \<and>
   texture_sample (Checkerboard (Color 1 0 0) (Color 0 0 1) 20) (1/40 + 1 / 20) 0 =
   texture_sample (Checkerboard (Color 0 0 1) (Color 1 0 0) 20) (1/40) 0"
  using checkerboard_shift_u [of 20 "1/40" "Color 1 0 0" "Color 0 0 1" 0] by simp

end
