(* ===== verification/RandomUnit.thy ===== *)
theory RandomUnit
  imports Vec
begin

text \<open>
  \<open>Vec3.randomUnit\<close> (tri.js lines 84--90): rejection sampling of a point of the open unit
  ball. Each try draws three values from \<open>Math.random\<close>, maps them from \<open>[0,1)\<close> to
  \<open>[-1,1)\<close> and tries again while the squared length is at least 1. Nothing bounds the
  number of tries, so the loop is a \<open>partial_function (option)\<close> over the random stream,
  \<open>None\<close> being a loop that never exits. The lemmas characterise a returned value (the
  first accepted candidate, after three draws per try), and prove that the loop does
  return whenever an accepted candidate lies ahead in the stream, which the predicate
  \<open>random_ok\<close> demands from every position of the stream.
\<close>

text \<open>One try of the loop body (line 87); the draws are made left to right.\<close>

definition randomUnit_candidate :: "rng \<Rightarrow> vec3 \<times> rng" where
  "randomUnit_candidate s =
     (let (r1, s1) = js_random s; (r2, s2) = js_random s1; (r3, s3) = js_random s2
      in (vec3_sub (vec3_mulScalar (Vec3 r1 r2 r3) 2) (Vec3 1 1 1), s3))"

partial_function (option) vec3_randomUnit :: "rng \<Rightarrow> (vec3 \<times> rng) option" where
  "vec3_randomUnit s =
     (case randomUnit_candidate s of
        (p, s') \<Rightarrow> if 1 \<le> vec3_dot p p then vec3_randomUnit s' else Some (p, s'))"

text \<open>The try that starts at \<open>s\<close> is accepted (the loop condition fails).\<close>

definition ru_accepts :: "rng \<Rightarrow> bool" where
  "ru_accepts s \<longleftrightarrow> vec3_dot (fst (randomUnit_candidate s)) (fst (randomUnit_candidate s)) < 1"

text \<open>
  From every position of the stream some later try, on a three-draw boundary, is accepted.
  Independent uniform draws satisfy this with probability one; the model assumes it where
  it proves that \<open>randomUnit\<close> returns.
\<close>

definition random_ok :: "rng \<Rightarrow> bool" where
  "random_ok s \<longleftrightarrow> (\<forall>n. \<exists>k. ru_accepts (sdrop (n + 3 * k) s))"

text \<open>
  What a returned value is: the candidate of the first accepted try, the \<open>k\<close>-th, with
  \<open>3 (k + 1)\<close> draws consumed.
\<close>

definition ru_first :: "rng \<Rightarrow> vec3 \<times> rng \<Rightarrow> bool" where
  "ru_first s r \<longleftrightarrow> (\<exists>k. (\<forall>j<k. \<not> ru_accepts (sdrop (3 * j) s)) \<and> ru_accepts (sdrop (3 * k) s)
      \<and> r = (fst (randomUnit_candidate (sdrop (3 * k) s)), sdrop (3 * Suc k) s))"

lemma randomUnit_candidate_eq:
  "randomUnit_candidate s =
     (Vec3 (2 * s !! 0 - 1) (2 * s !! 1 - 1) (2 * s !! 2 - 1), sdrop 3 s)"
  by (simp add: randomUnit_candidate_def numeral_3_eq_3 numeral_2_eq_2 vec_defs algebra_simps)

lemma vec3_randomUnit_unfold:
  "vec3_randomUnit s =
     (if ru_accepts s then Some (fst (randomUnit_candidate s), sdrop 3 s)
      else vec3_randomUnit (sdrop 3 s))"
  by (subst vec3_randomUnit.simps)
    (simp add: ru_accepts_def randomUnit_candidate_eq not_le split: prod.splits)

lemma random_ok_sdrop: "random_ok s \<Longrightarrow> random_ok (sdrop m s)"
  unfolding random_ok_def by (metis sdrop_add add.assoc)

lemma vec3_randomUnit_returns_within:
  "ru_accepts (sdrop (3 * k) s) \<Longrightarrow>
   \<exists>p j. j \<le> k \<and> vec3_randomUnit s = Some (p, sdrop (3 * Suc j) s)"
proof (induction k arbitrary: s)
  case 0
  then show ?case by (simp add: vec3_randomUnit_unfold)
next
  case (Suc k)
  show ?case
  proof (cases "ru_accepts s")
    case True
    then show ?thesis by (auto simp: vec3_randomUnit_unfold)
  next
    case False
    from Suc.prems have "ru_accepts (sdrop (3 * k) (sdrop 3 s))"
      by (simp add: sdrop_add add.commute)
    then obtain p j where "j \<le> k" "vec3_randomUnit (sdrop 3 s) = Some (p, sdrop (3 * Suc j) (sdrop 3 s))"
      using Suc.IH by blast
    with False show ?thesis
      by (auto simp: vec3_randomUnit_unfold sdrop_add intro!: exI [of _ "Suc j"])
  qed
qed

lemma ru_first_step:
  assumes "\<not> ru_accepts s" "ru_first (sdrop 3 s) r"
  shows "ru_first s r"
proof -
  obtain k where k: "\<forall>j<k. \<not> ru_accepts (sdrop (3 * j) (sdrop 3 s))"
      "ru_accepts (sdrop (3 * k) (sdrop 3 s))"
      "r = (fst (randomUnit_candidate (sdrop (3 * k) (sdrop 3 s))), sdrop (3 * Suc k) (sdrop 3 s))"
    using assms(2) unfolding ru_first_def by blast
  have "\<forall>j<Suc k. \<not> ru_accepts (sdrop (3 * j) s)"
  proof (intro allI impI)
    fix j assume "j < Suc k"
    then show "\<not> ru_accepts (sdrop (3 * j) s)"
      using assms(1) k(1) by (cases j) (auto simp: sdrop_add add.commute)
  qed
  with k(2,3) show ?thesis
    unfolding ru_first_def by (intro exI [of _ "Suc k"]) (simp add: sdrop_add add.commute)
qed

lemma vec3_randomUnit_ru_first:
  "vec3_randomUnit s = Some r \<Longrightarrow> ru_first s r"
proof (rule vec3_randomUnit.raw_induct [where P = ru_first])
  fix f s r
  assume IH: "\<And>s r. f s = Some r \<Longrightarrow> ru_first s r"
    and eq: "(case randomUnit_candidate s of (p, s') \<Rightarrow>
               if 1 \<le> vec3_dot p p then f s' else Some (p, s')) = Some r"
  show "ru_first s r"
  proof (cases "ru_accepts s")
    case True
    with eq have "r = (fst (randomUnit_candidate s), sdrop 3 s)"
      by (auto simp: ru_accepts_def randomUnit_candidate_eq not_le split: if_splits)
    with True show ?thesis
      unfolding ru_first_def by (intro exI [of _ 0]) simp
  next
    case False
    with eq have "f (sdrop 3 s) = Some r"
      by (simp add: ru_accepts_def randomUnit_candidate_eq not_le split: if_splits)
    with False IH show ?thesis by (blast intro: ru_first_step)
  qed
qed

lemma ru_accepts_in_ball:
  "ru_accepts s \<Longrightarrow> vec3_dot (fst (randomUnit_candidate s)) (fst (randomUnit_candidate s)) < 1"
  by (simp add: ru_accepts_def)

lemma vec3_randomUnit_result:
  assumes "vec3_randomUnit s = Some (p, s')"
  shows "vec3_dot p p < 1 \<and> (\<exists>n. s' = sdrop n s)"
  using vec3_randomUnit_ru_first [OF assms] unfolding ru_first_def
  by (auto simp: ru_accepts_def)

lemma vec3_randomUnit_total:
  assumes "random_ok s"
  shows "\<exists>p n. vec3_randomUnit s = Some (p, sdrop n s)"
proof -
  from assms obtain k where "ru_accepts (sdrop (0 + 3 * k) s)"
    unfolding random_ok_def by blast
  then show ?thesis
    using vec3_randomUnit_returns_within [of k s] by auto
qed

lemma ru_first_unique:
  assumes "ru_first s r" "ru_first s r'"
  shows "r = r'"
proof -
  obtain k where k: "\<forall>j<k. \<not> ru_accepts (sdrop (3 * j) s)" "ru_accepts (sdrop (3 * k) s)"
      "r = (fst (randomUnit_candidate (sdrop (3 * k) s)), sdrop (3 * Suc k) s)"
    using assms(1) unfolding ru_first_def by blast
  obtain k' where k': "\<forall>j<k'. \<not> ru_accepts (sdrop (3 * j) s)" "ru_accepts (sdrop (3 * k') s)"
      "r' = (fst (randomUnit_candidate (sdrop (3 * k') s)), sdrop (3 * Suc k') s)"
    using assms(2) unfolding ru_first_def by blast
  have "k = k'"
    using k(1,2) k'(1,2) by (metis linorder_neqE_nat)
  then show ?thesis using k(3) k'(3) by simp
qed

text \<open>
  C17: \<open>randomUnit\<close> is rejection sampling, exactly: it returns \<open>(p, s')\<close> if and only
  if \<open>p\<close> is the candidate of the first accepted try (the first triple of draws whose
  point \<open>2 (r\<^sub>1, r\<^sub>2, r\<^sub>3) - (1, 1, 1)\<close> has squared length below 1) and
  \<open>s'\<close> is the stream after that try.
\<close>

theorem vec3_randomUnit_spec:
  "vec3_randomUnit s = Some (p, s') \<longleftrightarrow>
   (\<exists>k. (\<forall>j<k. \<not> ru_accepts (sdrop (3 * j) s)) \<and> ru_accepts (sdrop (3 * k) s)
        \<and> p = fst (randomUnit_candidate (sdrop (3 * k) s)) \<and> s' = sdrop (3 * Suc k) s)"
proof
  assume "vec3_randomUnit s = Some (p, s')"
  then show "\<exists>k. (\<forall>j<k. \<not> ru_accepts (sdrop (3 * j) s)) \<and> ru_accepts (sdrop (3 * k) s)
        \<and> p = fst (randomUnit_candidate (sdrop (3 * k) s)) \<and> s' = sdrop (3 * Suc k) s"
    using vec3_randomUnit_ru_first unfolding ru_first_def by fastforce
next
  assume "\<exists>k. (\<forall>j<k. \<not> ru_accepts (sdrop (3 * j) s)) \<and> ru_accepts (sdrop (3 * k) s)
        \<and> p = fst (randomUnit_candidate (sdrop (3 * k) s)) \<and> s' = sdrop (3 * Suc k) s"
  then obtain k where first: "ru_first s (p, s')" and acc: "ru_accepts (sdrop (3 * k) s)"
    unfolding ru_first_def by blast
  obtain q j where "vec3_randomUnit s = Some (q, sdrop (3 * Suc j) s)"
    using vec3_randomUnit_returns_within [OF acc] by blast
  moreover from this have "ru_first s (q, sdrop (3 * Suc j) s)"
    by (rule vec3_randomUnit_ru_first)
  ultimately show "vec3_randomUnit s = Some (p, s')"
    using ru_first_unique [OF first] by metis
qed

text \<open>Draws of \<open>1/2\<close> give the centre of the ball at the first try.\<close>

lemma vec3_randomUnit_half: "vec3_randomUnit (sconst (1/2)) = Some (vzero, sconst (1/2))"
proof -
  have "ru_accepts (sconst (1/2))"
    by (simp add: ru_accepts_def randomUnit_candidate_eq vec3_dot_def)
  then show ?thesis
    by (simp add: vec3_randomUnit_unfold randomUnit_candidate_eq)
qed

lemma random_ok_half: "random_ok (sconst (1/2))"
  by (simp add: random_ok_def ru_accepts_def randomUnit_candidate_eq vec3_dot_def)

theorem vec3_randomUnit_spec_witness:
  "vec3_randomUnit (sconst (1/2)) = Some (vzero, sconst (1/2)) \<and>
   (\<exists>k. (\<forall>j<k. \<not> ru_accepts (sdrop (3 * j) (sconst (1/2))))
        \<and> ru_accepts (sdrop (3 * k) (sconst (1/2)))
        \<and> vzero = fst (randomUnit_candidate (sdrop (3 * k) (sconst (1/2))))
        \<and> sconst (1/2::real) = sdrop (3 * Suc k) (sconst (1/2)))"
proof -
  note ret = vec3_randomUnit_half
  then show ?thesis
    using vec3_randomUnit_spec [THEN iffD1, OF ret] by (rule conjI)
qed

end
