(* ===== verification/Ray.thy ===== *)
theory Ray
  imports Vec
begin

text \<open>
  \<open>Ray\<close> (tri.js lines 93--101): an origin and a direction that the constructor
  normalises, and \<open>pointAt\<close>. Also the hit record that \<open>Sphere.intersect\<close> builds as an
  object literal (lines 182--188 and 193--199): \<open>t\<close>, \<open>point\<close>, \<open>normal\<close>,
  \<open>uv\<close> and the \<open>object\<close> that was hit. The object's type is a parameter, the
  ``intersectable'' interface: the integrator only asks the object for its material, and
  theory \<open>Sphere\<close> instantiates it with spheres. The lemmas: a constructed ray has a unit
  direction (for a non-zero argument), and \<open>pointAt\<close> is affine in the parameter.
\<close>

record ray =
  origin :: vec3
  dir :: vec3

definition new_Ray :: "vec3 \<Rightarrow> vec3 \<Rightarrow> ray" where
  "new_Ray orig d = \<lparr>origin = orig, dir = vec3_normalize d\<rparr>"

definition pointAt :: "ray \<Rightarrow> real \<Rightarrow> vec3" where
  "pointAt r t = vec3_add (origin r) (vec3_mulScalar (dir r) t)"

record 'obj intersection =
  hit_t :: real
  hit_point :: vec3
  hit_normal :: vec3
  hit_uv :: vec3
  hit_object :: 'obj

text \<open>The invariant the spec states for rays: the direction has unit length.\<close>

definition unit_ray :: "ray \<Rightarrow> bool" where
  "unit_ray r \<longleftrightarrow> vec3_dot (dir r) (dir r) = 1"

lemma new_Ray_sel [simp]:
  "origin (new_Ray orig d) = orig"
  "dir (new_Ray orig d) = vec3_normalize d"
  by (simp_all add: new_Ray_def)

lemma new_Ray_unit: "d \<noteq> vzero \<Longrightarrow> unit_ray (new_Ray orig d)"
  by (simp add: unit_ray_def vec3_normalize_dot_self)

text \<open>Re-normalising an already normalised direction changes nothing.\<close>

lemma new_Ray_normalized:
  "d \<noteq> vzero \<Longrightarrow> new_Ray orig (vec3_normalize d) = new_Ray orig d"
  by (simp add: new_Ray_def vec3_normalize_idem)

lemma pointAt_sel [simp]:
  "vx (pointAt r t) = vx (origin r) + vx (dir r) * t"
  "vy (pointAt r t) = vy (origin r) + vy (dir r) * t"
  "vz (pointAt r t) = vz (origin r) + vz (dir r) * t"
  by (simp_all add: pointAt_def)

lemma pointAt_0 [simp]: "pointAt r 0 = origin r"
  by (simp add: vec3_eq_iff)

lemma pointAt_offset:
  "vec3_sub (pointAt r t) c = vec3_add (vec3_sub (origin r) c) (vec3_mulScalar (dir r) t)"
  by (simp add: vec3_eq_iff)

end
