(* ===== verification/Material.thy ===== *)
theory Material
  imports Texture RandomUnit Ray
begin

text \<open>
  \<open>Material\<close> (tri.js lines 154--164): a texture and a scalar reflectance, and
  \<open>brdf(is)\<close>, which draws a point of the unit ball with \<open>Vec3.randomUnit\<close>, scales it by
  \<open>1 - reflectance\<close>, adds it to the surface normal and returns the ray from the hit point
  in that direction. It is stated over any hit record (the object type is a parameter),
  since it reads only \<open>normal\<close> and \<open>point\<close>. Proved: for a unit normal and a
  reflectance in \<open>[0, 1]\<close> the new ray starts at the hit point, has a unit direction and
  leaves the surface (positive dot product with the normal); reflectance 1 scatters exactly
  along the normal, not along the mirror direction; a reflectance outside the range, which
  the constructor accepts, can make the direction the zero vector (\<open>NaN\<close> in
  JavaScript), and for a unit normal it can exactly when it lies outside \<open>[0, 2]\<close>; \<open>brdf\<close> returns whenever \<open>randomUnit\<close> does.
\<close>

record material =
  texture :: texture
  reflectance :: real

definition brdf :: "material \<Rightarrow> 'obj intersection \<Rightarrow> rng \<Rightarrow> (ray \<times> rng) option" where
  "brdf m is s =
     (case vec3_randomUnit s of
        None \<Rightarrow> None
      | Some (p, s') \<Rightarrow>
          (let newDir = vec3_normalize (vec3_add (hit_normal is) (vec3_mulScalar p (1 - reflectance m)));
               newRay = new_Ray (hit_point is) newDir
           in Some (newRay, s')))"

text \<open>A white diffuse material, used by the examples below and in later theories.\<close>

definition white_diffuse :: material where
  "white_diffuse = \<lparr>texture = SolidColor (Color 1 1 1), reflectance = 0\<rparr>"

lemma brdf_Some:
  "brdf m is s = Some (r, s') \<longleftrightarrow>
   (\<exists>p. vec3_randomUnit s = Some (p, s') \<and>
        r = new_Ray (hit_point is)
              (vec3_normalize (vec3_add (hit_normal is) (vec3_mulScalar p (1 - reflectance m)))))"
  by (auto simp: brdf_def Let_def split: option.splits)

lemma brdf_total:
  "random_ok s \<Longrightarrow> \<exists>r n. brdf m is s = Some (r, sdrop n s)"
  using vec3_randomUnit_total [of s] by (auto simp: brdf_def Let_def)

text \<open>
  The perturbed normal has a positive component along the normal: the random point has
  length below 1 and is scaled by at most 1.
\<close>

lemma scatter_dot_pos:
  assumes n: "vec3_dot n n = 1" and p: "vec3_dot p p < 1" and k: "\<bar>k\<bar> \<le> 1"
  shows "0 < vec3_dot n (vec3_add n (vec3_mulScalar p k))"
proof -
  have "\<bar>vec3_dot n p\<bar> \<le> vec3_length n * vec3_length p"
    by (rule vec3_cauchy_schwarz)
  also have "\<dots> < 1"
    using n p by (simp add: vec3_length_def real_sqrt_lt_1_iff)
  finally have "\<bar>k * vec3_dot n p\<bar> < 1"
    using k by (simp add: abs_mult mult_le_less_imp_less [of "\<bar>k\<bar>" 1 _ 1]
        order_le_less_trans [OF mult_right_mono [OF k abs_ge_zero]])
  then show ?thesis
    using n by (simp add: abs_less_iff)
qed

lemma brdf_scatter_out:
  assumes n: "vec3_dot (hit_normal is) (hit_normal is) = 1"
    and refl: "0 \<le> reflectance m" "reflectance m \<le> 1"
    and ret: "brdf m is s = Some (r, s')"
  shows "origin r = hit_point is \<and> unit_ray r \<and> 0 < vec3_dot (hit_normal is) (dir r)"
proof -
  obtain p where p: "vec3_randomUnit s = Some (p, s')"
    and r: "r = new_Ray (hit_point is)
              (vec3_normalize (vec3_add (hit_normal is) (vec3_mulScalar p (1 - reflectance m))))"
    using ret by (auto simp: brdf_Some)
  let ?q = "vec3_add (hit_normal is) (vec3_mulScalar p (1 - reflectance m))"
  have pos: "0 < vec3_dot (hit_normal is) ?q"
    using scatter_dot_pos [OF n] vec3_randomUnit_result [OF p] refl by simp
  then have q: "?q \<noteq> vzero"
    using vec3_zero_simps(6) [of "hit_normal is"] by (metis less_irrefl)
  have "dir r = vec3_normalize ?q"
    using q by (simp add: r vec3_normalize_idem)
  moreover have "0 < vec3_dot (hit_normal is) (vec3_normalize ?q)"
    using pos q by (simp add: vec3_normalize_scale vec3_length_pos)
  ultimately show ?thesis
    using q by (simp add: r new_Ray_unit vec3_normalize_nonzero)
qed

lemma brdf_half:
  "brdf m is (sconst (1/2)) =
   Some (new_Ray (hit_point is) (vec3_normalize (hit_normal is)), sconst (1/2))"
  by (simp add: brdf_def vec3_randomUnit_half vec3_eq_iff)

text \<open>
  C15: the scattered ray is well formed and leaves the surface: for a unit normal and a
  reflectance in \<open>[0, 1]\<close>, a ray returned by \<open>brdf\<close> starts at the hit point, has a
  unit direction, and points to the side of the surface the normal points to.
\<close>

theorem brdf_scatter:
  assumes "vec3_dot (hit_normal is) (hit_normal is) = 1"
    and "0 \<le> reflectance m" "reflectance m \<le> 1"
    and "brdf m is s = Some (r, s')"
  shows "origin r = hit_point is \<and> unit_ray r \<and> 0 < vec3_dot (hit_normal is) (dir r)"
  using brdf_scatter_out [OF assms] .

theorem brdf_scatter_witness:
  "vec3_dot (Vec3 0 1 0) (Vec3 0 1 0) = 1 \<and> 0 \<le> (0::real) \<and> (0::real) \<le> 1 \<and>
   brdf \<lparr>texture = SolidColor (Color 1 1 1), reflectance = 0\<rparr>
        \<lparr>hit_t = 1, hit_point = vzero, hit_normal = Vec3 0 1 0, hit_uv = vzero, hit_object = ()\<rparr>
        (sconst (1/2)) = Some (new_Ray vzero (vec3_normalize (Vec3 0 1 0)), sconst (1/2)) \<and>
   origin (new_Ray vzero (vec3_normalize (Vec3 0 1 0))) = vzero \<and>
   unit_ray (new_Ray vzero (vec3_normalize (Vec3 0 1 0))) \<and>
   0 < vec3_dot (Vec3 0 1 0) (dir (new_Ray vzero (vec3_normalize (Vec3 0 1 0))))"
proof -
  let ?m = "\<lparr>texture = SolidColor (Color 1 1 1), reflectance = 0\<rparr>"
  let ?is = "\<lparr>hit_t = 1, hit_point = vzero, hit_normal = Vec3 0 1 0, hit_uv = vzero, hit_object = ()\<rparr>"
  have ret: "brdf ?m ?is (sconst (1/2)) = Some (new_Ray vzero (vec3_normalize (Vec3 0 1 0)), sconst (1/2))"
    by (simp add: brdf_half)
  have n: "vec3_dot (hit_normal ?is) (hit_normal ?is) = 1"
    by (simp add: vec3_dot_def)
  show ?thesis
    using brdf_scatter [OF n _ _ ret] ret by (simp add: vec3_dot_def)
qed

text \<open>
  C26: reflectance 1 is not a mirror: with a unit normal, \<open>brdf\<close> then returns the ray
  along the surface normal itself, whatever the incoming direction and the random draw.
\<close>

theorem brdf_reflectance_one:
  assumes "vec3_dot (hit_normal is) (hit_normal is) = 1" "reflectance m = 1"
    and "brdf m is s = Some (r, s')"
  shows "r = \<lparr>origin = hit_point is, dir = hit_normal is\<rparr>"
proof -
  have "vec3_length (hit_normal is) = 1"
    using assms(1) by (simp add: vec3_length_def)
  then show ?thesis
    using assms(2,3) by (auto simp: brdf_Some new_Ray_def vec3_normalize_unit)
qed

theorem brdf_reflectance_one_witness:
  "vec3_dot (Vec3 0 1 0) (Vec3 0 1 0) = 1 \<and> (1::real) = 1 \<and>
   brdf \<lparr>texture = SolidColor (Color 1 1 1), reflectance = 1\<rparr>
        \<lparr>hit_t = 1, hit_point = vzero, hit_normal = Vec3 0 1 0, hit_uv = vzero, hit_object = ()\<rparr>
        (sconst (1/2)) = Some (\<lparr>origin = vzero, dir = Vec3 0 1 0\<rparr>, sconst (1/2))"
proof -
  let ?m = "\<lparr>texture = SolidColor (Color 1 1 1), reflectance = 1\<rparr>"
  let ?is = "\<lparr>hit_t = 1, hit_point = vzero, hit_normal = Vec3 0 1 0, hit_uv = vzero, hit_object = ()\<rparr>"
  have n: "vec3_dot (hit_normal ?is) (hit_normal ?is) = 1"
    by (simp add: vec3_dot_def)
  have ret: "brdf ?m ?is (sconst (1/2)) =
      Some (new_Ray (hit_point ?is) (vec3_normalize (hit_normal ?is)), sconst (1/2))"
    by (rule brdf_half)
  then have "new_Ray (hit_point ?is) (vec3_normalize (hit_normal ?is)) = \<lparr>origin = vzero, dir = Vec3 0 1 0\<rparr>"
    using brdf_reflectance_one [OF n _ ret] by simp
  with ret n show ?thesis by simp
qed

text \<open>
  C27: the reflectance is not validated. For a unit normal, some draw of
  \<open>Vec3.randomUnit\<close> makes the perturbed normal \<open>n + p (1 - reflectance)\<close> the
  zero vector, whose normalisation is a vector of \<open>NaN\<close>s in JavaScript, exactly
  when the reflectance lies outside \<open>[0, 2]\<close>: then \<open>brdf\<close> returns a ray whose
  direction is \<open>normalize\<close> of zero. Inside \<open>[0, 2]\<close> the perturbation
  \<open>|p| |1 - reflectance| < 1\<close> can never cancel the normal.
\<close>

theorem brdf_zero_direction:
  assumes n: "vec3_dot (hit_normal is) (hit_normal is) = 1"
  shows "(\<exists>s p s'. vec3_randomUnit s = Some (p, s') \<and>
            vec3_add (hit_normal is) (vec3_mulScalar p (1 - reflectance m)) = vzero \<and>
            brdf m is s = Some (new_Ray (hit_point is) (vec3_normalize vzero), s'))
         \<longleftrightarrow> reflectance m < 0 \<or> 2 < reflectance m"
proof
  assume "\<exists>s p s'. vec3_randomUnit s = Some (p, s') \<and>
            vec3_add (hit_normal is) (vec3_mulScalar p (1 - reflectance m)) = vzero \<and>
            brdf m is s = Some (new_Ray (hit_point is) (vec3_normalize vzero), s')"
  then obtain s p s' where p: "vec3_randomUnit s = Some (p, s')"
      and z: "vec3_add (hit_normal is) (vec3_mulScalar p (1 - reflectance m)) = vzero" by blast
  let ?k = "1 - reflectance m"
  have "hit_normal is = vec3_mulScalar p (- ?k)"
    using z by (simp add: vec3_eq_iff vec_defs algebra_simps)
  then have "1 = ?k * ?k * vec3_dot p p"
    using n by (simp add: vec_defs algebra_simps)
  moreover have "vec3_dot p p < 1" "0 \<le> vec3_dot p p"
    using vec3_randomUnit_result [OF p] vec3_dot_self_nonneg by simp_all
  ultimately have kk: "1 < ?k * ?k"
  proof -
    assume e: "1 = ?k * ?k * vec3_dot p p" and d: "vec3_dot p p < 1" "0 \<le> vec3_dot p p"
    show ?thesis
    proof (rule ccontr)
      assume "\<not> 1 < ?k * ?k"
      then have "?k * ?k * vec3_dot p p \<le> 1 * vec3_dot p p"
        using d(2) by (intro mult_right_mono) simp_all
      then show False using e d(1) by simp
    qed
  qed
  show "reflectance m < 0 \<or> 2 < reflectance m"
  proof (rule ccontr)
    assume "\<not> (reflectance m < 0 \<or> 2 < reflectance m)"
    then have "\<bar>?k\<bar> \<le> 1" by auto
    then have "\<bar>?k\<bar> * \<bar>?k\<bar> \<le> 1" by (intro mult_le_one) simp_all
    then show False using kk by (simp add: abs_mult_self_eq)
  qed
next
  assume r: "reflectance m < 0 \<or> 2 < reflectance m"
  let ?k = "1 - reflectance m"
  have k: "1 < \<bar>?k\<bar>" using r by auto
  define p where "p = vec3_mulScalar (hit_normal is) (- 1 / ?k)"
  let ?s = "(vx p + 1) / 2 ## (vy p + 1) / 2 ## (vz p + 1) / 2 ## sconst 0"
  have cand: "randomUnit_candidate ?s = (p, sconst 0)"
    by (simp add: randomUnit_candidate_eq numeral_3_eq_3 numeral_2_eq_2 vec3_eq_iff add_divide_distrib)
  have "vec3_dot p p = (-1 / ?k) * (-1 / ?k) * vec3_dot (hit_normal is) (hit_normal is)"
    unfolding p_def by (simp add: vec_defs algebra_simps add_divide_distrib)
  also have "\<dots> = 1 / (?k * ?k)" using n by simp
  also have "\<dots> < 1"
  proof -
    have "1 * 1 < \<bar>?k\<bar> * \<bar>?k\<bar>" using k by (intro mult_strict_mono) auto
    then show ?thesis by (simp add: abs_mult_self_eq divide_less_eq_1)
  qed
  finally have acc: "ru_accepts ?s" by (simp add: ru_accepts_def cand)
  have ru: "vec3_randomUnit ?s = Some (p, sconst 0)"
    by (subst vec3_randomUnit_unfold) (simp add: acc cand numeral_3_eq_3)
  have z: "vec3_add (hit_normal is) (vec3_mulScalar p ?k) = vzero"
    using k unfolding p_def by (auto simp: vec3_eq_iff vec_defs)
  show "\<exists>s p s'. vec3_randomUnit s = Some (p, s') \<and>
            vec3_add (hit_normal is) (vec3_mulScalar p (1 - reflectance m)) = vzero \<and>
            brdf m is s = Some (new_Ray (hit_point is) (vec3_normalize vzero), s')"
    using ru z by (intro exI [of _ ?s] exI [of _ p] exI [of _ "sconst 0"]) (simp add: brdf_def)
qed

theorem brdf_zero_direction_witness:
  "\<exists>s p s'. vec3_randomUnit s = Some (p, s') \<and>
     vec3_add (Vec3 0 1 0) (vec3_mulScalar p (1 - 3)) = vzero \<and>
     brdf (white_diffuse\<lparr>reflectance := 3\<rparr>)
       \<lparr>hit_t = 1, hit_point = vzero, hit_normal = Vec3 0 1 0, hit_uv = vzero, hit_object = ()\<rparr> s =
       Some (new_Ray vzero (vec3_normalize vzero), s')"
  using brdf_zero_direction [of "\<lparr>hit_t = 1, hit_point = vzero, hit_normal = Vec3 0 1 0,
      hit_uv = vzero, hit_object = ()\<rparr>" "white_diffuse\<lparr>reflectance := 3\<rparr>"]
  by (simp add: vec3_dot_def)

end
