(* ===== verification/Sphere.thy ===== *)
theory Sphere
  imports Material
begin

text \<open>
  \<open>Sphere\<close> (tri.js lines 166--247): centre, radius and a material shared with other
  spheres; \<open>intersect(ray)\<close> solves the ray--sphere quadratic with the unit-direction
  simplification (\<open>a = 1\<close>), rejects discriminants not above \<open>EPSILON\<close>, tries the
  near root and then the far root, each against \<open>EPSILON\<close>, and builds the hit record
  (\<open>sphere_hit\<close>, the object literal written twice in the source); \<open>normal\<close> and
  \<open>uv\<close> give the outward normal and the spherical parametrisation. The commented-out
  older version (lines 203--233) is not code and is not modelled. Proved: the intersection
  is exactly the least root beyond \<open>EPSILON\<close> of the ray--sphere equation when the
  discriminant clears \<open>EPSILON\<close> (a refinement of the geometric specification); the
  spec's head-on and miss cases; \<open>uv\<close> lies in the unit square; the normal at a hit is
  the unit outward normal; a ray that starts on the sphere and leaves it does not hit it
  again.
\<close>

record sphere =
  pos :: vec3
  radius :: real
  material :: material

definition sphere_normal :: "sphere \<Rightarrow> vec3 \<Rightarrow> vec3" where
  "sphere_normal sp q = vec3_normalize (vec3_sub q (pos sp))"

definition sphere_uv :: "sphere \<Rightarrow> vec3 \<Rightarrow> vec3" where
  "sphere_uv sp q =
     (let p = vec3_sub q (pos sp);
          len = vec3_length (Vec3 (vx p) 0 (vz p));
          u = (js_atan2 (vz p) (vx p) + pi) / (2 * pi);
          v = (js_atan2 (vy p) len + 1/2 * pi) / pi
      in Vec3 u v 0)"

definition sphere_hit :: "sphere \<Rightarrow> ray \<Rightarrow> real \<Rightarrow> sphere intersection" where
  "sphere_hit sp r t =
     (let point = pointAt r t
      in \<lparr>hit_t = t, hit_point = point, hit_normal = sphere_normal sp point,
          hit_uv = sphere_uv sp point, hit_object = sp\<rparr>)"

definition sphere_intersect :: "sphere \<Rightarrow> ray \<Rightarrow> sphere intersection option" where
  "sphere_intersect sp r =
     (let to = vec3_sub (origin r) (pos sp);
          b = vec3_dot to (dir r);
          c = vec3_dot to to - radius sp * radius sp;
          d = b * b - c
      in if EPSILON < d then
           (let d2 = sqrt d;
                t = - b - d2
            in if EPSILON < t then Some (sphere_hit sp r t)
               else (let t = - b + d2
                     in if EPSILON < t then Some (sphere_hit sp r t) else None))
         else None)"

section \<open>The geometric specification\<close>

text \<open>The point at parameter \<open>t\<close> lies on the sphere.\<close>

definition on_sphere :: "sphere \<Rightarrow> ray \<Rightarrow> real \<Rightarrow> bool" where
  "on_sphere sp r t \<longleftrightarrow>
     vec3_dot (vec3_sub (pointAt r t) (pos sp)) (vec3_sub (pointAt r t) (pos sp)) = radius sp ^ 2"

text \<open>The code's \<open>b\<close> and discriminant \<open>d\<close>.\<close>

definition sphere_b :: "sphere \<Rightarrow> ray \<Rightarrow> real" where
  "sphere_b sp r = vec3_dot (vec3_sub (origin r) (pos sp)) (dir r)"

definition sphere_disc :: "sphere \<Rightarrow> ray \<Rightarrow> real" where
  "sphere_disc sp r =
     sphere_b sp r * sphere_b sp r
     - (vec3_dot (vec3_sub (origin r) (pos sp)) (vec3_sub (origin r) (pos sp)) - radius sp * radius sp)"

text \<open>A sphere of radius \<open>1/2\<close> at the origin, for the examples.\<close>

definition test_sphere :: sphere where
  "test_sphere = \<lparr>pos = vzero, radius = 1/2, material = white_diffuse\<rparr>"

lemma sphere_intersect_eq:
  "sphere_intersect sp r =
     (if EPSILON < sphere_disc sp r then
        (if EPSILON < - sphere_b sp r - sqrt (sphere_disc sp r)
         then Some (sphere_hit sp r (- sphere_b sp r - sqrt (sphere_disc sp r)))
         else if EPSILON < - sphere_b sp r + sqrt (sphere_disc sp r)
         then Some (sphere_hit sp r (- sphere_b sp r + sqrt (sphere_disc sp r)))
         else None)
      else None)"
  unfolding sphere_intersect_def sphere_disc_def sphere_b_def Let_def by (rule refl)

text \<open>For a unit direction, the ray meets the sphere at \<open>t\<close> iff \<open>(t + b)\<^sup>2 = d\<close>.\<close>

lemma vec3_dot_ray_expand:
  "vec3_dot (vec3_add a (vec3_mulScalar d t)) (vec3_add a (vec3_mulScalar d t)) =
   vec3_dot a a + 2 * t * vec3_dot a d + t * t * vec3_dot d d"
  by (simp add: vec3_dot_commute [of d a] algebra_simps)

lemma on_sphere_iff:
  assumes "unit_ray r"
  shows "on_sphere sp r t \<longleftrightarrow> (t + sphere_b sp r) ^ 2 = sphere_disc sp r"
proof -
  let ?to = "vec3_sub (origin r) (pos sp)"
  have "vec3_dot (vec3_sub (pointAt r t) (pos sp)) (vec3_sub (pointAt r t) (pos sp)) =
        vec3_dot ?to ?to + 2 * t * sphere_b sp r + t * t"
    using assms unfolding pointAt_offset vec3_dot_ray_expand sphere_b_def unit_ray_def by simp
  then show ?thesis
    unfolding on_sphere_def sphere_disc_def power2_eq_square by (simp add: algebra_simps del: vec3_dot_linear)
qed

lemma on_sphere_roots:
  assumes "unit_ray r" "0 \<le> sphere_disc sp r"
  shows "on_sphere sp r t \<longleftrightarrow>
         t = - sphere_b sp r - sqrt (sphere_disc sp r) \<or> t = - sphere_b sp r + sqrt (sphere_disc sp r)"
proof -
  have "(t + sphere_b sp r) ^ 2 = sphere_disc sp r \<longleftrightarrow>
        (t + sphere_b sp r) ^ 2 = (sqrt (sphere_disc sp r)) ^ 2"
    using assms(2) by simp
  also have "\<dots> \<longleftrightarrow> t + sphere_b sp r = sqrt (sphere_disc sp r) \<or> t + sphere_b sp r = - sqrt (sphere_disc sp r)"
    by (rule power2_eq_iff)
  finally show ?thesis
    using on_sphere_iff [OF assms(1), of sp t] by argo
qed

text \<open>
  C2: \<open>intersect\<close> refines the geometric specification: for a ray with a unit direction
  it returns the hit at the least parameter \<open>t > EPSILON\<close> at which the ray meets the
  sphere, and no hit when there is none or when the discriminant does not exceed
  \<open>EPSILON\<close> (tangent and grazing rays are rejected).
\<close>

theorem sphere_intersect_nearest_root:
  assumes "unit_ray r"
  shows "sphere_intersect sp r =
    (if EPSILON < sphere_disc sp r \<and> (\<exists>t. EPSILON < t \<and> on_sphere sp r t)
     then Some (sphere_hit sp r (LEAST t. EPSILON < t \<and> on_sphere sp r t)) else None)"
proof (cases "EPSILON < sphere_disc sp r")
  case False
  then show ?thesis by (simp add: sphere_intersect_eq)
next
  case True
  let ?t1 = "- sphere_b sp r - sqrt (sphere_disc sp r)"
  let ?t2 = "- sphere_b sp r + sqrt (sphere_disc sp r)"
  let ?P = "\<lambda>t. EPSILON < t \<and> on_sphere sp r t"
  have d: "0 \<le> sphere_disc sp r"
    using True by (simp add: EPSILON_def)
  have roots: "on_sphere sp r t \<longleftrightarrow> t = ?t1 \<or> t = ?t2" for t
    by (rule on_sphere_roots [OF assms d])
  have le: "?t1 \<le> ?t2"
    using d by simp
  show ?thesis
  proof (cases "EPSILON < ?t1")
    case True
    have "(LEAST t. ?P t) = ?t1"
      by (rule Least_equality) (use True roots le in auto)
    with True \<open>EPSILON < sphere_disc sp r\<close> roots show ?thesis
      by (auto simp: sphere_intersect_eq)
  next
    case t1: False
    show ?thesis
    proof (cases "EPSILON < ?t2")
      case True
      have "(LEAST t. ?P t) = ?t2"
        by (rule Least_equality) (use True t1 roots in auto)
      with True t1 \<open>EPSILON < sphere_disc sp r\<close> roots show ?thesis
        by (auto simp: sphere_intersect_eq)
    next
      case False
      with t1 \<open>EPSILON < sphere_disc sp r\<close> roots show ?thesis
        by (auto simp: sphere_intersect_eq)
    qed
  qed
qed

theorem sphere_intersect_nearest_root_witness:
  "unit_ray \<lparr>origin = Vec3 (-2) 0 0, dir = Vec3 1 0 0\<rparr> \<and>
   sphere_intersect test_sphere \<lparr>origin = Vec3 (-2) 0 0, dir = Vec3 1 0 0\<rparr> =
    (if EPSILON < sphere_disc test_sphere \<lparr>origin = Vec3 (-2) 0 0, dir = Vec3 1 0 0\<rparr>
        \<and> (\<exists>t. EPSILON < t \<and> on_sphere test_sphere \<lparr>origin = Vec3 (-2) 0 0, dir = Vec3 1 0 0\<rparr> t)
     then Some (sphere_hit test_sphere \<lparr>origin = Vec3 (-2) 0 0, dir = Vec3 1 0 0\<rparr>
                 (LEAST t. EPSILON < t \<and> on_sphere test_sphere \<lparr>origin = Vec3 (-2) 0 0, dir = Vec3 1 0 0\<rparr> t))
     else None)"
proof -
  have u: "unit_ray \<lparr>origin = Vec3 (-2) 0 0, dir = Vec3 1 0 0\<rparr>"
    by (simp add: unit_ray_def vec3_dot_def)
  show ?thesis using u sphere_intersect_nearest_root [OF u] by (rule conjI)
qed

lemma sphere_intersect_Some:
  assumes "sphere_intersect sp r = Some h"
  shows "\<exists>t. h = sphere_hit sp r t \<and> EPSILON < t \<and> EPSILON < sphere_disc sp r \<and>
             (t = - sphere_b sp r - sqrt (sphere_disc sp r) \<or> t = - sphere_b sp r + sqrt (sphere_disc sp r))"
  using assms by (auto simp: sphere_intersect_eq split: if_splits)

lemma sphere_hit_sel [simp]:
  "hit_t (sphere_hit sp r t) = t" "hit_point (sphere_hit sp r t) = pointAt r t"
  "hit_normal (sphere_hit sp r t) = sphere_normal sp (pointAt r t)"
  "hit_uv (sphere_hit sp r t) = sphere_uv sp (pointAt r t)"
  "hit_object (sphere_hit sp r t) = sp"
  by (simp_all add: sphere_hit_def Let_def)

text \<open>A hit lies on the sphere.\<close>

lemma sphere_intersect_on_sphere:
  assumes "unit_ray r" "sphere_intersect sp r = Some h"
  shows "h = sphere_hit sp r (hit_t h) \<and> EPSILON < hit_t h \<and> on_sphere sp r (hit_t h)"
proof -
  obtain t where t: "h = sphere_hit sp r t" "EPSILON < t" "EPSILON < sphere_disc sp r"
      "t = - sphere_b sp r - sqrt (sphere_disc sp r) \<or> t = - sphere_b sp r + sqrt (sphere_disc sp r)"
    using sphere_intersect_Some [OF assms(2)] by blast
  have "0 \<le> sphere_disc sp r" using t(3) by (simp add: EPSILON_def)
  then have "on_sphere sp r t" using t(4) on_sphere_roots [OF assms(1)] by blast
  with t show ?thesis by simp
qed

text \<open>On the sphere (radius not zero), \<open>normal\<close> is the unit outward normal.\<close>

lemma sphere_normal_on_sphere:
  assumes "vec3_dot (vec3_sub q (pos sp)) (vec3_sub q (pos sp)) = radius sp ^ 2" "radius sp \<noteq> 0"
  shows "sphere_normal sp q = vec3_mulScalar (vec3_sub q (pos sp)) (1 / \<bar>radius sp\<bar>)"
    and "vec3_dot (sphere_normal sp q) (sphere_normal sp q) = 1"
proof -
  have "vec3_length (vec3_sub q (pos sp)) = \<bar>radius sp\<bar>"
    using assms(1) by (simp add: vec3_length_def)
  then show "sphere_normal sp q = vec3_mulScalar (vec3_sub q (pos sp)) (1 / \<bar>radius sp\<bar>)"
    by (simp add: sphere_normal_def vec3_normalize_scale)
  have "vec3_sub q (pos sp) \<noteq> vzero"
  proof
    assume "vec3_sub q (pos sp) = vzero"
    with assms show False by simp
  qed
  then show "vec3_dot (sphere_normal sp q) (sphere_normal sp q) = 1"
    by (simp add: sphere_normal_def vec3_normalize_dot_self)
qed

text \<open>
  A ray that starts on the sphere and does not point into it (\<open>b \<ge> 0\<close>) has its two
  roots at \<open>-2b \<le> 0\<close> and \<open>0\<close>, neither beyond \<open>EPSILON\<close>: no hit.
\<close>

lemma sphere_intersect_leaving:
  assumes "vec3_dot (vec3_sub (origin r) (pos sp)) (vec3_sub (origin r) (pos sp)) = radius sp ^ 2"
    and "0 \<le> vec3_dot (vec3_sub (origin r) (pos sp)) (dir r)"
  shows "sphere_intersect sp r = None"
proof -
  have d: "sphere_disc sp r = sphere_b sp r ^ 2"
    using assms(1) by (simp add: sphere_disc_def power2_eq_square)
  have b: "0 \<le> sphere_b sp r"
    using assms(2) by (simp add: sphere_b_def)
  then have "sqrt (sphere_disc sp r) = sphere_b sp r"
    by (simp add: d)
  with b show ?thesis
    by (simp add: sphere_intersect_eq EPSILON_def)
qed

text \<open>
  C23: the spec's head-on case: a ray aimed from outside at the centre of a sphere of
  positive radius (radius squared above \<open>EPSILON\<close>, distance to the surface above
  \<open>EPSILON\<close>) hits it at \<open>t = distance - radius\<close>, where the normal is the reversed
  ray direction.
\<close>

theorem sphere_intersect_head_on:
  assumes R: "0 < radius sp" "EPSILON < radius sp * radius sp"
    and far: "radius sp + EPSILON < vec3_length (vec3_sub (pos sp) orig)"
  shows "\<exists>h. sphere_intersect sp (new_Ray orig (vec3_sub (pos sp) orig)) = Some h
           \<and> hit_t h = vec3_length (vec3_sub (pos sp) orig) - radius sp
           \<and> hit_normal h = vec3_mulScalar (dir (new_Ray orig (vec3_sub (pos sp) orig))) (-1)"
proof -
  let ?w = "vec3_sub (pos sp) orig"
  let ?D = "vec3_length ?w"
  let ?r = "new_Ray orig ?w"
  let ?R = "radius sp"
  have D: "0 < ?D"
    using R far by (simp add: EPSILON_def)
  have dD: "vec3_dot ?w ?w = ?D * ?D"
    by (simp flip: power2_eq_square add: vec3_length_sq)
  have dir: "dir ?r = vec3_mulScalar ?w (1 / ?D)"
    by (simp add: vec3_normalize_scale)
  have to: "vec3_sub (origin ?r) (pos sp) = vec3_mulScalar ?w (-1)"
    by (simp add: vec3_eq_iff)
  have b: "sphere_b sp ?r = - ?D"
    unfolding sphere_b_def to dir using D by (simp add: dD del: vec3_dot_add_sub)
  have disc: "sphere_disc sp ?r = ?R * ?R"
    unfolding sphere_disc_def b to by (simp add: dD del: vec3_dot_add_sub)
  have sq: "sqrt (sphere_disc sp ?r) = ?R"
    using R(1) by (simp add: disc)
  have t1: "EPSILON < - sphere_b sp ?r - sqrt (sphere_disc sp ?r)"
    using far by (simp add: b sq)
  have hit: "sphere_intersect sp ?r = Some (sphere_hit sp ?r (?D - ?R))"
    using R t1 by (simp add: sphere_intersect_eq disc b sq)
  have gen: "vec3_add (vec3_mulScalar w (-1)) (vec3_mulScalar (vec3_mulScalar w (1 / L)) (L - Q)) =
             vec3_mulScalar (vec3_mulScalar w (-1)) (Q / L)" if "L \<noteq> 0" for w L Q
    using that by (simp add: vec3_eq_iff field_simps)
  have off: "vec3_sub (pointAt ?r (?D - ?R)) (pos sp) = vec3_mulScalar (vec3_mulScalar ?w (-1)) (?R / ?D)"
    unfolding pointAt_offset to dir using D by (simp only: gen)
  have neg: "vec3_normalize (vec3_mulScalar ?w (-1)) = vec3_mulScalar (vec3_normalize ?w) (-1)"
  proof -
    have "vec3_length (vec3_mulScalar ?w (-1)) = ?D"
      by (simp add: vec3_length_def)
    then show ?thesis by (simp add: vec3_normalize_scale vec3_eq_iff minus_divide_left)
  qed
  have "sphere_normal sp (pointAt ?r (?D - ?R)) = vec3_mulScalar (dir ?r) (-1)"
    using R(1) D by (simp add: sphere_normal_def off vec3_normalize_mulScalar neg)
  with hit show ?thesis by simp
qed

theorem sphere_intersect_head_on_witness:
  "0 < radius test_sphere \<and>
   EPSILON < radius test_sphere * radius test_sphere \<and>
   radius test_sphere + EPSILON
     < vec3_length (vec3_sub (pos test_sphere) (Vec3 (-2) 0 0)) \<and>
   (\<exists>h. sphere_intersect test_sphere
          (new_Ray (Vec3 (-2) 0 0) (vec3_sub (pos test_sphere) (Vec3 (-2) 0 0))) = Some h
      \<and> hit_t h = vec3_length (vec3_sub (pos test_sphere) (Vec3 (-2) 0 0))
                   - radius test_sphere
      \<and> hit_normal h = vec3_mulScalar (dir (new_Ray (Vec3 (-2) 0 0)
                          (vec3_sub (pos test_sphere) (Vec3 (-2) 0 0)))) (-1))"
proof -
  have len: "vec3_length (vec3_sub (pos test_sphere) (Vec3 (-2) 0 0)) = 2"
    by (simp add: vec3_length_def vec_defs test_sphere_def)
  have h: "0 < radius test_sphere"
    "EPSILON < radius test_sphere * radius test_sphere"
    "radius test_sphere + EPSILON
       < vec3_length (vec3_sub (pos test_sphere) (Vec3 (-2) 0 0))"
    by (simp_all only: len) (simp_all add: EPSILON_def test_sphere_def)
  show ?thesis using h sphere_intersect_head_on [OF h] by blast
qed

text \<open>
  C24: the spec's miss case: a ray with a unit direction whose line passes the centre at a
  distance (the length of \<open>(origin - centre) \<times> dir\<close>) greater than the radius has a
  negative discriminant and no hit.
\<close>

theorem sphere_intersect_miss:
  assumes "unit_ray r"
    and "\<bar>radius sp\<bar> < vec3_length (vec3_cross (vec3_sub (origin r) (pos sp)) (dir r))"
  shows "sphere_intersect sp r = None"
proof -
  let ?to = "vec3_sub (origin r) (pos sp)"
  let ?x = "vec3_cross ?to (dir r)"
  have lag: "vec3_dot ?x ?x = vec3_dot ?to ?to - sphere_b sp r ^ 2"
    using vec3_lagrange [of ?to "dir r"] assms(1) by (simp add: unit_ray_def sphere_b_def)
  have "\<bar>radius sp\<bar> ^ 2 < vec3_length ?x ^ 2"
    by (rule power_strict_mono [OF assms(2)]) simp_all
  then have "radius sp ^ 2 < vec3_dot ?x ?x"
    by (simp add: vec3_length_sq)
  then have "sphere_disc sp r < 0"
    using lag by (simp add: sphere_disc_def power2_eq_square del: vec3_dot_add_sub)
  then show ?thesis
    by (simp add: sphere_intersect_eq EPSILON_def)
qed

theorem sphere_intersect_miss_witness:
  "unit_ray \<lparr>origin = Vec3 (-2) 1 0, dir = Vec3 1 0 0\<rparr> \<and>
   \<bar>radius test_sphere\<bar>
     < vec3_length (vec3_cross (vec3_sub (origin \<lparr>origin = Vec3 (-2) 1 0, dir = Vec3 1 0 0\<rparr>)
          (pos test_sphere)) (dir \<lparr>origin = Vec3 (-2) 1 0, dir = Vec3 1 0 0\<rparr>)) \<and>
   sphere_intersect test_sphere \<lparr>origin = Vec3 (-2) 1 0, dir = Vec3 1 0 0\<rparr> = None"
proof -
  have u: "unit_ray \<lparr>origin = Vec3 (-2) 1 0, dir = Vec3 1 0 0\<rparr>"
    by (simp add: unit_ray_def vec3_dot_def)
  have m: "\<bar>radius test_sphere\<bar>
     < vec3_length (vec3_cross (vec3_sub (origin \<lparr>origin = Vec3 (-2) 1 0, dir = Vec3 1 0 0\<rparr>)
          (pos test_sphere)) (dir \<lparr>origin = Vec3 (-2) 1 0, dir = Vec3 1 0 0\<rparr>))"
    by (simp add: vec3_length_def vec_defs test_sphere_def)
  show ?thesis using u m sphere_intersect_miss [OF u m] by blast
qed

lemma sphere_uv_range:
  "0 \<le> vx (sphere_uv sp q) \<and> vx (sphere_uv sp q) \<le> 1 \<and>
   0 \<le> vy (sphere_uv sp q) \<and> vy (sphere_uv sp q) \<le> 1 \<and> vz (sphere_uv sp q) = 0"
proof -
  let ?p = "vec3_sub q (pos sp)"
  let ?len = "vec3_length (Vec3 (vx ?p) 0 (vz ?p))"
  have u: "- pi \<le> js_atan2 (vz ?p) (vx ?p) \<and> js_atan2 (vz ?p) (vx ?p) \<le> pi"
    by (rule js_atan2_bounds)
  have v: "- (pi / 2) \<le> js_atan2 (vy ?p) ?len \<and> js_atan2 (vy ?p) ?len \<le> pi / 2"
    by (rule js_atan2_nonneg_x) simp
  show ?thesis
    using u v pi_gt_zero by (simp add: sphere_uv_def Let_def field_simps)
qed

text \<open>
  C25: the texture coordinates of every point, \<open>u\<close> from the longitude and \<open>v\<close> from the
  latitude, lie in \<open>[0, 1]\<close>, and the third component is 0.
\<close>

theorem sphere_uv_bounds:
  "0 \<le> vx (sphere_uv sp q) \<and> vx (sphere_uv sp q) \<le> 1 \<and>
   0 \<le> vy (sphere_uv sp q) \<and> vy (sphere_uv sp q) \<le> 1 \<and> vz (sphere_uv sp q) = 0"
  by (rule sphere_uv_range)

end
