(* ===== verification/Scene.thy ===== *)
theory Scene
  imports Sphere
begin

text \<open>
  \<open>Scene\<close> (tri.js lines 268--294): a list of objects (spheres, the only intersectable
  the program has), \<open>add\<close> (\<open>push\<close>), and \<open>intersect(ray)\<close>, which maps every object's
  \<open>intersect\<close> over the list and folds the results with \<open>reduce\<close> and no initial
  value, keeping the accumulator unless the new hit is strictly nearer. The abstract
  specification \<open>first_nearest\<close> is the first hit, in scene order, whose \<open>t\<close> is least.
  Proved: on a non-empty scene \<open>intersect\<close> returns exactly \<open>first_nearest\<close> of the
  objects' hits (a refinement; ties keep the earlier object, and no hit when no object
  is hit); after \<open>add\<close>, \<open>intersect\<close> answers the new sphere's hit exactly when there
  was no hit before or the new one is strictly nearer. On an empty scene it throws
  \<open>TypeError\<close>, where the spec promises ``no hit''.
\<close>

record scene =
  objects :: "sphere list"

definition new_Scene :: scene where
  "new_Scene = \<lparr>objects = []\<rparr>"

definition scene_add :: "scene \<Rightarrow> sphere \<Rightarrow> scene" where
  "scene_add sc obj = sc\<lparr>objects := objects sc @ [obj]\<rparr>"

definition nearest_step ::
  "'obj intersection option \<Rightarrow> 'obj intersection option \<Rightarrow> 'obj intersection option" where
  "nearest_step acc val =
     (case acc of
        None \<Rightarrow> val
      | Some a \<Rightarrow> (case val of None \<Rightarrow> acc | Some v \<Rightarrow> if hit_t a > hit_t v then val else acc))"

definition scene_intersect :: "scene \<Rightarrow> ray \<Rightarrow> js_error + sphere intersection option" where
  "scene_intersect sc r = js_reduce nearest_step (map (\<lambda>object. sphere_intersect object r) (objects sc))"

section \<open>The nearest-hit specification\<close>

definition first_nearest :: "'obj intersection list \<Rightarrow> 'obj intersection option" where
  "first_nearest hs = find (\<lambda>h. \<forall>h' \<in> set hs. hit_t h \<le> hit_t h') hs"

lemma exists_least_hit: "hs \<noteq> [] \<Longrightarrow> \<exists>h \<in> set hs. \<forall>h' \<in> set hs. hit_t h \<le> hit_t h'"
proof (induction hs)
  case Nil
  then show ?case by simp
next
  case (Cons g hs)
  show ?case
  proof (cases "hs = []")
    case True
    then show ?thesis by simp
  next
    case False
    then obtain h where "h \<in> set hs" "\<forall>h' \<in> set hs. hit_t h \<le> hit_t h'"
      using Cons.IH by blast
    then show ?thesis
      by (cases "hit_t g \<le> hit_t h") force+
  qed
qed

lemma first_nearest_Nil [simp]: "first_nearest [] = None"
  by (simp add: first_nearest_def)

lemma first_nearest_None [simp]: "first_nearest hs = None \<longleftrightarrow> hs = []"
  using exists_least_hit [of hs] by (auto simp: first_nearest_def find_None_iff)

text \<open>\<open>find\<close> with a stronger predicate that the found element still satisfies.\<close>

lemma find_strengthen:
  "find Q xs = Some a \<Longrightarrow> (\<And>x. P x \<Longrightarrow> Q x) \<Longrightarrow> P a \<Longrightarrow> find P xs = Some a"
  by (induction xs) (auto split: if_splits)

lemma find_Some_sat: "find Q xs = Some a \<Longrightarrow> a \<in> set xs \<and> Q a"
  by (induction xs) (auto split: if_splits)

lemma first_nearest_snoc:
  "first_nearest (hs @ [h]) =
     (case first_nearest hs of None \<Rightarrow> Some h
      | Some a \<Rightarrow> if hit_t a > hit_t h then Some h else Some a)"
proof (cases "first_nearest hs")
  case None
  then have "hs = []" by simp
  then show ?thesis by (simp add: first_nearest_def)
next
  case (Some a)
  let ?P = "\<lambda>g. \<forall>h' \<in> set (hs @ [h]). hit_t g \<le> hit_t h'"
  have a: "a \<in> set hs" "\<forall>h' \<in> set hs. hit_t a \<le> hit_t h'"
    using find_Some_sat [OF Some [unfolded first_nearest_def]] by simp_all
  show ?thesis
  proof (cases "hit_t a > hit_t h")
    case True
    have "find ?P hs = None"
      using a True by (force simp: find_None_iff)
    moreover have "?P h"
      using a True by force
    ultimately have "find ?P (hs @ [h]) = Some h"
      by (simp only: find_append) simp
    with True Some show ?thesis
      by (simp only: first_nearest_def) simp
  next
    case False
    have "find ?P hs = Some a"
      by (rule find_strengthen [OF Some [unfolded first_nearest_def]]) (use a False in auto)
    then have "find ?P (hs @ [h]) = Some a"
      by (simp only: find_append) simp
    with False Some show ?thesis
      by (simp only: first_nearest_def) simp
  qed
qed

lemma nearest_step_None [simp]: "nearest_step acc None = acc"
  by (cases acc) (simp_all add: nearest_step_def)

text \<open>The fold of \<open>reduce\<close> computes \<open>first_nearest\<close> of the hits seen so far.\<close>

lemma foldl_nearest_step:
  "foldl nearest_step x xs = first_nearest (List.map_filter (\<lambda>y. y) (x # xs))"
proof (induction xs rule: rev_induct)
  case Nil
  then show ?case
    by (cases x) (simp_all add: first_nearest_def)
next
  case (snoc y xs)
  have "foldl nearest_step x (xs @ [y]) = nearest_step (foldl nearest_step x xs) y"
    by simp
  also have "\<dots> = first_nearest (List.map_filter (\<lambda>y. y) ((x # xs) @ [y]))"
  proof (cases y)
    case None
    then show ?thesis by (simp add: snoc.IH map_filter_snoc del: List.map_filter_simps append_Cons)
  next
    case (Some v)
    then show ?thesis
      by (simp add: snoc.IH map_filter_snoc first_nearest_snoc nearest_step_def
          del: List.map_filter_simps append_Cons split: option.splits)
  qed
  finally show ?case by simp
qed

lemma scene_intersect_nonempty:
  "objects sc \<noteq> [] \<Longrightarrow>
   scene_intersect sc r = Inr (first_nearest (List.map_filter (\<lambda>object. sphere_intersect object r) (objects sc)))"
proof -
  assume "objects sc \<noteq> []"
  then obtain obj os where o: "objects sc = obj # os"
    by (cases "objects sc") auto
  then have "scene_intersect sc r =
      Inr (first_nearest (List.map_filter (\<lambda>y. y) (map (\<lambda>object. sphere_intersect object r) (obj # os))))"
    by (simp add: scene_intersect_def foldl_nearest_step del: List.map_filter_simps)
  then show ?thesis
    by (simp only: map_filter_map o)
qed

text \<open>
  C1: on a non-empty scene, \<open>Scene.intersect\<close> refines the nearest-hit specification: it
  returns the first, in the order the objects were added, of the objects' hits whose
  \<open>t\<close> is least, and no hit when no object is hit.
\<close>

theorem scene_intersect_first_nearest:
  assumes "objects sc \<noteq> []"
  shows "scene_intersect sc r =
         Inr (find (\<lambda>h. \<forall>h' \<in> set (List.map_filter (\<lambda>object. sphere_intersect object r) (objects sc)).
                           hit_t h \<le> hit_t h')
                   (List.map_filter (\<lambda>object. sphere_intersect object r) (objects sc)))"
  using scene_intersect_nonempty [OF assms] by (simp add: first_nearest_def)

theorem scene_intersect_first_nearest_witness:
  "objects \<lparr>objects = [test_sphere]\<rparr> \<noteq> [] \<and>
   scene_intersect \<lparr>objects = [test_sphere]\<rparr> \<lparr>origin = Vec3 (-2) 0 0, dir = Vec3 1 0 0\<rparr> =
     Inr (find (\<lambda>h. \<forall>h' \<in> set (List.map_filter (\<lambda>object. sphere_intersect object \<lparr>origin = Vec3 (-2) 0 0, dir = Vec3 1 0 0\<rparr>)
                                       (objects \<lparr>objects = [test_sphere]\<rparr>)). hit_t h \<le> hit_t h')
               (List.map_filter (\<lambda>object. sphere_intersect object \<lparr>origin = Vec3 (-2) 0 0, dir = Vec3 1 0 0\<rparr>)
                  (objects \<lparr>objects = [test_sphere]\<rparr>)))"
proof -
  have h: "objects \<lparr>objects = [test_sphere]\<rparr> \<noteq> []" by simp
  show ?thesis
    using h scene_intersect_first_nearest [OF h, of "\<lparr>origin = Vec3 (-2) 0 0, dir = Vec3 1 0 0\<rparr>"] by (rule conjI)
qed

lemma scene_intersect_hit:
  assumes "scene_intersect sc r = Inr (Some h)"
  shows "\<exists>obj \<in> set (objects sc). sphere_intersect obj r = Some h"
proof -
  have ne: "objects sc \<noteq> []"
    using assms by (auto simp: scene_intersect_def)
  then have "first_nearest (List.map_filter (\<lambda>object. sphere_intersect object r) (objects sc)) = Some h"
    using assms scene_intersect_nonempty [OF ne] by simp
  then have "h \<in> set (List.map_filter (\<lambda>object. sphere_intersect object r) (objects sc))"
    using find_Some_sat unfolding first_nearest_def by fast
  then show ?thesis by (simp add: in_set_map_filter)
qed

lemma scene_intersect_Inr: "objects sc \<noteq> [] \<Longrightarrow> \<exists>res. scene_intersect sc r = Inr res"
  using scene_intersect_nonempty by blast

lemma scene_intersect_Inl: "scene_intersect sc r = Inl e \<Longrightarrow> objects sc = [] \<and> e = TypeError"
  by (cases "objects sc") (simp_all add: scene_intersect_def)

lemma sphere_intersect_object: "sphere_intersect obj r = Some h \<Longrightarrow> hit_object h = obj"
  using sphere_intersect_Some [of obj r h] by auto

text \<open>
  C12: \<open>Scene.add\<close> appends, and \<open>intersect\<close> keeps the strictly nearer hit: adding a
  sphere to a scene whose \<open>intersect\<close> answers \<open>acc\<close> makes it answer the new sphere's
  hit when there was none before or when that hit is strictly nearer, and \<open>acc\<close>
  otherwise. So on a tie the object added earlier wins, and a miss of the new sphere
  changes nothing.
\<close>

theorem scene_add_intersect:
  assumes "scene_intersect sc r = Inr acc"
  shows "scene_intersect (scene_add sc sp) r =
           Inr (case acc of
                  None \<Rightarrow> sphere_intersect sp r
                | Some a \<Rightarrow> (case sphere_intersect sp r of
                              None \<Rightarrow> Some a
                            | Some v \<Rightarrow> Some (if hit_t v < hit_t a then v else a)))"
proof -
  have "objects sc \<noteq> []" using assms by (auto simp: scene_intersect_def)
  then show ?thesis
    using assms
    by (cases "objects sc")
       (auto simp: scene_intersect_def scene_add_def nearest_step_def split: option.splits)
qed

theorem scene_add_intersect_witness:
  "\<exists>acc. scene_intersect \<lparr>objects = [test_sphere]\<rparr> \<lparr>origin = Vec3 (-2) 0 0, dir = Vec3 1 0 0\<rparr> = Inr acc \<and>
     scene_intersect (scene_add \<lparr>objects = [test_sphere]\<rparr> test_sphere) \<lparr>origin = Vec3 (-2) 0 0, dir = Vec3 1 0 0\<rparr> =
       Inr (case acc of
              None \<Rightarrow> sphere_intersect test_sphere \<lparr>origin = Vec3 (-2) 0 0, dir = Vec3 1 0 0\<rparr>
            | Some a \<Rightarrow> (case sphere_intersect test_sphere \<lparr>origin = Vec3 (-2) 0 0, dir = Vec3 1 0 0\<rparr> of
                          None \<Rightarrow> Some a
                        | Some v \<Rightarrow> Some (if hit_t v < hit_t a then v else a)))"
proof -
  obtain acc where h: "scene_intersect \<lparr>objects = [test_sphere]\<rparr> \<lparr>origin = Vec3 (-2) 0 0, dir = Vec3 1 0 0\<rparr> = Inr acc"
    using scene_intersect_Inr [of "\<lparr>objects = [test_sphere]\<rparr>"] by auto
  show ?thesis using h scene_add_intersect [OF h] by blast
qed

end
