(* ===== verification/Integrator.thy ===== *)
theory Integrator
  imports Scene
begin

text \<open>
  The path integrator \<open>sample(scene, ray, bounce)\<close> (tri.js lines 296--315): black past
  \<open>MAX_BOUNCES\<close>, the flat sky colour \<open>(0.9, 0.9, 0.9)\<close> on a miss, and otherwise the
  hit texture's colour at the hit's \<open>uv\<close> times the radiance of the ray that the hit
  object's material scatters, sampled one bounce deeper. It threads the random stream (the
  material draws from \<open>Math.random\<close>), may throw (\<open>Scene.intersect\<close> on an empty
  scene) and may not return (\<open>randomUnit\<close>), hence the \<open>js_result\<close>. Termination of the
  recursion itself is the depth bound: the measure \<open>MAX_BOUNCES + 1 - bounce\<close>. Proved:
  a hit at bounce \<open>MAX_BOUNCES\<close> returns black whatever the texture; \<open>sample\<close> throws
  exactly on an empty scene within the bounce limit;
  on a non-empty scene it returns whenever \<open>randomUnit\<close> can; with texture colours in
  \<open>[0, 1]\<close> every returned colour lies between black and the sky colour.
\<close>

definition sky_color :: color where
  "sky_color = Color (9/10) (9/10) (9/10)"

function sample :: "scene \<Rightarrow> ray \<Rightarrow> nat \<Rightarrow> rng \<Rightarrow> color js_result" where
  "sample sc r bounce s =
     (if bounce > MAX_BOUNCES then js_return (Color 0 0 0) s
      else
        (case scene_intersect sc r of
           Inl e \<Rightarrow> js_throw e
         | Inr None \<Rightarrow> js_return sky_color s
         | Inr (Some is) \<Rightarrow>
             js_bind (js_lift (brdf (material (hit_object is)) is s)) (\<lambda>newRay s1.
             js_bind (sample sc newRay (bounce + 1) s1) (\<lambda>indirect s2.
             (let u = vx (hit_uv is);
                  v = vy (hit_uv is)
              in js_return (color_mul (texture_sample (texture (material (hit_object is))) u v) indirect) s2)))))"
  by pat_completeness auto
termination
  by (relation "measure (\<lambda>(sc, r, bounce, s). Suc MAX_BOUNCES - bounce)") auto

declare sample.simps [simp del]

text \<open>Colours componentwise between two bounds; texture colours in the unit cube.\<close>

definition color_within :: "color \<Rightarrow> color \<Rightarrow> color \<Rightarrow> bool" where
  "color_within lo hi c \<longleftrightarrow>
     cr lo \<le> cr c \<and> cr c \<le> cr hi \<and> cg lo \<le> cg c \<and> cg c \<le> cg hi \<and> cb lo \<le> cb c \<and> cb c \<le> cb hi"

definition scene_colors_ok :: "scene \<Rightarrow> bool" where
  "scene_colors_ok sc \<longleftrightarrow>
     (\<forall>obj \<in> set (objects sc). \<forall>c \<in> set (texture_colors (texture (material obj))).
        color_within (Color 0 0 0) (Color 1 1 1) c)"

lemma sample_hit:
  assumes "\<not> MAX_BOUNCES < bounce" "scene_intersect sc r = Inr (Some is)"
  shows "sample sc r bounce s =
     js_bind (js_lift (brdf (material (hit_object is)) is s)) (\<lambda>newRay s1.
     js_bind (sample sc newRay (bounce + 1) s1) (\<lambda>indirect s2.
       js_return (color_mul (texture_sample (texture (material (hit_object is))) (vx (hit_uv is)) (vy (hit_uv is)))
                            indirect) s2))"
  using assms by (simp add: sample.simps [of sc r bounce s] Let_def)

lemma scene_intersect_single: "scene_intersect \<lparr>objects = [sp]\<rparr> r = Inr (sphere_intersect sp r)"
  by (simp add: scene_intersect_def)

lemma sample_returns:
  assumes "objects sc \<noteq> []" "random_ok s"
  shows "\<exists>c n. sample sc r bounce s = js_return c (sdrop n s)"
  using assms
proof (induction sc r bounce s rule: sample.induct)
  case (1 sc r bounce s)
  show ?case
  proof (cases "MAX_BOUNCES < bounce")
    case True
    then show ?thesis
      by (simp add: sample.simps [of sc r bounce s]) (metis sdrop.simps(1))
  next
    case False
    obtain res where res: "scene_intersect sc r = Inr res"
      using scene_intersect_Inr [OF "1.prems"(1)] by blast
    show ?thesis
    proof (cases res)
      case None
      with False res show ?thesis
        by (simp add: sample.simps [of sc r bounce s]) (metis sdrop.simps(1))
    next
      case (Some hit)
      obtain newRay n1 where b: "brdf (material (hit_object hit)) hit s = Some (newRay, sdrop n1 s)"
        using brdf_total [OF "1.prems"(2)] by blast
      have ok: "random_ok (sdrop n1 s)"
        using random_ok_sdrop [OF "1.prems"(2)] .
      obtain c n2 where rec: "sample sc newRay (bounce + 1) (sdrop n1 s) = js_return c (sdrop n2 (sdrop n1 s))"
        using "1.IH" [OF False res Some "1.prems"(1) ok] by blast
      show ?thesis
        using sample_hit [OF False res [unfolded Some]] b rec
        by (simp add: js_return_def sdrop_add) blast
    qed
  qed
qed

text \<open>
  C11: the last bounce contributes no light: when the ray hits an object at bounce
  \<open>MAX_BOUNCES\<close>, the recursive call past the cut-off returns black, so whatever the
  texture, \<open>sample\<close> returns black. Light reaches the camera only along paths that
  end in the sky within \<open>MAX_BOUNCES\<close> bounces.
\<close>

theorem sample_last_bounce_black:
  assumes "scene_intersect sc r = Inr (Some h)" "sample sc r MAX_BOUNCES s = Some (Inr (c, s'))"
  shows "c = Color 0 0 0"
proof -
  have cut: "sample sc r' (Suc MAX_BOUNCES) s1 = js_return (Color 0 0 0) s1" for r' s1
    by (subst sample.simps) simp
  show ?thesis
    using assms(2) sample_hit [OF _ assms(1), of MAX_BOUNCES s]
    by (cases "brdf (material (hit_object h)) h s")
       (auto simp: cut js_bind_def js_lift_def js_return_def color_mul_def)
qed

theorem sample_last_bounce_black_witness:
  "\<exists>h c s'. scene_intersect \<lparr>objects = [test_sphere]\<rparr> \<lparr>origin = Vec3 (-2) 0 0, dir = Vec3 1 0 0\<rparr> = Inr (Some h) \<and>
     sample \<lparr>objects = [test_sphere]\<rparr> \<lparr>origin = Vec3 (-2) 0 0, dir = Vec3 1 0 0\<rparr> MAX_BOUNCES (sconst (1/2)) =
       Some (Inr (c, s')) \<and> c = Color 0 0 0"
proof -
  let ?sc = "\<lparr>objects = [test_sphere]\<rparr>"
  let ?r = "\<lparr>origin = Vec3 (-2) 0 0, dir = Vec3 1 0 0\<rparr>"
  have q: "sqrt (1/4) = 1/2" by (rule real_sqrt_unique) (simp_all add: power2_eq_square)
  have "sphere_intersect test_sphere ?r = Some (sphere_hit test_sphere ?r (3/2))"
    by (simp add: sphere_intersect_def vec_defs EPSILON_def test_sphere_def q)
  then have h: "scene_intersect ?sc ?r = Inr (Some (sphere_hit test_sphere ?r (3/2)))"
    by (simp add: scene_intersect_single)
  obtain c n where c: "sample ?sc ?r MAX_BOUNCES (sconst (1/2)) = js_return c (sdrop n (sconst (1/2)))"
    using sample_returns [of ?sc "sconst (1/2)" ?r MAX_BOUNCES] by (auto simp: random_ok_half)
  then have "sample ?sc ?r MAX_BOUNCES (sconst (1/2)) = Some (Inr (c, sdrop n (sconst (1/2))))"
    by (simp add: js_return_def)
  with h show ?thesis using sample_last_bounce_black [OF h] by blast
qed

text \<open>
  C3: \<open>sample\<close> returns on every non-empty scene, for every ray and bounce, when the random
  stream satisfies \<open>random_ok\<close> (every call of \<open>randomUnit\<close> then returns); what it
  leaves of the stream is a suffix of it.
\<close>

theorem sample_total:
  assumes "objects sc \<noteq> []" "random_ok s"
  shows "\<exists>c n. sample sc r bounce s = js_return c (sdrop n s)"
  using sample_returns [OF assms] .

theorem sample_total_witness:
  "objects \<lparr>objects = [test_sphere]\<rparr> \<noteq> [] \<and> random_ok (sconst (1/2)) \<and>
   (\<exists>c n. sample \<lparr>objects = [test_sphere]\<rparr> \<lparr>origin = Vec3 (-2) 0 0, dir = Vec3 1 0 0\<rparr> 0 (sconst (1/2)) =
          js_return c (sdrop n (sconst (1/2))))"
proof -
  have h: "objects \<lparr>objects = [test_sphere]\<rparr> \<noteq> []" "random_ok (sconst (1/2))"
    by (simp_all add: random_ok_half)
  show ?thesis using h sample_total [OF h] by blast
qed

lemma color_mul_within:
  assumes "color_within (Color 0 0 0) (Color 1 1 1) a" "color_within (Color 0 0 0) hi b"
  shows "color_within (Color 0 0 0) hi (color_mul a b)"
proof -
  have k: "0 \<le> x * y \<and> x * y \<le> h" if "0 \<le> x" "x \<le> 1" "0 \<le> y" "y \<le> h" for x y h :: real
    using that mult_right_mono [of x 1 y] by simp
  show ?thesis
    using assms k by (simp add: color_within_def)
qed

lemma sample_within:
  assumes "scene_colors_ok sc" "sample sc r bounce s = Some (Inr (c, s'))"
  shows "color_within (Color 0 0 0) sky_color c"
  using assms
proof (induction sc r bounce s arbitrary: c s' rule: sample.induct)
  case (1 sc r bounce s)
  show ?case
  proof (cases "MAX_BOUNCES < bounce")
    case True
    then show ?thesis
      using "1.prems"(2) by (auto simp: sample.simps [of sc r bounce s] js_return_def color_within_def sky_color_def)
  next
    case False
    show ?thesis
    proof (cases "scene_intersect sc r")
      case (Inl e)
      then show ?thesis
        using False "1.prems"(2) by (simp add: sample.simps [of sc r bounce s] js_throw_def)
    next
      case (Inr res)
      show ?thesis
      proof (cases res)
        case None
        then show ?thesis
          using False Inr "1.prems"(2)
          by (auto simp: sample.simps [of sc r bounce s] js_return_def color_within_def sky_color_def)
      next
        case (Some hit)
        obtain newRay s1 ind s2 where
          b: "brdf (material (hit_object hit)) hit s = Some (newRay, s1)" and
          rec: "sample sc newRay (bounce + 1) s1 = Some (Inr (ind, s2))" and
          c: "c = color_mul (texture_sample (texture (material (hit_object hit))) (vx (hit_uv hit)) (vy (hit_uv hit))) ind"
          using "1.prems"(2) sample_hit [OF False Inr [unfolded Some]]
          by (auto simp: js_bind_eq_Inr js_lift_def js_return_def)
        have ind: "color_within (Color 0 0 0) sky_color ind"
          using "1.IH" [OF False Inr Some "1.prems"(1) rec] .
        obtain obj where "obj \<in> set (objects sc)" "sphere_intersect obj r = Some hit"
          using scene_intersect_hit Inr Some by blast
        then have "hit_object hit \<in> set (objects sc)"
          by (simp add: sphere_intersect_object)
        then have "color_within (Color 0 0 0) (Color 1 1 1)
                     (texture_sample (texture (material (hit_object hit))) (vx (hit_uv hit)) (vy (hit_uv hit)))"
          using "1.prems"(1) texture_sample_in_colors unfolding scene_colors_ok_def by blast
        then show ?thesis
          using ind c color_mul_within by blast
      qed
    qed
  qed
qed

text \<open>
  C8: every colour \<open>sample\<close> returns lies between black and the sky colour
  \<open>(0.9, 0.9, 0.9)\<close>, componentwise, when every texture colour of the scene lies in
  \<open>[0, 1]\<close>: with no light source but the sky, the integrator only attenuates.
\<close>

theorem sample_bounds:
  assumes "scene_colors_ok sc" "sample sc r bounce s = Some (Inr (c, s'))"
  shows "color_within (Color 0 0 0) sky_color c"
  using sample_within [OF assms] .

theorem sample_bounds_witness:
  "scene_colors_ok \<lparr>objects = [test_sphere]\<rparr> \<and>
   sample \<lparr>objects = [test_sphere]\<rparr>
          \<lparr>origin = Vec3 (-2) 1 0, dir = Vec3 1 0 0\<rparr> 0 (sconst (1/2)) = Some (Inr (sky_color, sconst (1/2))) \<and>
   color_within (Color 0 0 0) sky_color sky_color"
proof -
  let ?sp = test_sphere
  let ?r = "\<lparr>origin = Vec3 (-2) 1 0, dir = Vec3 1 0 0\<rparr>"
  have ok: "scene_colors_ok \<lparr>objects = [?sp]\<rparr>"
    by (simp add: scene_colors_ok_def color_within_def test_sphere_def white_diffuse_def)
  have "sphere_intersect ?sp ?r = None"
    by (simp add: sphere_intersect_def vec_defs EPSILON_def test_sphere_def)
  then have ret: "sample \<lparr>objects = [?sp]\<rparr> ?r 0 (sconst (1/2)) = Some (Inr (sky_color, sconst (1/2)))"
    by (simp add: sample.simps [of _ _ 0] scene_intersect_single js_return_def)
  show ?thesis
    using ok ret sample_bounds [OF ok ret] by blast
qed

lemma sample_throws_only_empty:
  assumes "sample sc r bounce s = Some (Inl e)"
  shows "objects sc = [] \<and> e = TypeError"
  using assms
proof (induction sc r bounce s rule: sample.induct)
  case (1 sc r bounce s)
  show ?case
  proof (cases "MAX_BOUNCES < bounce")
    case True
    then show ?thesis using "1.prems" by (simp add: sample.simps [of sc r bounce s] js_return_def)
  next
    case False
    show ?thesis
    proof (cases "scene_intersect sc r")
      case (Inl e')
      then show ?thesis
        using False "1.prems" scene_intersect_Inl [OF Inl]
        by (simp add: sample.simps [of sc r bounce s] js_throw_def)
    next
      case (Inr res)
      show ?thesis
      proof (cases res)
        case None
        then show ?thesis using False Inr "1.prems" by (simp add: sample.simps [of sc r bounce s] js_return_def)
      next
        case (Some hit)
        show ?thesis
        proof (cases "brdf (material (hit_object hit)) hit s")
          case None
          then show ?thesis
            using "1.prems" sample_hit [OF False Inr [unfolded Some]] by simp
        next
          case (Some b)
          obtain newRay s1 where b: "b = (newRay, s1)" by (cases b)
          have "sample sc newRay (bounce + 1) s1 = Some (Inl e)"
            using "1.prems" sample_hit [OF False Inr [unfolded \<open>res = Some hit\<close>]] Some b
            by (auto simp: js_bind_def js_return_def split: option.splits sum.splits)
          then show ?thesis
            using "1.IH" [OF False Inr \<open>res = Some hit\<close>] by blast
        qed
      qed
    qed
  qed
qed

text \<open>
  C14: the integrator's only error is the empty scene's: within the bounce limit,
  \<open>sample\<close> throws exactly when the scene has no objects, and then it throws
  \<open>TypeError\<close> (the material, the texture and the recursion never throw).
\<close>

theorem sample_throws_iff:
  assumes "bounce \<le> MAX_BOUNCES"
  shows "sample sc r bounce s = Some (Inl e) \<longleftrightarrow> objects sc = [] \<and> e = TypeError"
proof
  show "sample sc r bounce s = Some (Inl e) \<Longrightarrow> objects sc = [] \<and> e = TypeError"
    by (rule sample_throws_only_empty)
next
  assume "objects sc = [] \<and> e = TypeError"
  then show "sample sc r bounce s = Some (Inl e)"
    using assms by (simp add: sample.simps [of sc r bounce s] scene_intersect_def js_throw_def)
qed

theorem sample_throws_iff_witness:
  "(0::nat) \<le> MAX_BOUNCES \<and>
   (sample new_Scene \<lparr>origin = Vec3 (-2) 0 0, dir = Vec3 1 0 0\<rparr> 0 (sconst (1/2)) = Some (Inl TypeError) \<longleftrightarrow>
      objects new_Scene = [] \<and> TypeError = TypeError)"
proof -
  have h: "(0::nat) \<le> MAX_BOUNCES" by simp
  show ?thesis using h sample_throws_iff [OF h] by blast
qed

end
