(* ===== verification/Camera.thy ===== *)
theory Camera
  imports Ray
begin

text \<open>
  \<open>Camera\<close> (tri.js lines 103--126): the constructor derives a basis from position,
  look-at point and up vector, and the lower-left corner \<open>lc\<close> and the two spans of the
  image rectangle at distance one; \<open>getRay(u, v)\<close> aims at \<open>lc + horizontal u +
  vertical v\<close>. The constructor's locals \<open>forward\<close>, \<open>right\<close> and \<open>new_up\<close> and the
  half extents are named by \<open>cam_forward\<close>, \<open>cam_right\<close>, \<open>cam_up\<close>,
  \<open>cam_half_height\<close> for the statements. Proved: the basis is orthonormal when the
  camera is not degenerate (position \<open>\<noteq>\<close> look-at point, up not parallel to the view
  axis); the view vector of \<open>getRay(u, v)\<close> in that basis; every ray has a unit
  direction; the centre ray looks at the look-at point; the top-centre ray makes the angle
  \<open>vfov/2\<close> with it.
\<close>

record camera =
  cam_origin :: vec3
  lc :: vec3
  vertical :: vec3
  horizontal :: vec3

definition new_Camera :: "vec3 \<Rightarrow> vec3 \<Rightarrow> vec3 \<Rightarrow> real \<Rightarrow> real \<Rightarrow> camera" where
  "new_Camera orig lookAt up vfov aspect_ratio =
     (let theta = vfov * DEG_TO_RAD;
          forward = vec3_normalize (vec3_sub orig lookAt);
          right = vec3_normalize (vec3_cross up forward);
          new_up = vec3_cross forward right;
          half_rect_height = tan (theta / 2);
          half_rect_width = aspect_ratio * half_rect_height;
          half_rect_height_scaled = vec3_mulScalar new_up half_rect_height;
          half_rect_width_scaled = vec3_mulScalar right half_rect_width;
          offset = vec3_add half_rect_height_scaled half_rect_width_scaled
      in \<lparr>cam_origin = orig,
          lc = vec3_sub orig (vec3_add offset forward),
          vertical = vec3_mulScalar new_up (2 * half_rect_height),
          horizontal = vec3_mulScalar right (2 * half_rect_width)\<rparr>)"

definition getRay :: "camera \<Rightarrow> real \<Rightarrow> real \<Rightarrow> ray" where
  "getRay cam u v =
     (let horizontal' = vec3_mulScalar (horizontal cam) u;
          vertical' = vec3_mulScalar (vertical cam) v;
          d = vec3_normalize
                (vec3_sub (vec3_add (lc cam) (vec3_add horizontal' vertical')) (cam_origin cam))
      in new_Ray (cam_origin cam) d)"

section \<open>The constructor's basis\<close>

definition cam_forward :: "vec3 \<Rightarrow> vec3 \<Rightarrow> vec3" where
  "cam_forward orig lookAt = vec3_normalize (vec3_sub orig lookAt)"

definition cam_right :: "vec3 \<Rightarrow> vec3 \<Rightarrow> vec3 \<Rightarrow> vec3" where
  "cam_right orig lookAt up = vec3_normalize (vec3_cross up (cam_forward orig lookAt))"

definition cam_up :: "vec3 \<Rightarrow> vec3 \<Rightarrow> vec3 \<Rightarrow> vec3" where
  "cam_up orig lookAt up = vec3_cross (cam_forward orig lookAt) (cam_right orig lookAt up)"

definition cam_half_height :: "real \<Rightarrow> real" where
  "cam_half_height vfov = tan (vfov * DEG_TO_RAD / 2)"

text \<open>A camera whose basis exists: otherwise \<open>normalize\<close> divides by zero (NaN in JavaScript).\<close>

definition cam_nondegenerate :: "vec3 \<Rightarrow> vec3 \<Rightarrow> vec3 \<Rightarrow> bool" where
  "cam_nondegenerate orig lookAt up \<longleftrightarrow>
     orig \<noteq> lookAt \<and> vec3_cross up (cam_forward orig lookAt) \<noteq> vzero"

text \<open>The vector \<open>getRay\<close> normalises, in the camera basis.\<close>

definition cam_view :: "vec3 \<Rightarrow> vec3 \<Rightarrow> vec3 \<Rightarrow> real \<Rightarrow> real \<Rightarrow> real \<Rightarrow> real \<Rightarrow> vec3" where
  "cam_view orig lookAt up vfov ar u v =
     vec3_sub (vec3_add (vec3_mulScalar (cam_up orig lookAt up) (cam_half_height vfov * (2 * v - 1)))
                        (vec3_mulScalar (cam_right orig lookAt up) (ar * cam_half_height vfov * (2 * u - 1))))
              (cam_forward orig lookAt)"

lemma new_Camera_sel:
  "cam_origin (new_Camera orig lookAt up vfov ar) = orig"
  "lc (new_Camera orig lookAt up vfov ar) =
     vec3_sub orig (vec3_add (vec3_add (vec3_mulScalar (cam_up orig lookAt up) (cam_half_height vfov))
        (vec3_mulScalar (cam_right orig lookAt up) (ar * cam_half_height vfov))) (cam_forward orig lookAt))"
  "vertical (new_Camera orig lookAt up vfov ar) =
     vec3_mulScalar (cam_up orig lookAt up) (2 * cam_half_height vfov)"
  "horizontal (new_Camera orig lookAt up vfov ar) =
     vec3_mulScalar (cam_right orig lookAt up) (2 * (ar * cam_half_height vfov))"
  by (simp_all add: new_Camera_def cam_up_def cam_right_def cam_forward_def cam_half_height_def Let_def)

lemma vec3_sub_neq_zero: "a \<noteq> c \<Longrightarrow> vec3_sub a c \<noteq> vzero"
  by (auto simp: vec3_eq_iff)

lemma cam_basis:
  assumes "cam_nondegenerate orig lookAt up"
  defines "f \<equiv> cam_forward orig lookAt" and "r \<equiv> cam_right orig lookAt up"
    and "n \<equiv> cam_up orig lookAt up"
  shows "vec3_dot f f = 1" "vec3_dot r r = 1" "vec3_dot n n = 1"
    "vec3_dot f r = 0" "vec3_dot f n = 0" "vec3_dot r n = 0"
proof -
  have nz: "vec3_sub orig lookAt \<noteq> vzero" "vec3_cross up f \<noteq> vzero"
    using assms(1) by (auto simp: cam_nondegenerate_def f_def vec3_sub_neq_zero)
  show f1: "vec3_dot f f = 1"
    using nz(1) by (simp add: f_def cam_forward_def vec3_normalize_dot_self)
  show r1: "vec3_dot r r = 1"
    using nz(2) by (simp add: r_def cam_right_def f_def [symmetric] vec3_normalize_dot_self)
  show fr: "vec3_dot f r = 0"
    by (simp add: r_def cam_right_def f_def [symmetric] vec3_normalize_scale
        vec3_dot_commute [of f "vec3_cross up f"] vec3_dot_cross_right)
  show "vec3_dot n n = 1"
    using vec3_lagrange [of f r] f1 r1 fr by (simp add: n_def cam_up_def f_def r_def)
  show "vec3_dot f n = 0"
    by (simp add: n_def cam_up_def f_def r_def vec3_dot_cross_left)
  show "vec3_dot r n = 0"
    by (simp add: n_def cam_up_def f_def r_def vec3_dot_cross_right)
qed

section \<open>Rays of the camera\<close>


lemma getRay_view:
  "getRay (new_Camera orig lookAt up vfov ar) u v =
     new_Ray orig (vec3_normalize (cam_view orig lookAt up vfov ar u v))"
proof -
  have "vec3_sub (vec3_add (lc (new_Camera orig lookAt up vfov ar))
          (vec3_add (vec3_mulScalar (horizontal (new_Camera orig lookAt up vfov ar)) u)
                    (vec3_mulScalar (vertical (new_Camera orig lookAt up vfov ar)) v))) orig =
        cam_view orig lookAt up vfov ar u v"
    by (simp add: new_Camera_sel cam_view_def vec3_eq_iff algebra_simps)
  then show ?thesis
    by (simp add: getRay_def new_Camera_sel(1) Let_def)
qed

lemma orthonormal_combination:
  assumes "vec3_dot f f = 1" "vec3_dot r r = 1" "vec3_dot n n = 1"
    "vec3_dot f r = 0" "vec3_dot f n = 0" "vec3_dot r n = 0"
  shows "vec3_dot (vec3_sub (vec3_add (vec3_mulScalar n a) (vec3_mulScalar r b)) f) f = -1"
    and "vec3_dot (vec3_sub (vec3_add (vec3_mulScalar n a) (vec3_mulScalar r b)) f)
           (vec3_sub (vec3_add (vec3_mulScalar n a') (vec3_mulScalar r b')) f) = a * a' + b * b' + 1"
proof -
  have c: "vec3_dot r f = 0" "vec3_dot n f = 0" "vec3_dot n r = 0"
    using assms(4-6) by (simp_all add: vec3_dot_commute)
  show "vec3_dot (vec3_sub (vec3_add (vec3_mulScalar n a) (vec3_mulScalar r b)) f) f = -1"
    using assms(1) c by simp
  show "vec3_dot (vec3_sub (vec3_add (vec3_mulScalar n a) (vec3_mulScalar r b)) f)
           (vec3_sub (vec3_add (vec3_mulScalar n a') (vec3_mulScalar r b')) f) = a * a' + b * b' + 1"
    using assms(1-6) c by (simp add: algebra_simps)
qed

lemma cam_view_dot:
  assumes "cam_nondegenerate orig lookAt up"
  shows "vec3_dot (cam_view orig lookAt up vfov ar u v) (cam_forward orig lookAt) = -1"
    "vec3_dot (cam_view orig lookAt up vfov ar u v) (cam_view orig lookAt up vfov ar u v) =
       (cam_half_height vfov * (2 * v - 1))\<^sup>2 + (ar * cam_half_height vfov * (2 * u - 1))\<^sup>2 + 1"
    "vec3_dot (cam_view orig lookAt up vfov ar u v) (cam_view orig lookAt up vfov ar u' v') =
       cam_half_height vfov * (2 * v - 1) * (cam_half_height vfov * (2 * v' - 1))
       + ar * cam_half_height vfov * (2 * u - 1) * (ar * cam_half_height vfov * (2 * u' - 1)) + 1"
  using orthonormal_combination [OF cam_basis [OF assms]] unfolding cam_view_def
  by (simp_all add: power2_eq_square)

lemma cam_view_nonzero:
  "cam_nondegenerate orig lookAt up \<Longrightarrow> cam_view orig lookAt up vfov ar u v \<noteq> vzero"
  using cam_view_dot(1) [of orig lookAt up vfov ar u v] by (auto simp: vec3_dot_def)

text \<open>Every ray of a non-degenerate camera starts at the camera and has a unit direction.\<close>

lemma getRay_unit:
  assumes "cam_nondegenerate orig lookAt up"
  shows "origin (getRay (new_Camera orig lookAt up vfov ar) u v) = orig
       \<and> unit_ray (getRay (new_Camera orig lookAt up vfov ar) u v)"
  using cam_view_nonzero [OF assms]
  by (simp add: getRay_view new_Ray_unit vec3_normalize_nonzero)

text \<open>
  C28: the ray through the centre of the image, \<open>getRay(0.5, 0.5)\<close>, starts at the
  camera position and points from it straight at the look-at point.
\<close>

theorem getRay_centre:
  assumes "cam_nondegenerate orig lookAt up"
  shows "origin (getRay (new_Camera orig lookAt up vfov ar) (1/2) (1/2)) = orig \<and>
         dir (getRay (new_Camera orig lookAt up vfov ar) (1/2) (1/2)) =
         vec3_normalize (vec3_sub lookAt orig)"
proof -
  have o: "origin (getRay (new_Camera orig lookAt up vfov ar) (1/2) (1/2)) = orig"
    by (simp add: getRay_view)
  have v: "cam_view orig lookAt up vfov ar (1/2) (1/2) = vec3_mulScalar (cam_forward orig lookAt) (-1)"
    by (simp add: cam_view_def vec3_eq_iff)
  have f: "vec3_dot (cam_forward orig lookAt) (cam_forward orig lookAt) = 1"
    using cam_basis [OF assms] by simp
  then have "vec3_length (vec3_mulScalar (cam_forward orig lookAt) (-1)) = 1"
    by (simp add: vec3_length_def)
  then have "dir (getRay (new_Camera orig lookAt up vfov ar) (1/2) (1/2)) =
             vec3_mulScalar (cam_forward orig lookAt) (-1)"
    by (simp add: getRay_view v vec3_normalize_unit)
  also have "\<dots> = vec3_normalize (vec3_sub lookAt orig)"
    by (simp only: vec3_normalize_sub_swap [of lookAt orig] cam_forward_def)
  finally show ?thesis using o by simp
qed

text \<open>
  C29: the vertical field of view is the \<open>vfov\<close> given in degrees: for \<open>0 < vfov < 180\<close>
  the ray through the top centre of the image, \<open>getRay(0.5, 1)\<close>, makes the angle
  \<open>vfov/2\<close> with the centre ray (the cosine of the angle between the unit directions).
\<close>

theorem getRay_fov:
  assumes "cam_nondegenerate orig lookAt up" "0 < vfov" "vfov < 180"
  shows "vec3_dot (dir (getRay (new_Camera orig lookAt up vfov ar) (1/2) 1))
                  (dir (getRay (new_Camera orig lookAt up vfov ar) (1/2) (1/2)))
         = cos (vfov * DEG_TO_RAD / 2)"
proof -
  let ?x = "vfov * DEG_TO_RAD / 2"
  let ?w1 = "cam_view orig lookAt up vfov ar (1/2) 1"
  let ?w2 = "cam_view orig lookAt up vfov ar (1/2) (1/2)"
  have x: "\<bar>?x\<bar> < pi / 2"
    using assms(2,3) pi_gt_zero by (simp add: DEG_TO_RAD_def)
  have d12: "vec3_dot ?w1 ?w2 = 1" and d11: "vec3_dot ?w1 ?w1 = 1 + tan ?x ^ 2"
    and d22: "vec3_dot ?w2 ?w2 = 1"
    using cam_view_dot(3) [OF assms(1)] by (simp_all add: cam_half_height_def power2_eq_square)
  have "vec3_dot (dir (getRay (new_Camera orig lookAt up vfov ar) (1/2) 1))
                 (dir (getRay (new_Camera orig lookAt up vfov ar) (1/2) (1/2)))
        = vec3_dot (vec3_normalize ?w1) (vec3_normalize ?w2)"
    using cam_view_nonzero [OF assms(1)] by (simp add: getRay_view vec3_normalize_idem)
  also have "\<dots> = 1 / sqrt (1 + tan ?x ^ 2)"
    by (simp add: vec3_dot_normalize vec3_length_def d12 d11 d22)
  also have "\<dots> = cos ?x"
    using cos_tan [OF x] by simp
  finally show ?thesis .
qed

section \<open>The program's camera\<close>

text \<open>The camera of \<open>window.onload\<close> (lines 328--331) is not degenerate.\<close>

lemma demo_camera_nondegenerate:
  "cam_nondegenerate (Vec3 (-2) 0 0) (Vec3 0 0 0) (Vec3 0 1 0)"
  by (simp add: cam_nondegenerate_def cam_forward_def vec3_normalize_scale vec3_length_def vec_defs)

theorem getRay_centre_witness:
  "cam_nondegenerate (Vec3 (-2) 0 0) (Vec3 0 0 0) (Vec3 0 1 0) \<and>
   origin (getRay (new_Camera (Vec3 (-2) 0 0) (Vec3 0 0 0) (Vec3 0 1 0) 90 (4/3)) (1/2) (1/2)) =
   Vec3 (-2) 0 0 \<and>
   dir (getRay (new_Camera (Vec3 (-2) 0 0) (Vec3 0 0 0) (Vec3 0 1 0) 90 (4/3)) (1/2) (1/2)) =
   vec3_normalize (vec3_sub (Vec3 0 0 0) (Vec3 (-2) 0 0))"
  using demo_camera_nondegenerate getRay_centre by blast

theorem getRay_fov_witness:
  "cam_nondegenerate (Vec3 (-2) 0 0) (Vec3 0 0 0) (Vec3 0 1 0) \<and> 0 < (90::real) \<and> (90::real) < 180 \<and>
   vec3_dot (dir (getRay (new_Camera (Vec3 (-2) 0 0) (Vec3 0 0 0) (Vec3 0 1 0) 90 (4/3)) (1/2) 1))
            (dir (getRay (new_Camera (Vec3 (-2) 0 0) (Vec3 0 0 0) (Vec3 0 1 0) 90 (4/3)) (1/2) (1/2)))
   = cos (90 * DEG_TO_RAD / 2)"
  using demo_camera_nondegenerate getRay_fov [of "Vec3 (-2) 0 0" "Vec3 0 0 0" "Vec3 0 1 0" 90 "4/3"]
  by simp

end
