(* ===== verification/Frame.thy ===== *)
theory Frame
  imports ImageData Integrator Camera
begin

text \<open>
  The frame assembler of \<open>tri.js\<close>: the pixel loops of \<open>window.onload\<close> (lines 317--352),
  writing through \<open>setPixel\<close> (theory \<open>ImageData\<close>). The three nested loops (rows,
  columns, \<open>AA\<close> jittered sub-samples, \<open>SPP\<close> radiance samples) are \<open>js_fold\<close>s over
  index lists, threading the image, the colour accumulator and the random stream; \<open>render\<close>
  is the loop nest on a given scene and camera, \<open>onload_render\<close> the scene and camera of
  \<open>window.onload\<close>. Proved: \<open>render\<close> returns on a non-empty scene and fills every pixel
  of the buffer, each with the average of exactly \<open>SPP \<cdot> AA\<close> radiance samples; with
  texture colours in \<open>[0, 1]\<close> the colours lie between black and the sky colour and every
  colour byte is at most 243, the encoding of the sky; on an empty scene it throws.
\<close>

text \<open>\<open>for (let s = 0; s < SPP; s++) color = color.add(sample(scene, ray, 0));\<close>\<close>

definition spp_loop :: "scene \<Rightarrow> ray \<Rightarrow> color \<Rightarrow> rng \<Rightarrow> color js_result" where
  "spp_loop scene ray color s =
     js_fold (\<lambda>_ color s. js_bind (sample scene ray 0 s) (\<lambda>c s'. js_return (color_add color c) s'))
       [0..<SPP] color s"

text \<open>The \<open>AA\<close> loop: two draws jitter the sub-sample, the camera gives its ray.\<close>

definition aa_loop :: "scene \<Rightarrow> camera \<Rightarrow> real \<Rightarrow> real \<Rightarrow> nat \<Rightarrow> nat \<Rightarrow> color \<Rightarrow> rng \<Rightarrow> color js_result" where
  "aa_loop scene camera rw rh x y color s =
     js_fold (\<lambda>_ color s.
       (case js_random s of (r1, s1) \<Rightarrow>
        case js_random s1 of (r2, s2) \<Rightarrow>
          (let jittered_x = real x + r1;
               jittered_y = real y + r2;
               u = jittered_x / rw;
               v = jittered_y / rh;
               ray = getRay camera u v
           in spp_loop scene ray color s2)))
       [0..<AA] color s"

text \<open>The body of the column loop: average the sub-samples and write the pixel.\<close>

definition render_pixel ::
  "scene \<Rightarrow> camera \<Rightarrow> real \<Rightarrow> real \<Rightarrow> nat \<Rightarrow> nat \<Rightarrow> image_data \<Rightarrow> rng \<Rightarrow> image_data js_result" where
  "render_pixel scene camera rw rh x y imageData s =
     js_bind (aa_loop scene camera rw rh x y (Color 0 0 0) s) (\<lambda>color s'.
       js_return (setPixel imageData x y (color_divScalar color (real (SPP * AA)))) s')"

text \<open>
  The row and column loops over \<open>rect.height\<close> and \<open>rect.width\<close> (here \<open>w\<close> and \<open>h\<close>,
  whole numbers of pixels), writing into \<open>imageData\<close>.
\<close>

definition render :: "scene \<Rightarrow> camera \<Rightarrow> nat \<Rightarrow> nat \<Rightarrow> image_data \<Rightarrow> rng \<Rightarrow> image_data js_result" where
  "render scene camera w h imageData s =
     js_fold (\<lambda>y imageData s.
       js_fold (\<lambda>x imageData s. render_pixel scene camera (real w) (real h) x y imageData s)
         [0..<w] imageData s)
       [0..<h] imageData s"

text \<open>The scene of \<open>window.onload\<close>: a small sphere on a huge checkered one.\<close>

definition demo_scene :: scene where
  "demo_scene =
     (let scene = new_Scene;
          checkerboard1 = Checkerboard (color_corrected (9/10) (9/10) (9/10))
                                       (color_corrected (8/10) (2/10) (2/10)) 20;
          scene = scene_add scene \<lparr>pos = Vec3 0 0 0, radius = 1/2,
                    material = \<lparr>texture = SolidColor (color_corrected (9/10) (9/10) (9/10)),
                                reflectance = 0\<rparr>\<rparr>;
          scene = scene_add scene \<lparr>pos = Vec3 0 (-900) 0, radius = 8995/10,
                    material = \<lparr>texture = checkerboard1, reflectance = 0\<rparr>\<rparr>
      in scene)"

definition onload_render :: "nat \<Rightarrow> nat \<Rightarrow> rng \<Rightarrow> image_data js_result" where
  "onload_render w h s =
     (let imageData = createImageData w h;
          scene = demo_scene;
          pos = Vec3 (-2) 0 0;
          look_at = Vec3 0 0 0;
          up = Vec3 0 1 0;
          camera = new_Camera pos look_at up 90 (real w / real h)
      in render scene camera w h imageData s)"

text \<open>The sum of a list of colours, as the accumulator \<open>color\<close> of the pixel loop builds it.\<close>

definition color_sum :: "color list \<Rightarrow> color" where
  "color_sum cs = foldl color_add (Color 0 0 0) cs"

section \<open>Written pixels\<close>

text \<open>
  Pixel \<open>(x, y)\<close> of a frame rendered from scene \<open>sc\<close> is written: its bytes encode a colour,
  which lies between black and the sky colour when the scene's texture colours lie in the
  unit cube.
\<close>

definition pixel_ok :: "scene \<Rightarrow> image_data \<Rightarrow> nat \<Rightarrow> nat \<Rightarrow> bool" where
  "pixel_ok sc img x y \<longleftrightarrow>
     (\<exists>c. pixel_block img x y = pixel_bytes c \<and> (scene_colors_ok sc \<longrightarrow> color_within (Color 0 0 0) sky_color c))"


lemma spp_loop_returns:
  assumes "objects sc \<noteq> []" "random_ok s"
  shows "\<exists>c n. spp_loop sc ray color s = js_return c (sdrop n s)"
proof -
  have "\<exists>c n. js_fold (\<lambda>_ color s. js_bind (sample sc ray 0 s) (\<lambda>c s'. js_return (color_add color c) s'))
                [0..<SPP] color s = js_return c (sdrop n s) \<and> random_ok (sdrop n s)"
  proof (rule js_fold_rule [where Q = "\<lambda>_ _ s. random_ok s"])
    fix b t assume "random_ok t"
    then obtain c n where "sample sc ray 0 t = js_return c (sdrop n t)"
      using sample_returns [OF assms(1)] by blast
    then show "\<exists>b' n. js_bind (sample sc ray 0 t) (\<lambda>c s'. js_return (color_add b c) s') = js_return b' (sdrop n t)
                 \<and> random_ok (sdrop n t)"
      using random_ok_sdrop [OF \<open>random_ok t\<close>] by auto
  qed (rule assms(2))
  then show ?thesis by (auto simp: spp_loop_def)
qed

lemma aa_loop_returns:
  assumes "objects sc \<noteq> []" "random_ok s"
  shows "\<exists>c n. aa_loop sc cam rw rh x y color s = js_return c (sdrop n s)"
proof -
  let ?body = "\<lambda>_ color s.
       (case js_random s of (r1, s1) \<Rightarrow>
        case js_random s1 of (r2, s2) \<Rightarrow>
          (let jittered_x = real x + r1; jittered_y = real y + r2;
               u = jittered_x / rw; v = jittered_y / rh; ray = getRay cam u v
           in spp_loop sc ray color s2))"
  have "\<exists>c n. js_fold ?body [0..<AA] color s = js_return c (sdrop n s) \<and> random_ok (sdrop n s)"
  proof (rule js_fold_rule [where Q = "\<lambda>_ _ s. random_ok s"])
    fix a b t assume t: "random_ok t"
    obtain c n where "spp_loop sc (getRay cam ((real x + shd t) / rw) ((real y + shd (stl t)) / rh)) b (sdrop 2 t)
                        = js_return c (sdrop n (sdrop 2 t))"
      using spp_loop_returns [OF assms(1) random_ok_sdrop [OF t]] by blast
    moreover have "random_ok (sdrop n (stl (stl t)))"
      using random_ok_sdrop [OF t, of "Suc (Suc n)"] by simp
    ultimately show "\<exists>b' n. ?body a b t = js_return b' (sdrop n t) \<and> random_ok (sdrop n t)"
      by (intro exI [of _ c] exI [of _ "Suc (Suc n)"])
         (simp add: Let_def numeral_2_eq_2)
  qed (rule assms(2))
  then show ?thesis by (auto simp: aa_loop_def)
qed

lemma color_within_add0:
  "color_within (Color 0 0 0) h1 a \<Longrightarrow> color_within (Color 0 0 0) h2 c \<Longrightarrow>
   color_within (Color 0 0 0) (color_add h1 h2) (color_add a c)"
  by (simp add: color_within_def)

lemma color_within_sky_step:
  "color_within (Color 0 0 0) (color_add (color_add hi (color_mulScalar sky_color (real n))) (color_mulScalar sky_color (real k))) c \<Longrightarrow>
   color_within (Color 0 0 0) (color_add hi (color_mulScalar sky_color (real (n + k)))) c"
  by (simp add: color_within_def distrib_left)

text \<open>The \<open>SPP\<close> loop adds at most \<open>SPP\<close> sky colours to its accumulator.\<close>

lemma spp_loop_bound:
  assumes "scene_colors_ok sc" "spp_loop sc ray acc s = Some (Inr (c, s'))"
    "color_within (Color 0 0 0) hi acc"
  shows "color_within (Color 0 0 0) (color_add hi (color_mulScalar sky_color (real SPP))) c"
proof -
  have "color_within (Color 0 0 0) (color_add hi (color_mulScalar sky_color (real (length [0..<SPP])))) c"
    using assms(2) [unfolded spp_loop_def]
  proof (rule js_fold_inv [where Q = "\<lambda>ys acc. color_within (Color 0 0 0)
                                 (color_add hi (color_mulScalar sky_color (real (length ys)))) acc"])
    show "color_within (Color 0 0 0) (color_add hi (color_mulScalar sky_color (real (length [])))) acc"
      using assms(3) by (simp add: color_within_def)
  next
    fix ys x zs b t b1 t1
    assume inv: "color_within (Color 0 0 0) (color_add hi (color_mulScalar sky_color (real (length ys)))) b"
      and "js_bind (sample sc ray 0 t) (\<lambda>c s'. js_return (color_add b c) s') = Some (Inr (b1, t1))"
    then obtain c0 t0 where c0: "sample sc ray 0 t = Some (Inr (c0, t0))" "b1 = color_add b c0"
      by (auto simp: js_bind_eq_Inr js_return_def)
    have "color_within (Color 0 0 0) (color_mulScalar sky_color (real 1)) c0"
      using sample_within [OF assms(1) c0(1)] by (simp add: color_within_def)
    from color_within_sky_step [OF color_within_add0 [OF inv this]] c0(2)
    show "color_within (Color 0 0 0) (color_add hi (color_mulScalar sky_color (real (length (ys @ [x]))))) b1"
      by simp
  qed
  then show ?thesis by simp
qed

text \<open>The \<open>AA\<close> loop adds at most \<open>AA \<cdot> SPP\<close> sky colours.\<close>

lemma aa_loop_bound:
  assumes "scene_colors_ok sc" "aa_loop sc cam rw rh x y acc s = Some (Inr (c, s'))"
    "color_within (Color 0 0 0) hi acc"
  shows "color_within (Color 0 0 0) (color_add hi (color_mulScalar sky_color (real (AA * SPP)))) c"
proof -
  have "color_within (Color 0 0 0) (color_add hi (color_mulScalar sky_color (real (length [0..<AA] * SPP)))) c"
    using assms(2) [unfolded aa_loop_def]
  proof (rule js_fold_inv [where Q = "\<lambda>ys acc. color_within (Color 0 0 0)
                                 (color_add hi (color_mulScalar sky_color (real (length ys * SPP)))) acc"])
    show "color_within (Color 0 0 0) (color_add hi (color_mulScalar sky_color (real (length [] * SPP)))) acc"
      using assms(3) by (simp add: color_within_def)
  next
    fix ys a zs b t b1 t1
    assume inv: "color_within (Color 0 0 0) (color_add hi (color_mulScalar sky_color (real (length ys * SPP)))) b"
      and ret: "(case js_random t of (r1, s1) \<Rightarrow> case js_random s1 of (r2, s2) \<Rightarrow>
                 (let jittered_x = real x + r1; jittered_y = real y + r2;
                      u = jittered_x / rw; v = jittered_y / rh; ray = getRay cam u v
                  in spp_loop sc ray b s2)) = Some (Inr (b1, t1))"
    then have "spp_loop sc (getRay cam ((real x + shd t) / rw) ((real y + shd (stl t)) / rh)) b (stl (stl t))
                 = Some (Inr (b1, t1))"
      by (simp add: Let_def)
    from spp_loop_bound [OF assms(1) this inv]
    show "color_within (Color 0 0 0) (color_add hi (color_mulScalar sky_color (real (length (ys @ [a]) * SPP)))) b1"
      using color_within_sky_step [of hi "length ys * SPP" SPP b1] by (simp add: add.commute)
  qed
  then show ?thesis by (simp add: mult.commute)
qed

lemma render_pixel_color:
  assumes "scene_colors_ok sc" "aa_loop sc cam rw rh x y (Color 0 0 0) s = Some (Inr (c, s'))"
  shows "color_within (Color 0 0 0) sky_color (color_divScalar c (real (SPP * AA)))"
proof -
  have "color_within (Color 0 0 0) (Color 0 0 0) (Color 0 0 0)" by (simp add: color_within_def)
  from aa_loop_bound [OF assms this]
  have "color_within (Color 0 0 0) (color_add (Color 0 0 0) (color_mulScalar sky_color (real (AA * SPP)))) c" .
  then show ?thesis
    by (simp add: color_within_def color_divScalar_def sky_color_def SPP_def AA_def)
qed

lemma render_pixel_returns:
  assumes "objects sc \<noteq> []" "random_ok s"
  shows "\<exists>c n. render_pixel sc cam rw rh x y img s = js_return (setPixel img x y c) (sdrop n s) \<and>
               (scene_colors_ok sc \<longrightarrow> color_within (Color 0 0 0) sky_color c)"
proof -
  obtain c n where a: "aa_loop sc cam rw rh x y (Color 0 0 0) s = js_return c (sdrop n s)"
    using aa_loop_returns [OF assms] by blast
  have "scene_colors_ok sc \<longrightarrow> color_within (Color 0 0 0) sky_color (color_divScalar c (real (SPP * AA)))"
    using render_pixel_color a by (auto simp: js_return_def)
  with a show ?thesis
    by (intro exI [of _ "color_divScalar c (real (SPP * AA))"] exI [of _ n]) (simp add: render_pixel_def)
qed

lemma pixel_ok_setPixel:
  assumes "well_sized im" "x < width im" "y < height im" "x' < width im" "y' < height im"
  shows "scene_colors_ok sc \<longrightarrow> color_within (Color 0 0 0) sky_color c \<Longrightarrow> pixel_ok sc (setPixel im x y c) x y"
    and "(x', y') \<noteq> (x, y) \<Longrightarrow> pixel_ok sc (setPixel im x y c) x' y' = pixel_ok sc im x' y'"
  using pixel_block_setPixel [OF assms(1-3) assms(2,3), of c] pixel_block_setPixel [OF assms, of c]
  by (auto simp: pixel_ok_def)

lemma row_loop_returns:
  assumes "objects sc \<noteq> []" "random_ok s" "width img = w" "height img = h" "well_sized img" "y < h"
    "P \<subseteq> {..<w} \<times> {..<h}" "\<forall>(x', y') \<in> P. pixel_ok sc img x' y'"
  shows "\<exists>img' n. js_fold (\<lambda>x img s. render_pixel sc cam rw rh x y img s) [0..<w] img s = js_return img' (sdrop n s)
           \<and> random_ok (sdrop n s) \<and> width img' = w \<and> height img' = h \<and> well_sized img'
           \<and> (\<forall>(x', y') \<in> P \<union> {..<w} \<times> {y}. pixel_ok sc img' x' y')"
proof -
  define Q where "Q = (\<lambda>ys im t. random_ok t \<and> width im = w \<and> height im = h \<and> well_sized im
           \<and> (\<forall>(x', y') \<in> P \<union> set ys \<times> {y}. pixel_ok sc im x' y'))"
  have "\<exists>img' n. js_fold (\<lambda>x img s. render_pixel sc cam rw rh x y img s) [0..<w] img s = js_return img' (sdrop n s)
          \<and> Q [0..<w] img' (sdrop n s)"
  proof (rule js_fold_rule)
    show "Q [] img s" using assms by (simp add: Q_def)
  next
    fix ys x zs im t
    assume xs: "[0..<w] = ys @ x # zs" and "Q ys im t"
    then have inv: "random_ok t" "width im = w" "height im = h" "well_sized im"
        "\<forall>(x', y') \<in> P \<union> set ys \<times> {y}. pixel_ok sc im x' y'"
      by (simp_all add: Q_def)
    have x: "x < w" and ys: "set ys \<subseteq> {..<w}"
      using arg_cong [OF xs, of set] by auto
    obtain c n where r: "render_pixel sc cam rw rh x y im t = js_return (setPixel im x y c) (sdrop n t)"
        and c: "scene_colors_ok sc \<longrightarrow> color_within (Color 0 0 0) sky_color c"
      using render_pixel_returns [OF assms(1) inv(1)] by blast
    have "pixel_ok sc (setPixel im x y c) x' y'" if p: "(x', y') \<in> P \<union> set (ys @ [x]) \<times> {y}" for x' y'
    proof -
      have "x' < w" "y' < h" using p assms(6,7) x ys by auto
      then show ?thesis
        using pixel_ok_setPixel [of im x y x' y' sc c] inv p x assms(6) c
        by (cases "(x', y') = (x, y)") auto
    qed
    then show "\<exists>b' n. render_pixel sc cam rw rh x y im t = js_return b' (sdrop n t) \<and> Q (ys @ [x]) b' (sdrop n t)"
      using r inv random_ok_sdrop unfolding Q_def by auto
  qed
  then show ?thesis by (simp add: Q_def atLeast0LessThan)
qed

lemma render_returns:
  assumes "objects sc \<noteq> []" "random_ok s" "width img = w" "height img = h" "well_sized img"
  shows "\<exists>img' n. render sc cam w h img s = js_return img' (sdrop n s) \<and> width img' = w \<and> height img' = h
           \<and> well_sized img' \<and> (\<forall>x < w. \<forall>y < h. pixel_ok sc img' x y)"
proof -
  define Q where "Q = (\<lambda>ys im t. random_ok t \<and> width im = w \<and> height im = h \<and> well_sized im
           \<and> (\<forall>(x', y') \<in> {..<w} \<times> set ys. pixel_ok sc im x' y'))"
  have "\<exists>img' n. render sc cam w h img s = js_return img' (sdrop n s) \<and> Q [0..<h] img' (sdrop n s)"
    unfolding render_def
  proof (rule js_fold_rule)
    show "Q [] img s" using assms by (simp add: Q_def)
  next
    fix ys y zs im t
    assume xs: "[0..<h] = ys @ y # zs" and "Q ys im t"
    then have inv: "random_ok t" "width im = w" "height im = h" "well_sized im"
        "\<forall>(x', y') \<in> {..<w} \<times> set ys. pixel_ok sc im x' y'"
      by (simp_all add: Q_def)
    have y: "y < h" and ys: "set ys \<subseteq> {..<h}"
      using arg_cong [OF xs, of set] by auto
    have "{..<w} \<times> set ys \<subseteq> {..<w} \<times> {..<h}" using ys by auto
    from row_loop_returns [OF assms(1) inv(1-4) y this inv(5)]
    show "\<exists>b' n. js_fold (\<lambda>x imageData s. render_pixel sc cam (real w) (real h) x y imageData s) [0..<w] im t
                 = js_return b' (sdrop n t) \<and> Q (ys @ [y]) b' (sdrop n t)"
      unfolding Q_def by (simp add: Sigma_Un_distrib2 [symmetric] insert_commute)
  qed
  then show ?thesis by (auto simp: Q_def)
qed

lemma sample_throws: "objects sc = [] \<Longrightarrow> sample sc r 0 s = js_throw TypeError"
  by (simp add: sample.simps [of sc r 0 s] scene_intersect_def)


lemma spp_loop_samples:
  assumes "spp_loop sc ray acc s = Some (Inr (c, s'))"
  shows "\<exists>cs. length cs = SPP \<and> (\<forall>c' \<in> set cs. \<exists>t t'. sample sc ray 0 t = Some (Inr (c', t'))) \<and>
              c = foldl color_add acc cs"
proof -
  have "\<exists>cs. length cs = length [0..<SPP] \<and> (\<forall>c' \<in> set cs. \<exists>t t'. sample sc ray 0 t = Some (Inr (c', t'))) \<and>
              c = foldl color_add acc cs"
    using assms [unfolded spp_loop_def]
  proof (rule js_fold_inv [where Q = "\<lambda>ys b. \<exists>cs. length cs = length ys \<and>
            (\<forall>c' \<in> set cs. \<exists>t t'. sample sc ray 0 t = Some (Inr (c', t'))) \<and> b = foldl color_add acc cs"])
    show "\<exists>cs. length cs = length [] \<and> (\<forall>c' \<in> set cs. \<exists>t t'. sample sc ray 0 t = Some (Inr (c', t'))) \<and>
              acc = foldl color_add acc cs" by simp
  next
    fix ys x zs b t b1 t1
    assume "\<exists>cs. length cs = length ys \<and> (\<forall>c' \<in> set cs. \<exists>t t'. sample sc ray 0 t = Some (Inr (c', t'))) \<and>
              b = foldl color_add acc cs"
    then obtain cs where cs: "length cs = length ys" "\<forall>c' \<in> set cs. \<exists>t t'. sample sc ray 0 t = Some (Inr (c', t'))"
        "b = foldl color_add acc cs" by blast
    assume "js_bind (sample sc ray 0 t) (\<lambda>c s'. js_return (color_add b c) s') = Some (Inr (b1, t1))"
    then obtain c0 t0 where c0: "sample sc ray 0 t = Some (Inr (c0, t0))" "b1 = color_add b c0"
      by (auto simp: js_bind_eq_Inr js_return_def)
    show "\<exists>cs. length cs = length (ys @ [x]) \<and> (\<forall>c' \<in> set cs. \<exists>t t'. sample sc ray 0 t = Some (Inr (c', t'))) \<and>
              b1 = foldl color_add acc cs"
      using cs c0 by (intro exI [of _ "cs @ [c0]"]) auto
  qed
  then show ?thesis by simp
qed

lemma aa_loop_samples:
  assumes "aa_loop sc cam rw rh x y acc s = Some (Inr (c, s'))"
  shows "\<exists>cs. length cs = AA * SPP \<and>
              (\<forall>c' \<in> set cs. \<exists>u v t t'. sample sc (getRay cam u v) 0 t = Some (Inr (c', t'))) \<and>
              c = foldl color_add acc cs"
proof -
  let ?S = "\<lambda>cs. \<forall>c' \<in> set cs. \<exists>u v t t'. sample sc (getRay cam u v) 0 t = Some (Inr (c', t'))"
  have "\<exists>cs. length cs = length [0..<AA] * SPP \<and> ?S cs \<and> c = foldl color_add acc cs"
    using assms [unfolded aa_loop_def]
  proof (rule js_fold_inv [where Q = "\<lambda>ys b. \<exists>cs. length cs = length ys * SPP \<and> ?S cs \<and> b = foldl color_add acc cs"])
    show "\<exists>cs. length cs = length [] * SPP \<and> ?S cs \<and> acc = foldl color_add acc cs" by simp
  next
    fix ys a zs b t b1 t1
    assume "\<exists>cs. length cs = length ys * SPP \<and> ?S cs \<and> b = foldl color_add acc cs"
    then obtain cs where cs: "length cs = length ys * SPP" "?S cs" "b = foldl color_add acc cs" by blast
    assume "(case js_random t of (r1, s1) \<Rightarrow> case js_random s1 of (r2, s2) \<Rightarrow>
                 (let jittered_x = real x + r1; jittered_y = real y + r2;
                      u = jittered_x / rw; v = jittered_y / rh; ray = getRay cam u v
                  in spp_loop sc ray b s2)) = Some (Inr (b1, t1))"
    then have "spp_loop sc (getRay cam ((real x + shd t) / rw) ((real y + shd (stl t)) / rh)) b (stl (stl t))
                 = Some (Inr (b1, t1))"
      by (simp add: Let_def)
    from spp_loop_samples [OF this] obtain cs2 where cs2: "length cs2 = SPP"
        "\<forall>c' \<in> set cs2. \<exists>t' t''. sample sc (getRay cam ((real x + shd t) / rw) ((real y + shd (stl t)) / rh)) 0 t'
                                = Some (Inr (c', t''))"
        "b1 = foldl color_add b cs2"
      by blast
    have "?S cs2" using cs2(2) by blast
    then show "\<exists>cs. length cs = length (ys @ [a]) * SPP \<and> ?S cs \<and> b1 = foldl color_add acc cs"
      using cs cs2(1,3) by (intro exI [of _ "cs @ cs2"]) auto
  qed
  then show ?thesis by simp
qed

lemma render_pixel_samples:
  assumes "render_pixel sc cam rw rh x y img s = Some (Inr (img', s'))"
  shows "\<exists>cs. length cs = SPP * AA \<and>
              (\<forall>c \<in> set cs. \<exists>u v t t'. sample sc (getRay cam u v) 0 t = Some (Inr (c, t'))) \<and>
              img' = setPixel img x y (color_divScalar (color_sum cs) (real (SPP * AA)))"
proof -
  obtain c s1 where a: "aa_loop sc cam rw rh x y (Color 0 0 0) s = Some (Inr (c, s1))"
      and i: "img' = setPixel img x y (color_divScalar c (real (SPP * AA)))"
    using assms by (auto simp: render_pixel_def js_bind_eq_Inr js_return_def)
  from aa_loop_samples [OF a] i show ?thesis
    by (auto simp: color_sum_def mult.commute)
qed
section \<open>Properties of the frame assembler\<close>

text \<open>
  C4: on a non-empty scene, with a random stream on which \<open>randomUnit\<close> always returns,
  the pixel loops return, and the buffer \<open>createImageData\<close> allocated comes back fully
  populated: every pixel's four bytes are the encoding of some colour with opaque alpha
  (an unwritten pixel would still have alpha 0).
\<close>

theorem render_fills:
  assumes "objects sc \<noteq> []" "random_ok s"
  shows "\<exists>img n. render sc cam w h (createImageData w h) s = js_return img (sdrop n s) \<and>
           width img = w \<and> height img = h \<and> length (data img) = w * h * 4 \<and>
           (\<forall>x < w. \<forall>y < h. \<exists>c. pixel_block img x y = pixel_bytes c)"
proof -
  have "width (createImageData w h) = w" "height (createImageData w h) = h" "well_sized (createImageData w h)"
    by (simp_all add: createImageData_def well_sized_def)
  from render_returns [OF assms this, of cam] show ?thesis
    unfolding well_sized_def pixel_ok_def by blast
qed

theorem render_fills_witness:
  "objects \<lparr>objects = [test_sphere]\<rparr> \<noteq> [] \<and> random_ok (sconst (1/2)) \<and>
   (\<exists>img n. render \<lparr>objects = [test_sphere]\<rparr> (new_Camera (Vec3 (-2) 0 0) vzero (Vec3 0 1 0) 90 1) 1 1
              (createImageData 1 1) (sconst (1/2)) = js_return img (sdrop n (sconst (1/2))) \<and>
     width img = 1 \<and> height img = 1 \<and> length (data img) = 1 * 1 * 4 \<and>
     (\<forall>x < 1. \<forall>y < 1. \<exists>c. pixel_block img x y = pixel_bytes c))"
proof -
  have h: "objects \<lparr>objects = [test_sphere]\<rparr> \<noteq> []" "random_ok (sconst (1/2))"
    by (simp_all add: random_ok_half)
  show ?thesis using h render_fills [OF h] by blast
qed

text \<open>
  C5: the spec's ``never brighter than the background'', for the whole frame: when the
  scene's texture colours lie in \<open>[0, 1]\<close>, every pixel the loops write is the encoding of
  an average colour between black and the sky colour \<open>(0.9, 0.9, 0.9)\<close>.
\<close>

theorem render_bounded:
  assumes "scene_colors_ok sc" "objects sc \<noteq> []" "random_ok s"
  shows "\<exists>img n. render sc cam w h (createImageData w h) s = js_return img (sdrop n s) \<and>
           (\<forall>x < w. \<forall>y < h. \<exists>c. pixel_block img x y = pixel_bytes c \<and>
                                     color_within (Color 0 0 0) sky_color c)"
proof -
  have "width (createImageData w h) = w" "height (createImageData w h) = h" "well_sized (createImageData w h)"
    by (simp_all add: createImageData_def well_sized_def)
  from render_returns [OF assms(2,3) this, of cam] show ?thesis
    using assms(1) unfolding pixel_ok_def by blast
qed

theorem render_bounded_witness:
  "scene_colors_ok \<lparr>objects = [test_sphere]\<rparr> \<and> objects \<lparr>objects = [test_sphere]\<rparr> \<noteq> [] \<and>
   random_ok (sconst (1/2)) \<and>
   (\<exists>img n. render \<lparr>objects = [test_sphere]\<rparr> (new_Camera (Vec3 (-2) 0 0) vzero (Vec3 0 1 0) 90 1) 2 2
              (createImageData 2 2) (sconst (1/2)) = js_return img (sdrop n (sconst (1/2))) \<and>
     (\<forall>x < 2. \<forall>y < 2. \<exists>c. pixel_block img x y = pixel_bytes c \<and>
                               color_within (Color 0 0 0) sky_color c))"
proof -
  have h: "scene_colors_ok \<lparr>objects = [test_sphere]\<rparr>" "objects \<lparr>objects = [test_sphere]\<rparr> \<noteq> []"
      "random_ok (sconst (1/2))"
    by (simp_all add: random_ok_half scene_colors_ok_def color_within_def test_sphere_def white_diffuse_def)
  show ?thesis using h render_bounded [OF h] by blast
qed

text \<open>
  C7: the bytes of the frame, as 8-bit words: when the scene's texture colours lie in
  \<open>[0, 1]\<close>, every colour byte the loops write is at most 243, which is exactly the byte
  \<open>setPixel\<close> writes for the sky's 0.9, and every alpha byte is 255; no channel saturates.
\<close>

theorem render_bytes_bound:
  assumes "scene_colors_ok sc" "objects sc \<noteq> []" "random_ok s"
  shows "gamma_byte (9 / 10) = 243 \<and>
         (\<exists>img n. render sc cam w h (createImageData w h) s = js_return img (sdrop n s) \<and>
           (\<forall>x < w. \<forall>y < h. length (pixel_block img x y) = 4 \<and>
              (\<forall>k < 3. unat (pixel_block img x y ! k) \<le> 243) \<and> pixel_block img x y ! 3 = 255))"
proof -
  have "width (createImageData w h) = w" "height (createImageData w h) = h" "well_sized (createImageData w h)"
    by (simp_all add: createImageData_def well_sized_def)
  from render_returns [OF assms(2,3) this, of cam] obtain img n where
    r: "render sc cam w h (createImageData w h) s = js_return img (sdrop n s)"
    and p: "\<forall>x < w. \<forall>y < h. pixel_ok sc img x y" by blast
  have "length (pixel_block img x y) = 4 \<and> (\<forall>k < 3. unat (pixel_block img x y ! k) \<le> 243) \<and>
        pixel_block img x y ! 3 = 255" if xy: "x < w" "y < h" for x y
  proof -
    obtain c where "pixel_block img x y = pixel_bytes c" "color_within (Color 0 0 0) sky_color c"
      using p xy assms(1) unfolding pixel_ok_def by blast
    then show ?thesis using pixel_bytes_bound [of c] by (simp add: sky_color_def color_within_def)
  qed
  with r gamma_byte_sky show ?thesis by blast
qed

theorem render_bytes_bound_witness:
  "scene_colors_ok \<lparr>objects = [test_sphere]\<rparr> \<and> objects \<lparr>objects = [test_sphere]\<rparr> \<noteq> [] \<and>
   random_ok (sconst (1/2)) \<and> gamma_byte (9 / 10) = 243 \<and>
   (\<exists>img n. render \<lparr>objects = [test_sphere]\<rparr> (new_Camera (Vec3 (-2) 0 0) vzero (Vec3 0 1 0) 90 1) 2 2
              (createImageData 2 2) (sconst (1/2)) = js_return img (sdrop n (sconst (1/2))) \<and>
     (\<forall>x < 2. \<forall>y < 2. length (pixel_block img x y) = 4 \<and>
        (\<forall>k < 3. unat (pixel_block img x y ! k) \<le> 243) \<and> pixel_block img x y ! 3 = 255))"
proof -
  have h: "scene_colors_ok \<lparr>objects = [test_sphere]\<rparr>" "objects \<lparr>objects = [test_sphere]\<rparr> \<noteq> []"
      "random_ok (sconst (1/2))"
    by (simp_all add: random_ok_half scene_colors_ok_def color_within_def test_sphere_def white_diffuse_def)
  show ?thesis using h render_bytes_bound [OF h] by blast
qed

text \<open>
  C6: the spec's pixel formula: a pixel that the column loop renders is written with the sum
  of exactly \<open>SPP \<cdot> AA\<close> radiance samples divided by \<open>SPP \<cdot> AA\<close>, each sample a return of
  \<open>sample\<close> at bounce 0 on a camera ray; on a non-empty scene with a stream on which
  \<open>randomUnit\<close> always returns, the pixel is rendered.
\<close>

theorem render_pixel_average:
  assumes "objects sc \<noteq> []" "random_ok s"
  shows "\<exists>img' n cs. render_pixel sc cam rw rh x y img s = js_return img' (sdrop n s) \<and>
           length cs = SPP * AA \<and>
           (\<forall>c \<in> set cs. \<exists>u v t t'. sample sc (getRay cam u v) 0 t = Some (Inr (c, t'))) \<and>
           img' = setPixel img x y (color_divScalar (color_sum cs) (real (SPP * AA)))"
proof -
  obtain c n where r: "render_pixel sc cam rw rh x y img s = js_return (setPixel img x y c) (sdrop n s)"
    using render_pixel_returns [OF assms] by blast
  from render_pixel_samples [OF r [unfolded js_return_def]] r show ?thesis by blast
qed

theorem render_pixel_average_witness:
  "objects \<lparr>objects = [test_sphere]\<rparr> \<noteq> [] \<and> random_ok (sconst (1/2)) \<and>
   (\<exists>img' n cs. render_pixel \<lparr>objects = [test_sphere]\<rparr> (new_Camera (Vec3 (-2) 0 0) vzero (Vec3 0 1 0) 90 1) 1 1 0 0
                   (createImageData 1 1) (sconst (1/2)) = js_return img' (sdrop n (sconst (1/2))) \<and>
     length cs = SPP * AA \<and>
     (\<forall>c \<in> set cs. \<exists>u v t t'. sample \<lparr>objects = [test_sphere]\<rparr>
                      (getRay (new_Camera (Vec3 (-2) 0 0) vzero (Vec3 0 1 0) 90 1) u v) 0 t = Some (Inr (c, t'))) \<and>
     img' = setPixel (createImageData 1 1) 0 0 (color_divScalar (color_sum cs) (real (SPP * AA))))"
proof -
  have h: "objects \<lparr>objects = [test_sphere]\<rparr> \<noteq> []" "random_ok (sconst (1/2))"
    by (simp_all add: random_ok_half)
  show ?thesis using h render_pixel_average [OF h] by blast
qed

text \<open>
  C13: on a scene without objects the first radiance sample throws, and with it the whole
  frame: \<open>render\<close> of a non-empty image throws \<open>TypeError\<close> and writes no buffer.
\<close>

theorem render_empty_scene:
  assumes "objects sc = []" "0 < w" "0 < h"
  shows "render sc cam w h img s = js_throw TypeError"
proof -
  obtain w' h' where "w = Suc w'" "h = Suc h'" using assms(2,3) not0_implies_Suc by blast
  then show ?thesis
    by (simp add: render_def render_pixel_def aa_loop_def spp_loop_def upt_conv_Cons AA_def SPP_def
        sample_throws [OF assms(1)] del: upt_Suc)
qed

theorem render_empty_scene_witness:
  "objects new_Scene = [] \<and> 0 < (1::nat) \<and> 0 < (1::nat) \<and>
   render new_Scene (new_Camera (Vec3 (-2) 0 0) vzero (Vec3 0 1 0) 90 1) 1 1 (createImageData 1 1) (sconst (1/2)) =
   js_throw TypeError"
proof -
  have h: "objects new_Scene = []" "0 < (1::nat)" "0 < (1::nat)" by (simp_all add: new_Scene_def)
  show ?thesis using h render_empty_scene [OF h] by blast
qed

end
