(* ===== verification/Paths.thy ===== *)
theory Paths
  imports Integrator
begin

text \<open>
  The rays the path integrator traces. \<open>Sphere.intersect\<close> computes its quadratic with
  the leading coefficient \<open>dir \<cdot> dir\<close> taken to be 1 (the commented-out older version kept
  it as \<open>a\<close>), so it is correct only for rays with a unit direction. \<open>traced\<close> is the
  relation between the ray \<open>sample\<close> starts from and the rays its recursion reaches: from a
  ray that hits, \<open>Material.brdf\<close> of the hit gives the next ray (the recursive call of
  \<open>sample\<close>, tri.js lines 309--310). Proved by rule induction: in a scene of spheres with
  positive radius and reflectance in \<open>[0, 1]\<close>, every traced ray has a unit direction when
  the first one has, as the camera's rays do.
\<close>

text \<open>A sphere and a scene the integrator handles: positive radius, reflectance in \<open>[0, 1]\<close>.\<close>

definition sphere_wf :: "sphere \<Rightarrow> bool" where
  "sphere_wf sp \<longleftrightarrow> 0 < radius sp \<and> 0 \<le> reflectance (material sp) \<and> reflectance (material sp) \<le> 1"

definition scene_wf :: "scene \<Rightarrow> bool" where
  "scene_wf sc \<longleftrightarrow> list_all sphere_wf (objects sc)"

text \<open>\<open>traced sc r0 r\<close>: \<open>sample\<close> started on \<open>r0\<close> may recurse on \<open>r\<close>.\<close>

inductive traced :: "scene \<Rightarrow> ray \<Rightarrow> ray \<Rightarrow> bool" for sc r0 where
  traced_start: "traced sc r0 r0"
| traced_bounce: "traced sc r0 r \<Longrightarrow> scene_intersect sc r = Inr (Some h) \<Longrightarrow>
                  brdf (material (hit_object h)) h s = Some (r', s') \<Longrightarrow> traced sc r0 r'"

lemma hit_normal_unit:
  assumes "unit_ray r" "sphere_intersect sp r = Some h" "radius sp \<noteq> 0"
  shows "vec3_dot (hit_normal h) (hit_normal h) = 1"
proof -
  have h: "h = sphere_hit sp r (hit_t h)" "on_sphere sp r (hit_t h)"
    using sphere_intersect_on_sphere [OF assms(1,2)] by simp_all
  have "hit_normal h = sphere_normal sp (pointAt r (hit_t h))"
    by (subst h(1)) simp
  then show ?thesis
    using sphere_normal_on_sphere(2) [OF h(2) [unfolded on_sphere_def] assms(3)] by simp
qed

text \<open>
  C16: the type invariant of the integrator's rays: in a well-formed scene, every ray that
  \<open>sample\<close> reaches from a unit ray (such as a camera ray) has a unit direction, which is
  the precondition of \<open>Sphere.intersect\<close>'s nearest-root characterisation.
\<close>

theorem traced_unit:
  assumes "scene_wf sc" "unit_ray r0" "traced sc r0 r"
  shows "unit_ray r"
  using assms(3)
proof (induction rule: traced.induct)
  case traced_start
  then show ?case using assms(2) .
next
  case (traced_bounce r h s r' s')
  obtain sp where sp: "sp \<in> set (objects sc)" "sphere_intersect sp r = Some h"
    using scene_intersect_hit [OF traced_bounce.hyps(2)] by blast
  have wf: "sphere_wf sp" using assms(1) sp(1) by (simp add: scene_wf_def list_all_iff)
  have o: "hit_object h = sp" using sphere_intersect_object [OF sp(2)] .
  have n: "vec3_dot (hit_normal h) (hit_normal h) = 1"
    using hit_normal_unit [OF traced_bounce.IH sp(2)] wf by (simp add: sphere_wf_def)
  show ?case
    using brdf_scatter_out [OF n _ _ traced_bounce.hyps(3)] wf o by (simp add: sphere_wf_def)
qed

theorem traced_unit_witness:
  "scene_wf \<lparr>objects = [test_sphere]\<rparr> \<and> unit_ray \<lparr>origin = Vec3 (-2) 0 0, dir = Vec3 1 0 0\<rparr> \<and>
   traced \<lparr>objects = [test_sphere]\<rparr> \<lparr>origin = Vec3 (-2) 0 0, dir = Vec3 1 0 0\<rparr>
     \<lparr>origin = Vec3 (-2) 0 0, dir = Vec3 1 0 0\<rparr> \<and>
   unit_ray \<lparr>origin = Vec3 (-2) 0 0, dir = Vec3 1 0 0\<rparr>"
proof -
  have h: "scene_wf \<lparr>objects = [test_sphere]\<rparr>" "unit_ray \<lparr>origin = Vec3 (-2) 0 0, dir = Vec3 1 0 0\<rparr>"
      "traced \<lparr>objects = [test_sphere]\<rparr> \<lparr>origin = Vec3 (-2) 0 0, dir = Vec3 1 0 0\<rparr>
         \<lparr>origin = Vec3 (-2) 0 0, dir = Vec3 1 0 0\<rparr>"
    by (simp_all add: scene_wf_def sphere_wf_def test_sphere_def white_diffuse_def unit_ray_def vec3_dot_def
        traced.traced_start)
  show ?thesis using h traced_unit [OF h] by blast
qed

end
