(* ===== verification/Spec2Isabelle.thy ===== *)
theory Spec2Isabelle
  imports Frame Paths
begin

text \<open>
  \<^bold>\<open>A verification library for \<open>src/tri.js\<close>\<close>, the stochastic sphere ray tracer: for
  every pixel it averages \<open>AA\<close> jittered camera rays times \<open>SPP\<close> Monte Carlo radiance
  samples, each a random walk of at most \<open>MAX_BOUNCES + 1\<close> diffuse bounces through a list
  of spheres lit only by a flat sky, and writes the gamma-encoded average into a canvas
  \<open>ImageData\<close>.

  \<^bold>\<open>Model.\<close> A shallow embedding. JavaScript numbers are \<open>real\<close>s (rounding, \<open>NaN\<close> and signed
  zeros are not modelled; where the code can produce \<open>NaN\<close>, the lemmas say what the real
  model assumes instead). \<open>Math.random\<close> is an explicit stream of draws threaded through every
  operation that uses it. A computation that may throw or not return has type
  \<open>'a js_result\<close>: \<open>None\<close> is a loop that never exits, \<open>Inl TypeError\<close> a thrown exception,
  \<open>Inr (a, s)\<close> a value and the rest of the stream. Classes are records or datatypes; methods
  are definitions named after the class and the method.

  \<^bold>\<open>Theories, in import order, and the code they model.\<close>
  \<^item> \<open>Prelude\<close>: the module constants (lines 1--5), the JavaScript built-ins the code relies on
    (\<open>reduce\<close> without an initial value, \<open>ToInt32\<close> behind \<open>&\<close> and \<open>^\<close>, \<open>Math.pow\<close>,
    \<open>Math.atan2\<close>, \<open>ToUint8Clamp\<close>), the result type and its bind, the loop combinator
    \<open>js_fold\<close> with its loop rule \<open>js_fold_rule\<close>, and shared list lemmas.
  \<^item> \<open>Vec\<close>: \<open>Color\<close> and \<open>Vec3\<close> (lines 7--91 without \<open>randomUnit\<close>): the vector-space
    algebra, length, normalisation, cross product, Cauchy--Schwarz, \<open>reflect\<close>.
  \<^item> \<open>RandomUnit\<close>: \<open>Vec3.randomUnit\<close> (lines 84--90), a rejection loop, as a
    \<open>partial_function (option)\<close>; it returns exactly when an accepted draw lies ahead,
    and then a point strictly inside the unit ball.
  \<^item> \<open>Ray\<close>, \<open>Camera\<close>: \<open>Ray\<close> (normalising constructor, \<open>pointAt\<close>) and \<open>Camera\<close>
    (constructor and \<open>getRay\<close>): rays are unit; the image centre ray starts at the camera
    and looks at the target; the
    vertical field of view is the constructor's angle.
  \<^item> \<open>Texture\<close>, \<open>Material\<close>: \<open>SolidColor\<close>, \<open>Checkerboard\<close> and \<open>Material.brdf\<close>: the
    checkerboard's parity test (on \<open>32 word\<close>), its agreement with the spec's floor formula on
    non-negative coordinates and its departure on negative ones (the cell astride zero is
    two cells wide); the scattered ray leaves from the hit point into the normal's
    half-space, and a reflectance outside \<open>[0, 2]\<close>, exactly, lets the perturbed normal
    vanish.
  \<^item> \<open>Sphere\<close>: \<open>Sphere\<close> (\<open>intersect\<close>, \<open>normal\<close>, \<open>uv\<close>): \<open>intersect\<close> returns the nearest
    root beyond \<open>EPSILON\<close>, a ray leaving the surface
    misses, \<open>uv\<close> lies in the unit square.
  \<^item> \<open>Scene\<close>: \<open>Scene.intersect\<close> refines ``first hit of least \<open>t\<close>''; an empty scene
    throws; after \<open>Scene.add\<close>, \<open>intersect\<close> answers the new sphere's hit only when there
    was none or it is strictly nearer (earlier objects win ties).
  \<^item> \<open>Integrator\<close>: \<open>sample\<close> (lines 296--315), a \<open>function\<close> terminating by its bounce
    counter: a hit at the last bounce returns black, totality, radiance bounds, and its
    only error (the empty scene).
  \<^item> \<open>Paths\<close>: the rays \<open>sample\<close>'s recursion reaches, as an \<open>inductive\<close> relation; in a
    well-formed scene they all have unit direction (rule induction), the precondition of
    \<open>Sphere.intersect\<close>, which takes \<open>dir \<cdot> dir = 1\<close>.
  \<^item> \<open>ImageData\<close>: the canvas buffer (\<open>createImageData\<close>, typed-array stores), \<open>setPixel\<close>
    and \<open>clamp\<close> (lines 249--266, 321): the byte layout and its row flip, disjoint pixel
    writes, the buffer invariant over every sequence of \<open>setPixel\<close> calls (an
    \<open>inductive\<close> reachability relation, by rule induction), the round trip of the two
    gamma conversions, and the 8-bit bound of the encoding of a channel in \<open>[0, 0.9]\<close>
    (at most 243, the byte of 0.9).
  \<^item> \<open>Frame\<close>: the loops of \<open>window.onload\<close> (lines 317--352): the whole frame returned
    with every pixel written, each pixel the average of exactly \<open>SPP \<cdot> AA\<close> samples, its
    colours between black and the sky colour and its bytes at most 243 (alpha 255), and an
    empty scene throwing.
  \<^item> This theory: properties that span components: one diffuse sphere under the sky and
    the frame of \<open>window.onload\<close>.

  \<^bold>\<open>How control flows and where it is proved.\<close> \<open>render\<close> (Frame) calls \<open>getRay\<close>
  (Camera) and \<open>sample\<close> (Integrator); \<open>sample\<close> calls \<open>scene_intersect\<close> (Scene), which
  folds \<open>sphere_intersect\<close> (Sphere), then \<open>brdf\<close> (Material, drawing through
  \<open>vec3_randomUnit\<close>) and \<open>texture_sample\<close> (Texture); the pixel's average is written by
  \<open>setPixel\<close> (ImageData). Totality composes upward: the
  rejection loop returns under \<open>random_ok\<close>, hence \<open>brdf\<close>, hence \<open>sample\<close> (its recursion
  bounded by \<open>MAX_BOUNCES\<close>), hence every loop of the frame by \<open>js_fold_rule\<close>.

  \<^bold>\<open>The random stream.\<close> \<open>randomUnit\<close> can reject forever; no bound on the number of draws
  makes it total. Every totality theorem therefore assumes \<open>random_ok s\<close>: from every
  position of the stream, some later triple of draws (on a three-draw boundary) is accepted.
  It is closed under dropping draws, which is all the composed loops need, and holds of
  the constant stream \<open>1/2\<close> used by the examples. No fuel is used: non-termination is the
  value \<open>None\<close>, and each claim that something returns is proved as existence of a result.

  \<^bold>\<open>Not modelled.\<close> The platform glue of \<open>window.onload\<close> (\<open>getElementById\<close>,
  \<open>getBoundingClientRect\<close>, \<open>getContext\<close>, \<open>putImageData\<close>): the frame is modelled from
  \<open>createImageData\<close>, with the canvas size taken as whole pixels, to the filled buffer. IEEE
  rounding, \<open>NaN\<close> propagation (e.g. \<open>normalize\<close> of a zero vector), the unused
  \<open>lightVec\<close>, and the commented-out code. \<open>Math.random\<close> is not assumed uniform: no
  probabilistic statement is made.

  \<^bold>\<open>Findings.\<close> An empty scene makes \<open>Scene.intersect\<close> throw (spec: no hit) and with it
  \<open>sample\<close> and the whole frame; the checkerboard truncates toward zero where the spec
  says \<open>floor\<close>, which differs only at negative coordinates, which the sphere's \<open>uv\<close> never
  produces; reflectance is not validated (spec: clamp or reject); \<open>setPixel\<close> does not check
  its column; \<open>Sphere.intersect\<close> drops the quadratic's leading coefficient and is right
  only for unit directions, which every ray the program traces has (theory \<open>Paths\<close>).
\<close>

text \<open>
  C9: one sphere of solid colour \<open>c\<close> under the sky: a unit ray sampled below the last
  bounce that misses the sphere returns the sky colour, and one that hits it is scattered
  away from the sphere, which it cannot hit again, so the result is exactly \<open>c\<close> times the
  sky colour. With \<open>c = (0.9, 0.9, 0.9)\<close>
  (the spec's end-to-end example) that is \<open>0.81\<close> per channel, between black and the sky.
\<close>

theorem single_sphere_sample:
  assumes sc: "objects sc = [sp]" and R: "0 < radius sp"
    and tex: "texture (material sp) = SolidColor c"
    and refl: "0 \<le> reflectance (material sp)" "reflectance (material sp) \<le> 1"
    and u: "unit_ray r" and b: "bounce < MAX_BOUNCES"
    and ret: "sample sc r bounce s = Some (Inr (col, s'))"
  shows "col = (if sphere_intersect sp r = None then sky_color else color_mul c sky_color)"
proof -
  have si: "scene_intersect sc r' = Inr (sphere_intersect sp r')" for r'
    by (simp add: scene_intersect_def sc)
  have nb: "\<not> MAX_BOUNCES < bounce" "\<not> MAX_BOUNCES < bounce + 1" using b by simp_all
  show ?thesis
  proof (cases "sphere_intersect sp r")
    case None
    then show ?thesis
      using ret nb by (simp add: sample.simps [of sc r bounce s] si js_return_def)
  next
    case (Some h)
    let ?q = "pointAt r (hit_t h)"
    have h: "h = sphere_hit sp r (hit_t h)" "on_sphere sp r (hit_t h)"
      using sphere_intersect_on_sphere [OF u Some] by simp_all
    have on: "vec3_dot (vec3_sub ?q (pos sp)) (vec3_sub ?q (pos sp)) = radius sp ^ 2"
      using h(2) by (simp add: on_sphere_def)
    have hs: "hit_object h = sp" "hit_point h = ?q" "hit_normal h = sphere_normal sp ?q"
      by (subst h(1); simp)+
    have n: "vec3_dot (hit_normal h) (hit_normal h) = 1"
      using sphere_normal_on_sphere(2) [OF on] R hs(3) by simp
    obtain newRay s1 ind where
      br: "brdf (material sp) h s = Some (newRay, s1)" and
      rec: "sample sc newRay (bounce + 1) s1 = Some (Inr (ind, s'))" and
      col: "col = color_mul (texture_sample (SolidColor c) (vx (hit_uv h)) (vy (hit_uv h))) ind"
      using ret sample_hit [OF nb(1) si [of r, unfolded Some]] hs(1) tex
      by (auto simp: js_bind_eq_Inr js_lift_def js_return_def)
    have out: "origin newRay = ?q" "0 < vec3_dot (hit_normal h) (dir newRay)"
      using brdf_scatter_out [OF n refl br] hs(2) by simp_all
    have "vec3_dot (hit_normal h) (dir newRay) =
          vec3_dot (vec3_sub ?q (pos sp)) (dir newRay) / radius sp"
      using sphere_normal_on_sphere(1) [OF on] R hs(3) by simp
    then have "0 \<le> vec3_dot (vec3_sub (origin newRay) (pos sp)) (dir newRay)"
      using out R by (simp add: zero_less_divide_iff)
    then have "sphere_intersect sp newRay = None"
      using sphere_intersect_leaving [of newRay sp] on out(1) by simp
    then have "ind = sky_color"
      using rec nb(2) by (simp add: sample.simps [of sc newRay "Suc bounce" s1] si js_return_def)
    then show ?thesis using col Some by simp
  qed
qed

theorem single_sphere_sample_witness:
  "objects \<lparr>objects = [test_sphere]\<rparr> = [test_sphere] \<and> 0 < radius test_sphere \<and>
   texture (material test_sphere) = SolidColor (Color 1 1 1) \<and>
   0 \<le> reflectance (material test_sphere) \<and> reflectance (material test_sphere) \<le> 1 \<and>
   unit_ray \<lparr>origin = Vec3 (-2) 1 0, dir = Vec3 1 0 0\<rparr> \<and> (0::nat) < MAX_BOUNCES \<and>
   sample \<lparr>objects = [test_sphere]\<rparr> \<lparr>origin = Vec3 (-2) 1 0, dir = Vec3 1 0 0\<rparr> 0 (sconst (1/2)) =
     Some (Inr (sky_color, sconst (1/2))) \<and>
   sky_color = (if sphere_intersect test_sphere \<lparr>origin = Vec3 (-2) 1 0, dir = Vec3 1 0 0\<rparr> = None
                then sky_color else color_mul (Color 1 1 1) sky_color)"
proof -
  let ?r = "\<lparr>origin = Vec3 (-2) 1 0, dir = Vec3 1 0 0\<rparr>"
  have h1: "objects \<lparr>objects = [test_sphere]\<rparr> = [test_sphere]" "0 < radius test_sphere"
      "texture (material test_sphere) = SolidColor (Color 1 1 1)"
      "0 \<le> reflectance (material test_sphere)" "reflectance (material test_sphere) \<le> 1"
    by (simp_all add: test_sphere_def white_diffuse_def)
  have h2: "unit_ray ?r" "(0::nat) < MAX_BOUNCES"
    by (simp_all add: unit_ray_def vec3_dot_def MAX_BOUNCES_def)
  have "sphere_intersect test_sphere ?r = None"
    by (simp add: sphere_intersect_def vec_defs EPSILON_def test_sphere_def)
  then have h3: "sample \<lparr>objects = [test_sphere]\<rparr> ?r 0 (sconst (1/2)) = Some (Inr (sky_color, sconst (1/2)))"
    by (simp add: sample.simps [of _ _ 0] scene_intersect_single js_return_def)
  show ?thesis
    using h1 h2 h3 single_sphere_sample [OF h1 h2 h3] by blast
qed





end
